(* ===== verification/Prelude.thy ===== *)
theory Prelude
  imports Main "HOL-Library.Sublist"
begin

text \<open>
  Shared vocabulary of the certificate-generation development: the names of the model's
  basic types, the collections of facts the component theories register their unfolding
  rules in, and generic lemmas on lists, characters and sums that several components use.
\<close>

named_theorems model_defs \<open>unfolding rules of the model's non-recursive definitions\<close>
named_theorems render_simps \<open>equations that evaluate a fixed drawing program\<close>

type_synonym path = string
type_synonym millis = nat
type_synonym message_id = string

text \<open>
  A JavaScript exception as the caller sees it: the code under study only ever reads its
  \<open>message\<close> property (route.js and certificate-form.jsx), so an error is its message.
\<close>

datatype js_error = JsError (err_msg: string)

subsection \<open>Lists and characters\<close>

lemma list_all_append_iff [simp]:
  "list_all P (xs @ ys) \<longleftrightarrow> list_all P xs \<and> list_all P ys"
  by (induction xs) auto

lemma char_of_inj_below_256:
  "m < 256 \<Longrightarrow> n < 256 \<Longrightarrow> (char_of m :: char) = char_of n \<longleftrightarrow> m = (n::nat)"
  by (metis mod_less of_char_of)

lemma of_char_of_below_256 [simp]:
  "n < 256 \<Longrightarrow> (of_char (char_of n :: char) :: nat) = n"
  by simp

lemma char_of_nat_eq_iff:
  "(char_of (n::nat) = c) \<longleftrightarrow> n mod 256 = of_char c"
  "(c = char_of (n::nat)) \<longleftrightarrow> n mod 256 = of_char c"
  by (metis char_of_char char_of_mod_256 of_char_of)+

lemma not_in_set_append_Cons:
  "c \<notin> set xs \<Longrightarrow> c \<notin> set ys \<Longrightarrow> c \<noteq> d \<Longrightarrow> c \<notin> set (xs @ d # ys)"
  by simp

lemma find_append:
  "find P (xs @ ys) = (case find P xs of None \<Rightarrow> find P ys | Some x \<Rightarrow> Some x)"
  by (induction xs) auto

end
