(* ===== verification/Js_Values.thy ===== *)
theory Js_Values
  imports Prelude
begin

text \<open>
  The JavaScript runtime behaviour the sources rely on: JSON values as \<open>request.json()\<close>
  produces them, truthiness (the \<open>!body[field]\<close> test of route.js and the \<open>||\<close>
  defaults), property access on a parsed body, \<open>String(v)\<close> (template literals,
  \<open>fillText\<close>, \<open>RegExp.prototype.test\<close>), \<open>String.prototype.replace\<close> with a string
  pattern, \<open>substr\<close>, \<open>Number.prototype.toString\<close> in bases 10 and 36, and
  \<open>parseInt\<close>. A JavaScript string is a \<open>string\<close>; its code units are read as
  Latin-1 characters (code units above 255 are not modelled).
\<close>

subsection \<open>JSON values\<close>

text \<open>
  Numbers are integers here: the five fields and the response bodies of this program are
  strings, booleans or absent, and only the truthiness and the decimal form of a number
  are ever used. An object keeps its members in source order, duplicates included.
\<close>

datatype json =
    JNull
  | JBool bool
  | JNum int
  | JStr string
  | JArr "json list"
  | JObj "(string \<times> json) list"

text \<open>ECMAScript ToBoolean on a value; \<open>None\<close> is \<open>undefined\<close>.\<close>

fun js_truthy :: "json \<Rightarrow> bool" where
  "js_truthy JNull = False"
| "js_truthy (JBool b) = b"
| "js_truthy (JNum n) = (n \<noteq> 0)"
| "js_truthy (JStr s) = (s \<noteq> [])"
| "js_truthy (JArr xs) = True"
| "js_truthy (JObj kvs) = True"

definition js_truthy_opt :: "json option \<Rightarrow> bool" where
  "js_truthy_opt v = (case v of None \<Rightarrow> False | Some x \<Rightarrow> js_truthy x)"

text \<open>
  Property access \<open>v[k]\<close>. On \<open>null\<close> it throws the engine's TypeError; on an object
  parsed by \<open>JSON.parse\<close> the last member with the key wins; strings and arrays have an
  own \<open>length\<close>; every other key of a non-object is \<open>undefined\<close> (index keys and
  prototype members are not among the keys this program reads).
\<close>

fun js_get :: "json \<Rightarrow> string \<Rightarrow> js_error + json option" where
  "js_get JNull k =
     Inl (JsError (''Cannot read properties of null (reading '' @ CHR 0x27 # k @ [CHR 0x27, CHR '')'']))"
| "js_get (JObj kvs) k = Inr (map_of (rev kvs) k)"
| "js_get (JStr s) k = Inr (if k = ''length'' then Some (JNum (int (length s))) else None)"
| "js_get (JArr xs) k = Inr (if k = ''length'' then Some (JNum (int (length xs))) else None)"
| "js_get (JBool b) k = Inr None"
| "js_get (JNum n) k = Inr None"

subsection \<open>Decimal and base-36 digits\<close>

definition digit36 :: "nat \<Rightarrow> char" where
  "digit36 d = (if d < 10 then char_of (48 + d) else char_of (87 + d))"

fun nat_to_dec :: "nat \<Rightarrow> string" where
  "nat_to_dec n = (if n < 10 then [digit36 n] else nat_to_dec (n div 10) @ [digit36 (n mod 10)])"

declare nat_to_dec.simps [simp del]

definition int_to_dec :: "int \<Rightarrow> string" where
  "int_to_dec i = (if i < 0 then CHR ''-'' # nat_to_dec (nat (- i)) else nat_to_dec (nat i))"

definition is_dec_digit :: "char \<Rightarrow> bool" where
  "is_dec_digit c \<longleftrightarrow> 48 \<le> (of_char c :: nat) \<and> (of_char c :: nat) \<le> 57"

definition is_base36_char :: "char \<Rightarrow> bool" where
  "is_base36_char c \<longleftrightarrow> is_dec_digit c \<or> (97 \<le> (of_char c :: nat) \<and> (of_char c :: nat) \<le> 122)"

fun dec_acc :: "nat \<Rightarrow> string \<Rightarrow> nat option" where
  "dec_acc a [] = Some a"
| "dec_acc a (c # cs) = (if is_dec_digit c then dec_acc (10 * a + (of_char c - 48)) cs else None)"

definition dec_to_nat :: "string \<Rightarrow> nat option" where
  "dec_to_nat s = (if s = [] then None else dec_acc 0 s)"

subsection \<open>ToString\<close>

fun js_join :: "string \<Rightarrow> string list \<Rightarrow> string" where
  "js_join sep [] = []"
| "js_join sep [x] = x"
| "js_join sep (x # y # zs) = x @ sep @ js_join sep (y # zs)"

text \<open>
  The string \<open>String(v)\<close> (and a template literal, \<open>RegExp.prototype.test\<close>) computes
  when it returns: an array is joined with commas, its \<open>null\<close> elements printed empty;
  a plain object prints as \<open>[object Object]\<close>. Whether it returns is \<open>to_string_throws\<close>
  below, and \<open>js_ToString\<close> is the conversion with its exception.
\<close>

fun js_to_string :: "json \<Rightarrow> string" where
  "js_to_string JNull = ''null''"
| "js_to_string (JBool b) = (if b then ''true'' else ''false'')"
| "js_to_string (JNum n) = int_to_dec n"
| "js_to_string (JStr s) = s"
| "js_to_string (JArr xs) =
     js_join '','' (map (\<lambda>x. if x = JNull then [] else js_to_string x) xs)"
| "js_to_string (JObj kvs) = ''[object Object]''"

text \<open>\<open>String(v)\<close> of a property read that may be \<open>undefined\<close>.\<close>

definition js_str_opt :: "json option \<Rightarrow> string" where
  "js_str_opt v = (case v of None \<Rightarrow> ''undefined'' | Some x \<Rightarrow> js_to_string x)"

text \<open>
  \<open>ToString\<close> of an object calls its \<open>toString\<close> method, falling back on \<open>valueOf\<close>. A
  parsed object with an own member \<open>toString\<close> hides the inherited method with a value
  that is not callable, and the inherited \<open>valueOf\<close> returns the object itself, so the
  conversion throws a \<open>TypeError\<close>. An array converts its elements (\<open>join\<close>), and throws
  when one of them does. Other values always convert.
\<close>

fun to_string_throws :: "json \<Rightarrow> bool" where
  "to_string_throws (JArr xs) = (True \<in> set (map to_string_throws xs))"
| "to_string_throws (JObj kvs) = (''toString'' \<in> set (map fst kvs))"
| "to_string_throws _ = False"

definition to_primitive_error :: js_error where
  "to_primitive_error = JsError ''Cannot convert object to primitive value''"

definition js_ToString :: "json \<Rightarrow> js_error + string" where
  "js_ToString v = (if to_string_throws v then Inl to_primitive_error else Inr (js_to_string v))"

text \<open>\<open>String(v)\<close> of a property read, \<open>undefined\<close> included.\<close>

definition js_ToString_opt :: "json option \<Rightarrow> js_error + string" where
  "js_ToString_opt v = (case v of None \<Rightarrow> Inr ''undefined'' | Some x \<Rightarrow> js_ToString x)"

subsection \<open>String methods\<close>

text \<open>\<open>s.replace(pat, rep)\<close> with a string pattern replaces the first occurrence only.\<close>

fun replace_first :: "string \<Rightarrow> string \<Rightarrow> string \<Rightarrow> string" where
  "replace_first pat rep [] = (if pat = [] then rep else [])"
| "replace_first pat rep (c # cs) =
     (if prefix pat (c # cs) then rep @ drop (length pat) (c # cs)
      else c # replace_first pat rep cs)"

text \<open>\<open>s.substr(start, len)\<close> for the non-negative arguments the code passes.\<close>

definition js_substr :: "string \<Rightarrow> nat \<Rightarrow> nat \<Rightarrow> string" where
  "js_substr s start len = take len (drop start s)"

text \<open>
  \<open>Math.random().toString(36)\<close>: a double in [0, 1) has a finite base-36 expansion,
  given here by its digit list (each below 36, no trailing zero). Zero prints as \<open>0\<close>,
  anything else as \<open>0.\<close> followed by its digits.
\<close>

definition frac36_to_string :: "nat list \<Rightarrow> string" where
  "frac36_to_string ds = (if ds = [] then ''0'' else ''0.'' @ map digit36 ds)"

subsection \<open>parseInt\<close>

text \<open>
  \<open>parseInt(s)\<close> without a radix: leading white space is skipped, one sign is read,
  a \<open>0x\<close> prefix selects base 16, then the longest run of digits is read; no digit at
  all is \<open>NaN\<close>, here \<open>None\<close>.
\<close>

definition is_js_space :: "char \<Rightarrow> bool" where
  "is_js_space c \<longleftrightarrow> (of_char c :: nat) \<in> {9, 10, 11, 12, 13, 32, 160}"

definition digit_value :: "nat \<Rightarrow> char \<Rightarrow> nat option" where
  "digit_value radix c =
     (let n = (of_char c :: nat);
          v = (if 48 \<le> n \<and> n \<le> 57 then n - 48
               else if 97 \<le> n \<and> n \<le> 122 then n - 87
               else if 65 \<le> n \<and> n \<le> 90 then n - 55 else radix)
      in if v < radix then Some v else None)"

fun digits_prefix :: "nat \<Rightarrow> nat \<Rightarrow> string \<Rightarrow> nat \<times> nat" where
  "digits_prefix radix a [] = (a, 0)"
| "digits_prefix radix a (c # cs) =
     (case digit_value radix c of
        None \<Rightarrow> (a, 0)
      | Some v \<Rightarrow> (let (r, k) = digits_prefix radix (radix * a + v) cs in (r, Suc k)))"

definition js_parse_int :: "string \<Rightarrow> int option" where
  "js_parse_int s =
     (let t = dropWhile is_js_space s;
          (sgn, u) = (case t of
                        c # r \<Rightarrow> if c = CHR ''-'' then (-1, r)
                                 else if c = CHR ''+'' then (1, r) else (1, t)
                      | [] \<Rightarrow> (1, t));
          (radix, v) = (if take 2 u = ''0x'' \<or> take 2 u = ''0X'' then (16, drop 2 u) else (10, u));
          (n, k) = digits_prefix radix 0 v
      in if k = 0 then None else Some (sgn * int n))"

subsection \<open>Facts about the runtime helpers\<close>

subsection \<open>Shapes of JSON values\<close>

text \<open>
  A typing judgement for JSON values, used to state the shape of the bodies the server
  and the client exchange. Object types list the keys in order: \<open>JSON.stringify\<close>
  writes the keys of an object literal in the order of the literal.
\<close>

datatype json_type = T_null | T_bool | T_num | T_str | T_arr json_type | T_obj "(string \<times> json_type) list"

fun has_type :: "json_type \<Rightarrow> json \<Rightarrow> bool"
and all_have_type :: "json_type \<Rightarrow> json list \<Rightarrow> bool"
and fields_have_type :: "(string \<times> json_type) list \<Rightarrow> (string \<times> json) list \<Rightarrow> bool" where
  "has_type T_null JNull = True"
| "has_type T_bool (JBool b) = True"
| "has_type T_num (JNum n) = True"
| "has_type T_str (JStr s) = True"
| "has_type (T_arr t) (JArr xs) = all_have_type t xs"
| "has_type (T_obj fs) (JObj kvs) = fields_have_type fs kvs"
| "has_type _ _ = False"
| "all_have_type t [] = True"
| "all_have_type t (x # xs) = (has_type t x \<and> all_have_type t xs)"
| "fields_have_type [] [] = True"
| "fields_have_type ((k, t) # fs) ((k', v) # kvs) = (k = k' \<and> has_type t v \<and> fields_have_type fs kvs)"
| "fields_have_type _ _ = False"

lemma js_ToString_opt_Inr:
  "js_ToString_opt v = Inr s \<longleftrightarrow> \<not> isl (js_ToString_opt v) \<and> s = js_str_opt v"
  by (auto simp: js_ToString_opt_def js_ToString_def js_str_opt_def split: option.splits)

lemma js_ToString_opt_Inl:
  "js_ToString_opt v = Inl e \<longleftrightarrow> isl (js_ToString_opt v) \<and> e = to_primitive_error"
  by (auto simp: js_ToString_opt_def js_ToString_def split: option.splits)

lemma js_ToString_JStr [simp]: "js_ToString (JStr s) = Inr s"
  by (simp add: js_ToString_def)

lemma js_ToString_opt_simps [simp]:
  "js_ToString_opt None = Inr ''undefined''"
  "js_ToString_opt (Some v) = js_ToString v"
  by (simp_all add: js_ToString_opt_def)

lemma digit36_dec_digit:
  "d < 10 \<Longrightarrow> is_dec_digit (digit36 d) \<and> (of_char (digit36 d) :: nat) - 48 = d"
  by (simp add: digit36_def is_dec_digit_def)

lemma digit36_base36:
  "d < 36 \<Longrightarrow> is_base36_char (digit36 d)"
  by (auto simp: digit36_def is_base36_char_def is_dec_digit_def)

lemma nat_to_dec_ne [simp]: "nat_to_dec n \<noteq> []"
  by (subst nat_to_dec.simps) simp

lemma nat_to_dec_digits: "list_all is_dec_digit (nat_to_dec n)"
proof (induction n rule: nat_to_dec.induct)
  case (1 n)
  then show ?case
    by (subst nat_to_dec.simps) (simp add: digit36_dec_digit)
qed

lemma dec_acc_append:
  "dec_acc a (xs @ ys) = (case dec_acc a xs of None \<Rightarrow> None | Some b \<Rightarrow> dec_acc b ys)"
  by (induction a xs rule: dec_acc.induct) auto

lemma dec_acc_nat_to_dec:
  "dec_acc a (nat_to_dec n) = Some (a * 10 ^ length (nat_to_dec n) + n)"
proof (induction n arbitrary: a rule: nat_to_dec.induct)
  case (1 n)
  show ?case
  proof (cases "n < 10")
    case True
    then show ?thesis
      by (subst (1 2) nat_to_dec.simps) (simp add: digit36_dec_digit)
  next
    case False
    let ?ds = "nat_to_dec (n div 10)"
    have "dec_acc a (nat_to_dec n) = dec_acc (a * 10 ^ length ?ds + n div 10) [digit36 (n mod 10)]"
      using False "1.IH" by (subst nat_to_dec.simps) (simp add: dec_acc_append)
    also have "\<dots> = Some (a * 10 ^ Suc (length ?ds) + n)"
      by (simp add: digit36_dec_digit algebra_simps)
    also have "Suc (length ?ds) = length (nat_to_dec n)"
      using False by (subst (2) nat_to_dec.simps) simp
    finally show ?thesis .
  qed
qed

lemma dec_to_nat_nat_to_dec [simp]: "dec_to_nat (nat_to_dec n) = Some n"
  by (simp add: dec_to_nat_def dec_acc_nat_to_dec)

lemma replace_first_skip:
  "pat \<noteq> [] \<Longrightarrow> hd pat \<notin> set xs \<Longrightarrow> replace_first pat rep (xs @ ys) = xs @ replace_first pat rep ys"
proof (induction xs)
  case (Cons x xs)
  then have "\<not> prefix pat (x # xs @ ys)"
    by (cases pat) auto
  with Cons show ?case by simp
qed simp

lemma replace_first_here:
  "replace_first pat rep (pat @ ys) = rep @ ys"
proof (cases "pat @ ys")
  case Nil
  then show ?thesis by simp
next
  case (Cons c cs)
  then have "prefix pat (c # cs)" by (metis prefixI)
  then have "replace_first pat rep (c # cs) = rep @ drop (length pat) (c # cs)"
    by simp
  with Cons show ?thesis by (metis append_eq_conv_conj)
qed

lemma digit_value_dec:
  "is_dec_digit c \<Longrightarrow> digit_value 10 c = Some (of_char c - 48)"
  by (auto simp: digit_value_def is_dec_digit_def Let_def)

lemma digits_prefix_dec_acc:
  "list_all is_dec_digit xs \<Longrightarrow>
     dec_acc a xs = Some (fst (digits_prefix 10 a xs)) \<and> snd (digits_prefix 10 a xs) = length xs"
proof (induction xs arbitrary: a)
  case (Cons x xs)
  let ?a = "10 * a + (of_char x - 48)"
  from Cons.prems have "is_dec_digit x" and "list_all is_dec_digit xs" by simp_all
  with Cons.IH [of ?a] show ?case
    by (cases "digits_prefix 10 ?a xs") (simp add: digit_value_dec)
qed simp

lemma dec_digit_not_sign:
  "is_dec_digit c \<Longrightarrow> \<not> is_js_space c \<and> c \<noteq> CHR ''-'' \<and> c \<noteq> CHR ''+'' \<and> c \<noteq> CHR ''x'' \<and> c \<noteq> CHR ''X''"
  by (auto simp: is_dec_digit_def is_js_space_def)

lemma js_parse_int_nat_to_dec: "js_parse_int (nat_to_dec n) = Some (int n)"
proof -
  obtain c cs where cs: "nat_to_dec n = c # cs"
    by (cases "nat_to_dec n") auto
  have dig: "list_all is_dec_digit (c # cs)"
    using nat_to_dec_digits [of n] cs by simp
  then have c: "\<not> is_js_space c" "c \<noteq> CHR ''-''" "c \<noteq> CHR ''+''"
    using dec_digit_not_sign by auto
  have nx: "take 2 (c # cs) \<noteq> ''0x'' \<and> take 2 (c # cs) \<noteq> ''0X''"
    using dig dec_digit_not_sign by (cases cs) auto
  have "dec_acc 0 (c # cs) = Some n"
    using dec_acc_nat_to_dec [of 0 n] cs by simp
  with digits_prefix_dec_acc [OF dig, of 0]
  have dp: "digits_prefix 10 0 (c # cs) = (n, length (c # cs))"
    by (cases "digits_prefix 10 0 (c # cs)") simp
  show ?thesis
    using c nx dp by (auto simp: js_parse_int_def cs Let_def simp del: digits_prefix.simps)
qed
lemma sublist_append_left_trans: "sublist x ys \<Longrightarrow> sublist x (zs @ ys)"
  by (auto simp: sublist_def) (metis append_assoc)

lemma sublist_js_join: "x \<in> set xs \<Longrightarrow> sublist x (js_join sep xs)"
proof (induction sep xs rule: js_join.induct)
  case (3 sep x' y zs)
  show ?case
  proof (cases "x = x'")
    case False
    with "3" have "sublist x (js_join sep (y # zs))" by simp
    then show ?thesis using sublist_append_left_trans [of x _ "x' @ sep"] by simp
  qed simp
qed auto

end
