(* ===== verification/Canvas.thy ===== *)
theory Canvas
  imports Js_Values
begin

text \<open>
  The canvas renderer of src/lib/certificate-generator.js (\<open>generateJPG\<close>, lines 42-116):
  the HTML canvas 2D context as a state machine. The context keeps the current fill and
  stroke style, line width, font, text alignment and path; each drawing call either
  changes that state or paints with it. Running the certificate's drawing program from
  the context's initial state yields the list of painted primitives (the display list),
  which is what the image encoder later rasterises. Encoding and the file write are in
  Cert_Generator.
\<close>

subsection \<open>Context state and operations\<close>

datatype text_align = Align_start | Align_left | Align_center | Align_right | Align_end

text \<open>A paint style is a CSS colour or a linear gradient with its colour stops.\<close>

datatype paint_style =
    Color string
  | Linear_gradient int int int int "(int \<times> string) list"

record css_font =
  font_bold :: bool
  font_px :: nat
  font_family :: string

text \<open>
  The part of the CSS \<open>font\<close> shorthand this program uses: an optional \<open>bold\<close>, a size
  in pixels and one family name. A value the parser rejects leaves the font unchanged,
  as the canvas specification prescribes for invalid font strings.
\<close>

function split_words :: "string \<Rightarrow> string list" where
  "split_words [] = []"
| "split_words (c # cs) =
     (if c = CHR '' '' then split_words cs
      else takeWhile (\<lambda>x. x \<noteq> CHR '' '') (c # cs) # split_words (dropWhile (\<lambda>x. x \<noteq> CHR '' '') cs))"
  by pat_completeness auto
termination
  by (relation "measure length") (auto simp: le_imp_less_Suc length_dropWhile_le)

definition parse_px :: "string \<Rightarrow> nat option" where
  "parse_px w =
     (if 2 < length w \<and> drop (length w - 2) w = ''px'' then dec_to_nat (take (length w - 2) w)
      else None)"

definition parse_css_font :: "string \<Rightarrow> css_font option" where
  "parse_css_font s =
     (case split_words s of
        [w, sz, fam] \<Rightarrow>
          (if w = ''bold'' then map_option (\<lambda>n. \<lparr>font_bold = True, font_px = n, font_family = fam\<rparr>) (parse_px sz)
           else None)
      | [sz, fam] \<Rightarrow> map_option (\<lambda>n. \<lparr>font_bold = False, font_px = n, font_family = fam\<rparr>) (parse_px sz)
      | _ \<Rightarrow> None)"

record ctx2d =
  fillStyle :: paint_style
  strokeStyle :: paint_style
  lineWidth :: int
  font :: css_font
  textAlign :: text_align
  cur_path :: "(int \<times> int) list list"

text \<open>The initial state of a fresh 2D context (HTML canvas specification).\<close>

definition ctx_init :: ctx2d where
  "ctx_init =
     \<lparr>fillStyle = Color ''#000000'', strokeStyle = Color ''#000000'', lineWidth = 1,
      font = \<lparr>font_bold = False, font_px = 10, font_family = ''sans-serif''\<rparr>,
      textAlign = Align_start, cur_path = []\<rparr>"

datatype canvas_op =
    Set_fillStyle paint_style
  | Set_strokeStyle paint_style
  | Set_lineWidth int
  | Set_font string
  | Set_textAlign text_align
  | FillRect int int int int
  | StrokeRect int int int int
  | FillText string int int
  | BeginPath
  | MoveTo int int
  | LineTo int int
  | Stroke

datatype paint =
    Paint_fill_rect paint_style int int int int
  | Paint_stroke_rect paint_style int int int int int
  | Paint_text paint_style css_font text_align string int int
  | Paint_stroke_path paint_style int "(int \<times> int) list list"

text \<open>
  One call on the context. \<open>lineWidth\<close> ignores values that are not positive;
  \<open>lineTo\<close> on an empty path starts a subpath as \<open>moveTo\<close> does; \<open>stroke\<close> keeps
  the path (only \<open>beginPath\<close> clears it).
\<close>

fun canvas_step :: "ctx2d \<Rightarrow> canvas_op \<Rightarrow> ctx2d \<times> paint list" where
  "canvas_step c (Set_fillStyle s) = (c\<lparr>fillStyle := s\<rparr>, [])"
| "canvas_step c (Set_strokeStyle s) = (c\<lparr>strokeStyle := s\<rparr>, [])"
| "canvas_step c (Set_lineWidth w) = (if 0 < w then c\<lparr>lineWidth := w\<rparr> else c, [])"
| "canvas_step c (Set_font s) =
     ((case parse_css_font s of None \<Rightarrow> c | Some f \<Rightarrow> c\<lparr>font := f\<rparr>), [])"
| "canvas_step c (Set_textAlign a) = (c\<lparr>textAlign := a\<rparr>, [])"
| "canvas_step c (FillRect x y w h) = (c, [Paint_fill_rect (fillStyle c) x y w h])"
| "canvas_step c (StrokeRect x y w h) = (c, [Paint_stroke_rect (strokeStyle c) (lineWidth c) x y w h])"
| "canvas_step c (FillText s x y) = (c, [Paint_text (fillStyle c) (font c) (textAlign c) s x y])"
| "canvas_step c BeginPath = (c\<lparr>cur_path := []\<rparr>, [])"
| "canvas_step c (MoveTo x y) = (c\<lparr>cur_path := cur_path c @ [[(x, y)]]\<rparr>, [])"
| "canvas_step c (LineTo x y) =
     (c\<lparr>cur_path := (if cur_path c = [] then [[(x, y)]]
                     else butlast (cur_path c) @ [last (cur_path c) @ [(x, y)]])\<rparr>, [])"
| "canvas_step c Stroke = (c, [Paint_stroke_path (strokeStyle c) (lineWidth c) (cur_path c)])"

fun canvas_run :: "ctx2d \<Rightarrow> canvas_op list \<Rightarrow> ctx2d \<times> paint list" where
  "canvas_run c [] = (c, [])"
| "canvas_run c (op # ops) =
     (let (c1, p1) = canvas_step c op; (c2, p2) = canvas_run c1 ops in (c2, p1 @ p2))"

subsection \<open>The certificate drawing program\<close>

text \<open>
  The object \<open>{name, gstNumber, businessName, businessAddress}\<close> that
  \<open>generateCertificate\<close> passes to both renderers (lines 19-32). The fields are the
  request body's property reads as they are (\<open>None\<close> for \<open>undefined\<close>), so every
  use of one goes through \<open>String(v)\<close>.
\<close>

record cert_data =
  d_name :: "json option"
  d_gstNumber :: "json option"
  d_businessName :: "json option"
  d_businessAddress :: "json option"

text \<open>
  The calls of \<open>generateJPG\<close> from line 49 to line 116, in order, on a 1200 x 800
  canvas; \<open>date\<close> is \<open>new Date().toLocaleDateString()\<close>. \<open>width / 2\<close> is exact,
  the width being even.
\<close>

definition jpg_ops :: "cert_data \<Rightarrow> string \<Rightarrow> canvas_op list" where
  "jpg_ops d date =
     (let width = (1200::int); height = (800::int);
          gold = Color ''#fbbf24''; white = Color ''#ffffff'';
          detailsX = (100::int); detailsY = (470::int); lineHeight = (45::int)
      in [Set_fillStyle (Linear_gradient 0 0 width height [(0, ''#1e3a8a''), (1, ''#1e40af'')]),
          FillRect 0 0 width height,
          Set_strokeStyle gold, Set_lineWidth 8, StrokeRect 20 20 (width - 40) (height - 40),
          Set_strokeStyle gold, Set_lineWidth 3, StrokeRect 40 40 (width - 80) (height - 80),
          Set_fillStyle gold, Set_font ''bold 60px serif'', Set_textAlign Align_center,
          FillText ''CERTIFICATE OF COMPLETION'' (width div 2) 120,
          Set_strokeStyle gold, Set_lineWidth 2, BeginPath, MoveTo 200 160, LineTo (width - 200) 160,
          Stroke,
          Set_fillStyle white, Set_font ''24px serif'', Set_textAlign Align_center,
          FillText ''This is to certify that'' (width div 2) 250,
          Set_fillStyle gold, Set_font ''bold 48px serif'', FillText (js_str_opt (d_name d)) (width div 2) 330,
          Set_fillStyle white, Set_font ''20px serif'',
          FillText ''has successfully completed the requirements'' (width div 2) 390,
          Set_font ''18px serif'',
          Set_fillStyle white, FillText (''Business: '' @ js_str_opt (d_businessName d)) detailsX detailsY,
          FillText (''GST Number: '' @ js_str_opt (d_gstNumber d)) detailsX (detailsY + lineHeight),
          FillText (''Address: '' @ js_str_opt (d_businessAddress d)) detailsX (detailsY + lineHeight + lineHeight),
          Set_fillStyle white, Set_font ''16px serif'', Set_textAlign Align_left,
          FillText (''Date: '' @ date) 100 720,
          Set_textAlign Align_right, FillText ''Authorized Signature'' (width - 100) 720])"

definition render_jpg :: "cert_data \<Rightarrow> string \<Rightarrow> paint list" where
  "render_jpg d date = snd (canvas_run ctx_init (jpg_ops d date))"

text \<open>
  The drawing program converts the four fields to strings: \<open>fillText(data.name)\<close> at
  line 88 and the template literals of lines 102, 105 and 108 (pdfkit's \<open>text\<close> does the
  same at lines 185 and 197-199). A field whose conversion throws (\<open>to_string_throws\<close>)
  makes the drawing throw that \<open>TypeError\<close> before anything is encoded or written;
  otherwise the strings drawn are the fields' \<open>js_str_opt\<close>. \<open>cert_text_error\<close> is the
  first exception of these conversions, in the order of the code.
\<close>

fun first_error :: "json option list \<Rightarrow> js_error option" where
  "first_error [] = None"
| "first_error (v # vs) = (case js_ToString_opt v of Inl e \<Rightarrow> Some e | Inr _ \<Rightarrow> first_error vs)"

definition cert_text_error :: "cert_data \<Rightarrow> js_error option" where
  "cert_text_error d = first_error [d_name d, d_businessName d, d_gstNumber d, d_businessAddress d]"

subsection \<open>Text items\<close>

text \<open>
  What a reader sees of a painted text: its string, anchor, alignment, colour, size and
  weight. Both renderers are compared through this view (Spec2Isabelle).
\<close>

record text_item =
  ti_text :: string
  ti_x :: int
  ti_y :: int
  ti_align :: text_align
  ti_color :: paint_style
  ti_px :: nat
  ti_bold :: bool

fun canvas_text_items :: "paint list \<Rightarrow> text_item list" where
  "canvas_text_items [] = []"
| "canvas_text_items (Paint_text st f a s x y # ps) =
     \<lparr>ti_text = s, ti_x = x, ti_y = y, ti_align = a, ti_color = st,
      ti_px = font_px f, ti_bold = font_bold f\<rparr> # canvas_text_items ps"
| "canvas_text_items (_ # ps) = canvas_text_items ps"

subsection \<open>Running drawing programs\<close>

lemma canvas_run_append:
  "canvas_run c (xs @ ys) =
     (let (c1, p1) = canvas_run c xs; (c2, p2) = canvas_run c1 ys in (c2, p1 @ p2))"
  by (induction xs arbitrary: c) (auto split: prod.splits)

lemma first_error_None: "first_error vs = None \<longleftrightarrow> list_all (\<lambda>v. \<not> isl (js_ToString_opt v)) vs"
  by (induction vs) (auto split: sum.split)

lemma first_error_Some: "first_error vs = Some e \<Longrightarrow> e = to_primitive_error"
  by (induction vs) (auto simp: js_ToString_opt_Inl split: sum.splits)

lemma fst_canvas_run_Cons:
  "fst (canvas_run c (op # ops)) = fst (canvas_run (fst (canvas_step c op)) ops)"
  by (simp split: prod.split)

lemma canvas_step_lineWidth_pos:
  "0 < lineWidth c \<Longrightarrow> 0 < lineWidth (fst (canvas_step c op))"
  by (cases op) (auto split: option.split)

lemma render_jpg_eq [render_simps]:
  "render_jpg d date =
    [Paint_fill_rect (Linear_gradient 0 0 1200 800 [(0, ''#1e3a8a''), (1, ''#1e40af'')]) 0 0 1200 800,
     Paint_stroke_rect (Color ''#fbbf24'') 8 20 20 1160 760,
     Paint_stroke_rect (Color ''#fbbf24'') 3 40 40 1120 720,
     Paint_text (Color ''#fbbf24'') \<lparr>font_bold = True, font_px = 60, font_family = ''serif''\<rparr> Align_center
       ''CERTIFICATE OF COMPLETION'' 600 120,
     Paint_stroke_path (Color ''#fbbf24'') 2 [[(200, 160), (1000, 160)]],
     Paint_text (Color ''#ffffff'') \<lparr>font_bold = False, font_px = 24, font_family = ''serif''\<rparr> Align_center
       ''This is to certify that'' 600 250,
     Paint_text (Color ''#fbbf24'') \<lparr>font_bold = True, font_px = 48, font_family = ''serif''\<rparr> Align_center
       (js_str_opt (d_name d)) 600 330,
     Paint_text (Color ''#ffffff'') \<lparr>font_bold = False, font_px = 20, font_family = ''serif''\<rparr> Align_center
       ''has successfully completed the requirements'' 600 390,
     Paint_text (Color ''#ffffff'') \<lparr>font_bold = False, font_px = 18, font_family = ''serif''\<rparr> Align_center
       (''Business: '' @ js_str_opt (d_businessName d)) 100 470,
     Paint_text (Color ''#ffffff'') \<lparr>font_bold = False, font_px = 18, font_family = ''serif''\<rparr> Align_center
       (''GST Number: '' @ js_str_opt (d_gstNumber d)) 100 515,
     Paint_text (Color ''#ffffff'') \<lparr>font_bold = False, font_px = 18, font_family = ''serif''\<rparr> Align_center
       (''Address: '' @ js_str_opt (d_businessAddress d)) 100 560,
     Paint_text (Color ''#ffffff'') \<lparr>font_bold = False, font_px = 16, font_family = ''serif''\<rparr> Align_left
       (''Date: '' @ date) 100 720,
     Paint_text (Color ''#ffffff'') \<lparr>font_bold = False, font_px = 16, font_family = ''serif''\<rparr> Align_right
       ''Authorized Signature'' 1100 720]"
  by (simp add: render_jpg_def jpg_ops_def ctx_init_def parse_css_font_def parse_px_def
      dec_to_nat_def is_dec_digit_def Let_def)

subsection \<open>Properties of the canvas renderer\<close>

text \<open>
  The context's line width stays positive through any drawing program: the setter
  ignores zero and negative widths, so every stroke is painted with a positive width.
\<close>

lemma canvas_run_lineWidth_pos:
  "0 < lineWidth c \<Longrightarrow> 0 < lineWidth (fst (canvas_run c ops))"
proof (induction ops arbitrary: c)
  case (Cons op ops)
  from Cons.prems have "0 < lineWidth (fst (canvas_step c op))" by (rule canvas_step_lineWidth_pos)
  then show ?case by (simp only: fst_canvas_run_Cons Cons.IH)
qed simp

theorem canvas_run_lineWidth_pos_witness:
  "0 < lineWidth ctx_init \<and> 0 < lineWidth (fst (canvas_run ctx_init [Set_lineWidth 0, Set_lineWidth (-3)]))"
  using canvas_run_lineWidth_pos [of ctx_init "[Set_lineWidth 0, Set_lineWidth (-3)]"]
  by (simp add: ctx_init_def)

text \<open>
  C8. The three detail lines of the image (business, GST number, address) are drawn with
  the text alignment still set to \<open>center\<close> by line 82: \<open>generateJPG\<close> only switches
  to \<open>left\<close> at line 113, for the footer. Each detail line is therefore centred on x = 100,
  not left-aligned at x = 100 as the layout prescribes.
\<close>

theorem canvas_detail_lines_centered:
  "map (\<lambda>i. (ti_text i, ti_x i, ti_y i, ti_align i)) (take 3 (drop 4 (canvas_text_items (render_jpg d date)))) =
     [(''Business: '' @ js_str_opt (d_businessName d), 100, 470, Align_center),
      (''GST Number: '' @ js_str_opt (d_gstNumber d), 100, 515, Align_center),
      (''Address: '' @ js_str_opt (d_businessAddress d), 100, 560, Align_center)]"
  by (simp add: render_jpg_eq)

end
