(* ===== verification/Pdf_Doc.thy ===== *)
theory Pdf_Doc
  imports Canvas
begin

text \<open>
  The document renderer of src/lib/certificate-generator.js (\<open>generatePDF\<close>, lines
  148-213), drawing part: a pdfkit document as a state machine. The document keeps the
  current fill and stroke colour, line width, font size, font name and the path under
  construction; \<open>fill()\<close> and \<open>stroke()\<close> paint the path and end it, \<open>text()\<close>
  paints a string with the current fill colour and font. Running the certificate's
  chained calls from a new document gives its page content as a list of marks. The
  stream to disk is in Cert_Generator.
\<close>

datatype pdf_seg = Seg_rect int int int int | Seg_move int int | Seg_line int int

record pdf_state =
  pdf_fillColor :: string
  pdf_strokeColor :: string
  pdf_lineWidth :: int
  pdf_fontSize :: nat
  pdf_font :: string
  pdf_path :: "pdf_seg list"

text \<open>A new pdfkit document: black, line width 1, 12 pt Helvetica, no path.\<close>

definition pdf_init :: pdf_state where
  "pdf_init =
     \<lparr>pdf_fillColor = ''black'', pdf_strokeColor = ''black'', pdf_lineWidth = 1,
      pdf_fontSize = 12, pdf_font = ''Helvetica'', pdf_path = []\<rparr>"

text \<open>
  The document methods the renderer calls. \<open>Doc_text s x y align width\<close> is
  \<open>doc.text(s, x, y, {align, width})\<close>; an absent option is \<open>None\<close>.
\<close>

datatype pdf_op =
    Doc_fillColor string
  | Doc_strokeColor string
  | Doc_lineWidth int
  | Doc_rect int int int int
  | Doc_fill
  | Doc_stroke
  | Doc_fontSize nat
  | Doc_font string
  | Doc_text string int int "text_align option" "int option"
  | Doc_moveTo int int
  | Doc_lineTo int int

datatype pdf_mark =
    Mark_fill string "pdf_seg list"
  | Mark_stroke string int "pdf_seg list"
  | Mark_text string string nat text_align "int option" string int int

fun pdf_step :: "pdf_state \<Rightarrow> pdf_op \<Rightarrow> pdf_state \<times> pdf_mark list" where
  "pdf_step s (Doc_fillColor c) = (s\<lparr>pdf_fillColor := c\<rparr>, [])"
| "pdf_step s (Doc_strokeColor c) = (s\<lparr>pdf_strokeColor := c\<rparr>, [])"
| "pdf_step s (Doc_lineWidth w) = (s\<lparr>pdf_lineWidth := w\<rparr>, [])"
| "pdf_step s (Doc_rect x y w h) = (s\<lparr>pdf_path := pdf_path s @ [Seg_rect x y w h]\<rparr>, [])"
| "pdf_step s Doc_fill = (s\<lparr>pdf_path := []\<rparr>, [Mark_fill (pdf_fillColor s) (pdf_path s)])"
| "pdf_step s Doc_stroke =
     (s\<lparr>pdf_path := []\<rparr>, [Mark_stroke (pdf_strokeColor s) (pdf_lineWidth s) (pdf_path s)])"
| "pdf_step s (Doc_fontSize n) = (s\<lparr>pdf_fontSize := n\<rparr>, [])"
| "pdf_step s (Doc_font f) = (s\<lparr>pdf_font := f\<rparr>, [])"
| "pdf_step s (Doc_text t x y a w) =
     (s, if t = [] then []
         else [Mark_text (pdf_fillColor s) (pdf_font s) (pdf_fontSize s)
                 (case a of None \<Rightarrow> Align_left | Some al \<Rightarrow> al) w t x y])"
| "pdf_step s (Doc_moveTo x y) = (s\<lparr>pdf_path := pdf_path s @ [Seg_move x y]\<rparr>, [])"
| "pdf_step s (Doc_lineTo x y) = (s\<lparr>pdf_path := pdf_path s @ [Seg_line x y]\<rparr>, [])"

fun pdf_run :: "pdf_state \<Rightarrow> pdf_op list \<Rightarrow> pdf_state \<times> pdf_mark list" where
  "pdf_run s [] = (s, [])"
| "pdf_run s (op # ops) =
     (let (s1, m1) = pdf_step s op; (s2, m2) = pdf_run s1 ops in (s2, m1 @ m2))"

text \<open>
  pdfkit's \<open>text(t, ...)\<close> first converts its argument with
  \<open>t == null ? '' : `${t}`\<close>, and draws no fragment for an empty string (\<open>pdf_step\<close>
  above). Line 185 passes \<open>data.name\<close> unconverted, so an absent or \<open>null\<close> name prints
  nothing.
\<close>

definition pdf_text_arg :: "json option \<Rightarrow> string" where
  "pdf_text_arg v = (case v of None \<Rightarrow> [] | Some JNull \<Rightarrow> [] | Some x \<Rightarrow> js_to_string x)"

text \<open>The chained calls of lines 162-203, in order, on a 1200 x 800 page.\<close>

definition pdf_ops :: "cert_data \<Rightarrow> string \<Rightarrow> pdf_op list" where
  "pdf_ops d date =
     [Doc_fillColor ''#1e3a8a'', Doc_rect 20 20 1160 760, Doc_fill,
      Doc_strokeColor ''#fbbf24'', Doc_lineWidth 8, Doc_rect 20 20 1160 760, Doc_stroke,
      Doc_strokeColor ''#fbbf24'', Doc_lineWidth 3, Doc_rect 40 40 1120 720, Doc_stroke,
      Doc_fillColor ''#fbbf24'', Doc_fontSize 60, Doc_font ''Courier-Bold'',
      Doc_text ''CERTIFICATE OF COMPLETION'' 0 100 (Some Align_center) (Some 1200),
      Doc_strokeColor ''#fbbf24'', Doc_lineWidth 2, Doc_moveTo 200 160, Doc_lineTo 1000 160, Doc_stroke,
      Doc_fillColor ''#ffffff'', Doc_fontSize 24, Doc_font ''Courier'',
      Doc_text ''This is to certify that'' 0 250 (Some Align_center) (Some 1200),
      Doc_fillColor ''#fbbf24'', Doc_fontSize 48, Doc_font ''Courier-Bold'',
      Doc_text (pdf_text_arg (d_name d)) 0 330 (Some Align_center) (Some 1200),
      Doc_fillColor ''#ffffff'', Doc_fontSize 20, Doc_font ''Courier'',
      Doc_text ''has successfully completed the requirements'' 0 390 (Some Align_center) (Some 1200),
      Doc_fontSize 18, Doc_text (''Business: '' @ js_str_opt (d_businessName d)) 100 470 None None,
      Doc_text (''GST Number: '' @ js_str_opt (d_gstNumber d)) 100 510 None None,
      Doc_text (''Address: '' @ js_str_opt (d_businessAddress d)) 100 550 None None,
      Doc_fontSize 16, Doc_text (''Date: '' @ date) 100 720 None None,
      Doc_text ''Authorized Signature'' 900 720 None None]"

definition render_pdf :: "cert_data \<Rightarrow> string \<Rightarrow> pdf_mark list" where
  "render_pdf d date = snd (pdf_run pdf_init (pdf_ops d date))"

text \<open>The text view of a page; a font is bold when its name ends in \<open>-Bold\<close>.\<close>

definition pdf_font_bold :: "string \<Rightarrow> bool" where
  "pdf_font_bold f \<longleftrightarrow> suffix ''-Bold'' f"

fun pdf_text_items :: "pdf_mark list \<Rightarrow> text_item list" where
  "pdf_text_items [] = []"
| "pdf_text_items (Mark_text c f n a w s x y # ms) =
     \<lparr>ti_text = s, ti_x = x, ti_y = y, ti_align = a, ti_color = Color c,
      ti_px = n, ti_bold = pdf_font_bold f\<rparr> # pdf_text_items ms"
| "pdf_text_items (_ # ms) = pdf_text_items ms"

lemma render_pdf_eq [render_simps]:
  "render_pdf d date =
    [Mark_fill ''#1e3a8a'' [Seg_rect 20 20 1160 760],
     Mark_stroke ''#fbbf24'' 8 [Seg_rect 20 20 1160 760],
     Mark_stroke ''#fbbf24'' 3 [Seg_rect 40 40 1120 720],
     Mark_text ''#fbbf24'' ''Courier-Bold'' 60 Align_center (Some 1200) ''CERTIFICATE OF COMPLETION'' 0 100,
     Mark_stroke ''#fbbf24'' 2 [Seg_move 200 160, Seg_line 1000 160],
     Mark_text ''#ffffff'' ''Courier'' 24 Align_center (Some 1200) ''This is to certify that'' 0 250] @
    (if pdf_text_arg (d_name d) = [] then []
     else [Mark_text ''#fbbf24'' ''Courier-Bold'' 48 Align_center (Some 1200) (pdf_text_arg (d_name d)) 0 330]) @
    [Mark_text ''#ffffff'' ''Courier'' 20 Align_center (Some 1200)
       ''has successfully completed the requirements'' 0 390,
     Mark_text ''#ffffff'' ''Courier'' 18 Align_left None (''Business: '' @ js_str_opt (d_businessName d)) 100 470,
     Mark_text ''#ffffff'' ''Courier'' 18 Align_left None (''GST Number: '' @ js_str_opt (d_gstNumber d)) 100 510,
     Mark_text ''#ffffff'' ''Courier'' 18 Align_left None (''Address: '' @ js_str_opt (d_businessAddress d)) 100 550,
     Mark_text ''#ffffff'' ''Courier'' 16 Align_left None (''Date: '' @ date) 100 720,
     Mark_text ''#ffffff'' ''Courier'' 16 Align_left None ''Authorized Signature'' 900 720]"
  by (simp add: render_pdf_def pdf_ops_def pdf_init_def js_str_opt_def)

lemma pdf_text_arg_shown: "pdf_text_arg v \<noteq> [] \<Longrightarrow> pdf_text_arg v = js_str_opt v"
  by (auto simp: pdf_text_arg_def js_str_opt_def split: option.splits json.splits)

lemma pdf_font_bold_simps [simp]:
  "pdf_font_bold ''Courier-Bold''" "\<not> pdf_font_bold ''Courier''"
  by (simp_all add: pdf_font_bold_def suffix_def)

end
