(* ===== verification/Paths.thy ===== *)
theory Paths
  imports Js_Values
begin

text \<open>
  The parts of Node's \<open>path\<close> module (POSIX flavour) the certificate code calls:
  \<open>path.join\<close> (certificate-generator.js lines 7, 118 and 149) joins its non-empty
  arguments with \<open>/\<close> and normalises the result, \<open>path.dirname\<close> is the parent a write
  needs, and \<open>path_prefixes\<close> are the directories \<open>fs.mkdirSync\<close> creates with
  \<open>recursive: true\<close> (line 9). \<open>split_on\<close> and \<open>norm_segs\<close> follow \<open>normalizeString\<close>:
  empty and \<open>.\<close> segments vanish, \<open>..\<close> removes the previous segment, and survives at
  the front of a relative path only. The lemmas show that joining a normalised directory
  with a plain file name appends \<open>/name\<close>, that \<open>dirname\<close> undoes it, and that every
  join ending in a plain segment is normalised.
\<close>


fun split_on :: "char \<Rightarrow> string \<Rightarrow> string list" where
  "split_on c [] = [[]]"
| "split_on c (x # xs) =
     (if x = c then [] # split_on c xs
      else (case split_on c xs of [] \<Rightarrow> [[x]] | y # ys \<Rightarrow> (x # y) # ys))"

fun norm_segs :: "bool \<Rightarrow> string list \<Rightarrow> string list \<Rightarrow> string list" where
  "norm_segs up acc [] = rev acc"
| "norm_segs up acc (sg # ss) =
     (if sg = [] \<or> sg = ''.'' then norm_segs up acc ss
      else if sg = ''..'' then
        (case acc of
           [] \<Rightarrow> norm_segs up (if up then [''..''] else []) ss
         | x # acc' \<Rightarrow>
             if x \<noteq> ''..'' then norm_segs up acc' ss
             else norm_segs up (if up then ''..'' # acc else acc) ss)
      else norm_segs up (sg # acc) ss)"

definition path_normalize :: "string \<Rightarrow> string" where
  "path_normalize p =
     (if p = [] then ''.'' else
      let abs = (hd p = CHR ''/''); trail = (last p = CHR ''/'');
          body = js_join ''/'' (norm_segs (\<not> abs) [] (split_on CHR ''/'' p))
      in if body = [] then (if abs then ''/'' else if trail then ''./'' else ''.'')
         else (if abs then ''/'' else []) @ body @ (if trail then ''/'' else []))"

definition path_join_list :: "string list \<Rightarrow> string" where
  "path_join_list xs =
     (let parts = filter (\<lambda>a. a \<noteq> []) xs
      in if parts = [] then ''.'' else path_normalize (js_join ''/'' parts))"

definition dirname :: "string \<Rightarrow> string" where
  "dirname p =
     (if p = [] then ''.'' else
      let rs = dropWhile (\<lambda>c. c \<noteq> CHR ''/'') (dropWhile (\<lambda>c. c = CHR ''/'') (rev (tl p)))
      in if rs = [] then (if hd p = CHR ''/'' then ''/'' else ''.'')
         else if hd p = CHR ''/'' \<and> length rs = 1 then ''//'' else take (length rs) p)"

text \<open>
  The ancestors \<open>fs.mkdirSync(p, {recursive: true})\<close> creates, from the shortest: every
  prefix of \<open>p\<close> that ends before a separator, and \<open>p\<close> itself.
\<close>

definition path_prefixes :: "string \<Rightarrow> string list" where
  "path_prefixes p =
     filter (\<lambda>q. q \<noteq> [] \<and> q \<noteq> ''/'')
       (map (\<lambda>i. take i p) (filter (\<lambda>i. p ! i = CHR ''/'') [0..<length p])) @ [p]"

definition seg_ok :: "string \<Rightarrow> bool" where
  "seg_ok s \<longleftrightarrow> s \<noteq> [] \<and> s \<noteq> ''.'' \<and> s \<noteq> ''..'' \<and> CHR ''/'' \<notin> set s"

definition norm_shape :: "bool \<Rightarrow> string list \<Rightarrow> bool" where
  "norm_shape up ss \<longleftrightarrow> list_all seg_ok (if up then dropWhile (\<lambda>s. s = ''..'') ss else ss)"

definition normal_path :: "string \<Rightarrow> bool" where
  "normal_path q \<longleftrightarrow> q \<noteq> [] \<and> q \<noteq> ''/'' \<and> q \<noteq> ''.'' \<and> last q \<noteq> CHR ''/'' \<and> path_normalize q = q"

lemma split_on_ne [simp]: "split_on c s \<noteq> []"
  by (induction s) (auto split: list.split)

lemma split_on_no_sep: "c \<notin> set s \<Longrightarrow> split_on c s = [s]"
  by (induction s) auto

lemma split_on_append_sep: "split_on c (xs @ c # ys) = split_on c xs @ split_on c ys"
proof (induction xs)
  case (Cons x xs)
  then show ?case by (cases "split_on c xs") (auto split: list.split)
qed simp

lemma split_on_no_sep_elems: "s' \<in> set (split_on c s) \<Longrightarrow> c \<notin> set s'"
proof (induction s arbitrary: s')
  case (Cons x xs)
  then show ?case by (cases "split_on c xs") (auto split: if_splits)
qed simp

lemma js_join_snoc: "ys \<noteq> [] \<Longrightarrow> js_join sep (ys @ [f]) = js_join sep ys @ sep @ f"
  by (induction sep ys rule: js_join.induct) auto

lemma js_join_Cons: "ys \<noteq> [] \<Longrightarrow> js_join sep (y # ys) = y @ sep @ js_join sep ys"
  by (cases ys) auto

lemma split_on_js_join:
  "ys \<noteq> [] \<Longrightarrow> \<forall>y \<in> set ys. c \<notin> set y \<Longrightarrow> split_on c (js_join [c] ys) = ys"
proof (induction ys)
  case (Cons y ys)
  show ?case
  proof (cases "ys = []")
    case True
    then show ?thesis using Cons.prems by (simp add: split_on_no_sep)
  next
    case False
    then have "js_join [c] (y # ys) = y @ c # js_join [c] ys" by (simp add: js_join_Cons)
    then show ?thesis
      using Cons False by (simp only: split_on_append_sep) (simp add: split_on_no_sep)
  qed
qed simp

lemma norm_segs_snoc:
  "seg_ok f \<Longrightarrow> norm_segs up acc (ss @ [f]) = norm_segs up acc ss @ [f]"
proof (induction up acc ss rule: norm_segs.induct)
  case (1 up acc)
  then show ?case by (simp add: seg_ok_def)
next
  case (2 up acc sg ss)
  then show ?case by (auto split: list.split)
qed

lemma norm_segs_set: "set (norm_segs up acc ss) \<subseteq> set acc \<union> set ss"
  by (induction up acc ss rule: norm_segs.induct) (auto split: list.splits if_splits)

lemma dropWhile_all: "\<forall>x \<in> set xs. P x \<Longrightarrow> dropWhile P xs = []"
  by (simp add: dropWhile_eq_Nil_conv)

lemma norm_segs_shape:
  "norm_shape up (rev acc) \<Longrightarrow> \<forall>s \<in> set ss. CHR ''/'' \<notin> set s \<Longrightarrow> norm_shape up (norm_segs up acc ss)"
proof (induction up acc ss rule: norm_segs.induct)
  case (1 up acc)
  then show ?case by simp
next
  case (2 up acc sg ss)
  show ?case
  proof (cases "sg = [] \<or> sg = ''.''")
    case True
    with 2 show ?thesis by simp
  next
    case nd: False
    show ?thesis
    proof (cases "sg = ''..''")
      case True
      show ?thesis
      proof (cases acc)
        case Nil
        with 2 True nd show ?thesis by (simp add: norm_shape_def)
      next
        case (Cons x acc')
        have a: "norm_shape up (rev acc')" if "x \<noteq> ''..''"
        proof (cases "up \<and> (\<forall>y \<in> set acc'. y = ''..'')")
          case True
          then show ?thesis by (simp add: norm_shape_def dropWhile_all)
        next
          case False
          show ?thesis
          proof (cases up)
            case True
            with False obtain y where y: "y \<in> set (rev acc')" "y \<noteq> ''..''" by auto
            have "dropWhile (\<lambda>s. s = ''..'') (rev acc' @ [x]) = dropWhile (\<lambda>s. s = ''..'') (rev acc') @ [x]"
              using y by (rule dropWhile_append1)
            then show ?thesis
              using "2.prems"(1) Cons True by (simp add: norm_shape_def)
          next
            case False
            then show ?thesis
              using "2.prems"(1) Cons by (simp add: norm_shape_def)
          qed
        qed
        have b: "norm_shape up (rev (''..'' # acc))" if "x = ''..''" "up"
          using "2.prems"(1) Cons that
          by (auto simp: norm_shape_def dropWhile_append split: if_splits)
        show ?thesis
        proof (cases "x = ''..''")
          case False
          then show ?thesis using 2 True nd Cons a by simp
        next
          case xu: True
          show ?thesis
          proof (cases up)
            case True
            then show ?thesis using 2 \<open>sg = ''..''\<close> nd Cons xu b by simp
          next
            case False
            then show ?thesis using 2 \<open>sg = ''..''\<close> nd Cons xu by simp
          qed
        qed
      qed
    next
      case False
      have "seg_ok sg" using nd False "2.prems"(2) by (simp add: seg_ok_def)
      moreover have "sg \<noteq> ''..''" using False .
      ultimately have "norm_shape up (rev (sg # acc))"
        using "2.prems"(1) by (cases up) (simp_all add: norm_shape_def dropWhile_append)
      with 2 nd False show ?thesis by simp
    qed
  qed
qed

lemma norm_shape_snoc:
  assumes sh: "norm_shape up ss" and ok: "seg_ok f"
  shows "norm_shape up (ss @ [f])"
proof (cases up)
  case True
  have f: "f \<noteq> ''..''" using ok by (simp add: seg_ok_def)
  show ?thesis
  proof (cases "\<forall>x \<in> set ss. x = ''..''")
    case all: True
    then have "dropWhile (\<lambda>s. s = ''..'') (ss @ [f]) = [f]"
      using f by (simp add: dropWhile_append)
    then show ?thesis using True ok by (simp add: norm_shape_def)
  next
    case False
    then obtain y where "y \<in> set ss" "y \<noteq> ''..''" by blast
    then have "dropWhile (\<lambda>s. s = ''..'') (ss @ [f]) = dropWhile (\<lambda>s. s = ''..'') ss @ [f]"
      by (rule dropWhile_append1)
    then show ?thesis using True sh ok by (simp add: norm_shape_def)
  qed
next
  case False
  then show ?thesis using sh ok by (simp add: norm_shape_def)
qed

lemma norm_shape_ne:
  assumes sh: "norm_shape up ss" and x: "x \<in> set ss"
  shows "x \<noteq> []"
proof (cases "up \<and> x \<in> set (takeWhile (\<lambda>s. s = ''..'') ss)")
  case True
  then have "x = ''..''" by (blast dest: set_takeWhileD)
  then show ?thesis by simp
next
  case False
  have "x \<in> set (if up then dropWhile (\<lambda>s. s = ''..'') ss else ss)"
  proof (cases up)
    case True
    have "x \<in> set (takeWhile (\<lambda>s. s = ''..'') ss) \<or> x \<in> set (dropWhile (\<lambda>s. s = ''..'') ss)"
      using x by (metis Un_iff set_append takeWhile_dropWhile_id)
    with False True show ?thesis by simp
  qed (use x in simp)
  with sh show ?thesis unfolding norm_shape_def list_all_iff seg_ok_def by blast
qed

lemma norm_segs_fix:
  "norm_shape up (rev acc @ ts) \<Longrightarrow> norm_segs up acc ts = rev acc @ ts"
proof (induction ts arbitrary: acc)
  case Nil
  then show ?case by simp
next
  case (Cons t ts)
  show ?case
  proof (cases "t = ''..''")
    case True
    have up: "up"
      using Cons.prems True by (cases up) (simp_all add: norm_shape_def seg_ok_def)
    have all: "\<forall>y \<in> set acc. y = ''..''"
    proof (rule ccontr)
      assume "\<not> (\<forall>y \<in> set acc. y = ''..'')"
      then obtain y where "y \<in> set (rev acc)" "y \<noteq> ''..''" by auto
      then have "dropWhile (\<lambda>s. s = ''..'') (rev acc @ t # ts) = dropWhile (\<lambda>s. s = ''..'') (rev acc) @ t # ts"
        by (rule dropWhile_append1)
      with Cons.prems up True show False by (simp add: norm_shape_def seg_ok_def)
    qed
    have "norm_segs up acc (t # ts) = norm_segs up (''..'' # acc) ts"
      using True up all by (cases acc) auto
    also have "\<dots> = rev (''..'' # acc) @ ts"
      using Cons.prems by (intro Cons.IH) (simp add: True)
    finally show ?thesis using True by simp
  next
    case False
    have ok: "seg_ok t"
    proof (cases up)
      case True
      have "t \<in> set (dropWhile (\<lambda>s. s = ''..'') (rev acc @ t # ts))"
        using False by (auto simp: dropWhile_append)
      with Cons.prems True show ?thesis by (auto simp: norm_shape_def list_all_iff)
    qed (use Cons.prems in \<open>simp add: norm_shape_def\<close>)
    then have "norm_segs up acc (t # ts) = norm_segs up (t # acc) ts"
      by (auto simp: seg_ok_def)
    also have "\<dots> = rev (t # acc) @ ts"
      using Cons.prems by (intro Cons.IH) simp
    finally show ?thesis by simp
  qed
qed

lemma split_on_sub: "s' \<in> set (split_on c s) \<Longrightarrow> set s' \<subseteq> set s"
proof (induction s arbitrary: s')
  case (Cons x xs)
  show ?case
  proof (cases "x = c")
    case True
    then show ?thesis using Cons by auto
  next
    case False
    obtain a l where al: "split_on c xs = a # l"
      using split_on_ne by (cases "split_on c xs") blast+
    with False Cons.prems have "s' = x # a \<or> s' \<in> set l" by simp
    moreover have "set a \<subseteq> set xs" "\<forall>t \<in> set l. set t \<subseteq> set xs"
      using Cons.IH al by auto
    ultimately show ?thesis by auto
  qed
qed simp

lemma set_js_join: "set (js_join sep ys) \<subseteq> set sep \<union> \<Union> (set ` set ys)"
  by (induction sep ys rule: js_join.induct) auto

lemma js_join_ne: "ys \<noteq> [] \<Longrightarrow> hd ys \<noteq> [] \<Longrightarrow> js_join sep ys \<noteq> []"
  by (induction sep ys rule: js_join.induct) auto

lemma hd_js_join: "ys \<noteq> [] \<Longrightarrow> hd ys \<noteq> [] \<Longrightarrow> hd (js_join sep ys) = hd (hd ys)"
  by (induction sep ys rule: js_join.induct) auto

lemma last_js_join_snoc: "f \<noteq> [] \<Longrightarrow> last (js_join sep (ys @ [f])) = last f"
  by (cases "ys = []") (simp_all add: js_join_snoc)

lemma dropWhile_to_sep: "c \<notin> set xs \<Longrightarrow> dropWhile (\<lambda>x. x \<noteq> c) (xs @ c # ys) = c # ys"
  by (induction xs) auto

lemma dirname_append:
  assumes "q \<noteq> []" and "q \<noteq> ''/''" and f: "seg_ok f"
  shows "dirname (q @ ''/'' @ f) = q"
proof -
  have f1: "f \<noteq> []" "CHR ''/'' \<notin> set f" using f by (auto simp: seg_ok_def)
  then have lf: "last f \<noteq> CHR ''/''" by (metis last_in_set)
  have tl: "tl (q @ ''/'' @ f) = tl q @ CHR ''/'' # f" using assms(1) by simp
  have "dropWhile (\<lambda>c. c = CHR ''/'') (rev f @ CHR ''/'' # rev (tl q)) = rev f @ CHR ''/'' # rev (tl q)"
    using f1 lf by (cases "rev f") (auto simp: last_rev [symmetric])
  moreover have "dropWhile (\<lambda>c. c \<noteq> CHR ''/'') (rev f @ CHR ''/'' # rev (tl q)) = CHR ''/'' # rev (tl q)"
    using dropWhile_to_sep [of "CHR ''/''" "rev f"] f1 by simp
  moreover have "length (CHR ''/'' # rev (tl q)) = length q" using assms(1) by simp
  moreover have "\<not> (hd q = CHR ''/'' \<and> length q = 1)"
    using assms(1,2) by (cases q) auto
  ultimately show ?thesis
    using assms(1) by (auto simp: dirname_def tl Let_def)
qed

lemma path_normalize_body:
  assumes "p \<noteq> []" and "last p \<noteq> CHR ''/''"
    and "js_join ''/'' (norm_segs (hd p \<noteq> CHR ''/'') [] (split_on CHR ''/'' p)) \<noteq> []"
  shows "path_normalize p =
    (if hd p = CHR ''/'' then ''/'' else []) @
      js_join ''/'' (norm_segs (hd p \<noteq> CHR ''/'') [] (split_on CHR ''/'' p))"
  using assms by (simp add: path_normalize_def Let_def)

lemma seg_ok_parts: "seg_ok f \<Longrightarrow> f \<noteq> [] \<and> CHR ''/'' \<notin> set f \<and> last f \<noteq> CHR ''/''"
  by (metis last_in_set seg_ok_def)

lemma path_join_normal:
  assumes q: "normal_path q" and f: "seg_ok f"
  shows "path_join_list [q, f] = q @ ''/'' @ f"
proof -
  define ab where "ab = (hd q = CHR ''/'')"
  define S where "S = norm_segs (\<not> ab) [] (split_on CHR ''/'' q)"
  define B where "B = js_join ''/'' S"
  have q_ne: "q \<noteq> []" and ql: "last q \<noteq> CHR ''/''" and q1: "q \<noteq> ''/''" and q2: "q \<noteq> ''.''"
    and qn: "path_normalize q = q"
    using q by (simp_all add: normal_path_def)
  have fp: "f \<noteq> []" "CHR ''/'' \<notin> set f" "last f \<noteq> CHR ''/''" using seg_ok_parts [OF f] by simp_all
  have B_ne: "B \<noteq> []"
  proof
    assume "B = []"
    then have "path_normalize q \<in> {''/'', ''./'', ''.''}"
      using q_ne by (auto simp: path_normalize_def Let_def B_def S_def ab_def)
    then show False using qn q1 q2 ql by auto
  qed
  then have S_ne: "S \<noteq> []" by (auto simp: B_def)
  have q_eq: "q = (if ab then ''/'' else []) @ B"
    using path_normalize_body [OF q_ne ql] B_ne qn by (simp add: B_def S_def ab_def)
  have sp: "split_on CHR ''/'' (q @ ''/'' @ f) = split_on CHR ''/'' q @ [f]"
    using fp by (simp add: split_on_append_sep split_on_no_sep)
  have ns: "norm_segs (\<not> ab) [] (split_on CHR ''/'' q @ [f]) = S @ [f]"
    unfolding S_def using f by (rule norm_segs_snoc)
  have jn: "js_join ''/'' (S @ [f]) = B @ ''/'' @ f"
    unfolding B_def using S_ne by (rule js_join_snoc)
  have "path_join_list [q, f] = path_normalize (q @ ''/'' @ f)"
    using q_ne fp by (simp add: path_join_list_def)
  also have "\<dots> = (if ab then ''/'' else []) @ B @ ''/'' @ f"
    using q_ne fp sp ns jn by (simp add: path_normalize_def Let_def ab_def)
  also have "\<dots> = q @ ''/'' @ f"
    using q_eq by simp
  finally show ?thesis .
qed

lemma split_on_Cons_sep: "split_on c (c # s) = [] # split_on c s"
  by simp

lemma normal_path_join_list:
  assumes f: "seg_ok f"
  shows "normal_path (path_join_list (xs @ [f]))"
proof -
  define ys where "ys = filter (\<lambda>a. a \<noteq> []) xs"
  define x where "x = js_join ''/'' (ys @ [f])"
  define ab where "ab = (hd x = CHR ''/'')"
  define S where "S = norm_segs (\<not> ab) [] (split_on CHR ''/'' x)"
  have fp: "f \<noteq> []" "CHR ''/'' \<notin> set f" "last f \<noteq> CHR ''/''" using seg_ok_parts [OF f] by simp_all
  have pj: "path_join_list (xs @ [f]) = path_normalize x"
    using fp by (simp add: path_join_list_def x_def ys_def)
  have x_ne: "x \<noteq> []" using fp by (cases "ys = []") (simp_all add: x_def js_join_snoc)
  have x_last: "last x \<noteq> CHR ''/''" using fp by (simp add: x_def last_js_join_snoc)
  have sp: "split_on CHR ''/'' x = (if ys = [] then [f] else split_on CHR ''/'' (js_join ''/'' ys) @ [f])"
    using fp by (simp add: x_def js_join_snoc split_on_append_sep split_on_no_sep)
  have S_snoc: "\<exists>S0. S = S0 @ [f]"
    using f by (cases "ys = []") (auto simp: S_def sp norm_segs_snoc seg_ok_def)
  then obtain S0 where S0: "S = S0 @ [f]" by blast
  have nosl: "\<forall>s \<in> set S. CHR ''/'' \<notin> set s"
    using norm_segs_set [of "\<not> ab" "[]" "split_on CHR ''/'' x"] split_on_no_sep_elems
    by (fastforce simp: S_def)
  have sh: "norm_shape (\<not> ab) S"
    unfolding S_def by (rule norm_segs_shape) (auto simp: norm_shape_def dest: split_on_no_sep_elems)
  have S_ne_elems: "\<forall>s \<in> set S. s \<noteq> []" using sh norm_shape_ne by blast
  have B_ne: "js_join ''/'' S \<noteq> []"
  proof (rule js_join_ne)
    show "S \<noteq> []" using S0 by simp
    then show "hd S \<noteq> []" using S_ne_elems hd_in_set by blast
  qed
  have P: "path_normalize x = (if ab then ''/'' else []) @ js_join ''/'' S"
    using path_normalize_body [OF x_ne x_last] B_ne by (simp add: S_def ab_def)
  define P where "P = (if ab then ''/'' else []) @ js_join ''/'' S"
  have lastP: "last P \<noteq> CHR ''/''"
    using fp B_ne by (simp add: P_def S0 last_js_join_snoc)
  have hdS: "hd (js_join ''/'' S) \<noteq> CHR ''/''"
  proof -
    have "S \<noteq> []" using S0 by simp
    then have "hd S \<in> set S" by (rule hd_in_set)
    then have "hd S \<noteq> []" "CHR ''/'' \<notin> set (hd S)" using S_ne_elems nosl by auto
    then show ?thesis using S0 by (simp add: hd_js_join) (metis hd_in_set)
  qed
  have hdP: "(hd P = CHR ''/'') = ab" using hdS B_ne by (simp add: P_def)
  have splitP: "split_on CHR ''/'' P = (if ab then [] # S else S)"
    using S0 nosl by (simp add: P_def split_on_js_join)
  have fixS: "norm_segs (\<not> ab) [] S = S"
    using norm_segs_fix [of "\<not> ab" "[]" S] sh by simp
  have normP: "path_normalize P = P"
  proof -
    have "norm_segs (\<not> ab) [] (split_on CHR ''/'' P) = S"
      using fixS by (cases ab) (simp_all add: splitP)
    then show ?thesis
      using path_normalize_body [of P] lastP hdP B_ne by (simp add: P_def)
  qed
  have P1: "P \<noteq> ''/''" using B_ne hdS by (cases ab) (auto simp: P_def)
  have P2: "P \<noteq> ''.''"
  proof
    assume dot: "P = ''.''"
    then have "\<not> ab" using hdP by auto
    then have "js_join ''/'' S = ''.''" using dot by (simp add: P_def)
    moreover have "js_join ''/'' S \<noteq> ''.''"
    proof (cases "S0 = []")
      case True
      then show ?thesis using f by (simp add: S0 seg_ok_def)
    next
      case False
      have "js_join ''/'' S0 @ CHR ''/'' # f \<noteq> ''.''"
      proof
        assume "js_join ''/'' S0 @ CHR ''/'' # f = ''.''"
        then have "length (js_join ''/'' S0 @ CHR ''/'' # f) = 1" by simp
        with fp show False by (cases f) auto
      qed
      then show ?thesis using False by (simp add: S0 js_join_snoc)
    qed
    ultimately show False by simp
  qed
  show ?thesis
    using P pj normP lastP P1 P2 B_ne by (simp add: normal_path_def P_def)
qed

lemma path_join_list_chars:
  assumes f: "seg_ok f"
  shows "set (path_join_list (xs @ [f])) \<subseteq> insert (CHR ''/'') (set (concat xs) \<union> set f)"
proof -
  define ys where "ys = filter (\<lambda>a. a \<noteq> []) xs"
  define x where "x = js_join ''/'' (ys @ [f])"
  define S where "S = norm_segs (hd x \<noteq> CHR ''/'') [] (split_on CHR ''/'' x)"
  have fp: "f \<noteq> []" "CHR ''/'' \<notin> set f" "last f \<noteq> CHR ''/''" using seg_ok_parts [OF f] by simp_all
  have pj: "path_join_list (xs @ [f]) = path_normalize x"
    using fp by (simp add: path_join_list_def x_def ys_def)
  have x_ne: "x \<noteq> []" using fp by (cases "ys = []") (simp_all add: x_def js_join_snoc)
  have x_last: "last x \<noteq> CHR ''/''" using fp by (simp add: x_def last_js_join_snoc)
  have x_chars: "set x \<subseteq> insert (CHR ''/'') (set (concat xs) \<union> set f)"
    using set_js_join [of "''/''" "ys @ [f]"] by (auto simp: x_def ys_def)
  have S_chars: "\<Union> (set ` set S) \<subseteq> set x"
    using norm_segs_set [of "hd x \<noteq> CHR ''/''" "[]" "split_on CHR ''/'' x"] split_on_sub
    by (fastforce simp: S_def)
  have "js_join ''/'' S \<noteq> []"
  proof
    assume B: "js_join ''/'' S = []"
    have n: "path_normalize x \<noteq> ''/''" "path_normalize x \<noteq> ''.''"
      using normal_path_join_list [OF f, of xs] pj by (simp_all add: normal_path_def)
    have "path_normalize x = (if hd x = CHR ''/'' then ''/'' else ''.'')"
      using x_ne x_last B by (simp add: path_normalize_def Let_def S_def)
    with n show False by (cases "hd x = CHR ''/''") simp_all
  qed
  then have "set (path_join_list (xs @ [f])) \<subseteq> insert (CHR ''/'') (set (js_join ''/'' S))"
    using x_ne x_last pj by (auto simp: path_normalize_def Let_def S_def)
  also have "\<dots> \<subseteq> insert (CHR ''/'') (set x)"
    using set_js_join [of "''/''" S] S_chars by auto
  also have "\<dots> \<subseteq> insert (CHR ''/'') (set (concat xs) \<union> set f)"
    using x_chars by auto
  finally show ?thesis .
qed

lemma path_prefixes_mem:
  "q \<in> set (path_prefixes p) \<longleftrightarrow>
     q = p \<or> (\<exists>i < length p. p ! i = CHR ''/'' \<and> q = take i p \<and> q \<noteq> [] \<and> q \<noteq> ''/'')"
  by (auto simp: path_prefixes_def)

lemma path_prefixes_trans:
  assumes "q \<in> set (path_prefixes p)"
  shows "set (path_prefixes q) \<subseteq> set (path_prefixes p)"
proof
  fix r assume r: "r \<in> set (path_prefixes q)"
  show "r \<in> set (path_prefixes p)"
  proof (cases "q = p")
    case True
    with r show ?thesis by simp
  next
    case False
    with assms obtain i where i: "i < length p" "p ! i = CHR ''/''" "q = take i p"
      by (auto simp: path_prefixes_mem)
    show ?thesis
    proof (cases "r = q")
      case True
      with assms show ?thesis by simp
    next
      case False
      with r obtain j where j: "j < length q" "q ! j = CHR ''/''" "r = take j q" "r \<noteq> []" "r \<noteq> ''/''"
        by (auto simp: path_prefixes_mem)
      have "j < length p" "p ! j = CHR ''/''" "r = take j p"
        using i j by (simp_all add: min_def split: if_splits)
      with j show ?thesis by (auto simp: path_prefixes_mem)
    qed
  qed
qed

lemma path_prefixes_snoc: "path_prefixes p = butlast (path_prefixes p) @ [p]"
  by (simp add: path_prefixes_def)

end
