(* ===== verification/World.thy ===== *)
theory World
  imports Pdf_Doc Paths
begin

text \<open>
  The process-wide state the server code reads and writes, and the outcomes of the
  external calls it cannot control. \<open>world\<close> holds the working directory, the
  directories and files on disk, \<open>process.env\<close>, the lazily created mail transport of
  email-service.js (its module variable \<open>transporter\<close>) and the messages the transport
  has accepted, each with the transport that sent it. \<open>outcomes\<close> holds, for one request, what the clock, the random source,
  the image encoders, the PDF stream and the SMTP server answer. Every effectful
  operation returns the new world together with its value or the exception it throws,
  since an exception does not undo what was written before it.
\<close>

text \<open>
  A file's content: an encoded image or document, given by what was drawn, or a file
  whose write stream stopped before the document was complete (some prefix of it).
\<close>

datatype file_content =
    Jpeg_file "paint list"
  | Png_file "paint list"
  | Pdf_file "pdf_mark list"
  | Partial_file

text \<open>The options \<open>getTransporter\<close> passes to \<open>nodemailer.createTransport\<close>.\<close>

record transport =
  t_host :: "string option"
  t_port :: "int option"
  t_secure :: bool
  t_user :: "string option"
  t_pass :: "string option"

text \<open>The \<open>mailOptions\<close> object of \<open>sendCertificateEmail\<close>; the recipient is the raw body value.\<close>

record mail =
  mail_from :: "string option"
  mail_to :: "json option"
  mail_subject :: string
  mail_html :: string
  mail_attachments :: "(string \<times> path) list"

record world =
  cwd :: path
  dirs :: "path set"
  files :: "path \<Rightarrow> file_content option"
  env :: "string \<Rightarrow> string option"
  transporter :: "transport option"
  outbox :: "(transport \<times> mail) list"

text \<open>
  Per request: \<open>Date.now()\<close>, the base-36 digits of \<open>Math.random()\<close>, the two calls of
  \<open>new Date().toLocaleDateString()\<close> (one per renderer), the JPEG callback error, an
  exception of the PNG encoder, an error event of the PDF stream after it opened its file (a
  failed write), and the answers of
  \<open>sendMail\<close> (error message or message id) and \<open>verify\<close>.
\<close>

record outcomes =
  now_ms :: millis
  random36 :: "nat list"
  jpg_date :: string
  pdf_date :: string
  jpeg_error :: "string option"
  png_error :: "string option"
  pdf_stream_error :: "string option"
  send_result :: "string + message_id"
  verify_error :: "string option"

type_synonym 'a io_result = "world \<times> (js_error + 'a)"

text \<open>
  Sequencing of two effectful steps, as \<open>await\<close> in an \<open>async\<close> function: an exception
  of the first skips the second and keeps the world the first left behind.
\<close>

definition io_bind :: "'a io_result \<Rightarrow> ('a \<Rightarrow> world \<Rightarrow> 'b io_result) \<Rightarrow> 'b io_result" where
  "io_bind r f = (case r of (w, Inl e) \<Rightarrow> (w, Inl e) | (w, Inr a) \<Rightarrow> f a w)"

subsection \<open>Paths and the file system\<close>

text \<open>\<open>path.join\<close> of two arguments (line 118, line 149).\<close>

definition path_join :: "path \<Rightarrow> string \<Rightarrow> path" where
  "path_join a b = path_join_list [a, b]"

text \<open>\<open>certificatesDir\<close> (certificate-generator.js line 7).\<close>

definition certificates_dir :: "world \<Rightarrow> path" where
  "certificates_dir w = path_join_list [cwd w, ''public'', ''certificates'']"

definition fs_exists :: "world \<Rightarrow> path \<Rightarrow> bool" where
  "fs_exists w p \<longleftrightarrow> files w p \<noteq> None \<or> p \<in> dirs w"

text \<open>
  \<open>fs.writeFileSync\<close>: it writes when the parent directory exists and the path itself is
  not a directory (\<open>EISDIR\<close>). Otherwise the path is resolved component by component: the
  first ancestor that is not a directory decides the error, \<open>ENOTDIR\<close> when it is a
  regular file and \<open>ENOENT\<close> when it is missing.
\<close>

definition write_file_sync :: "world \<Rightarrow> path \<Rightarrow> file_content \<Rightarrow> js_error + world" where
  "write_file_sync w p c =
     (if dirname p \<in> dirs w then
        (if p \<in> dirs w
         then Inl (JsError (''EISDIR: illegal operation on a directory, open '' @ CHR 0x27 # p @ [CHR 0x27]))
         else Inr (w\<lparr>files := (files w)(p \<mapsto> c)\<rparr>))
      else if (case find (\<lambda>q. q \<notin> dirs w) (path_prefixes (dirname p)) of
                 Some q \<Rightarrow> files w q \<noteq> None | None \<Rightarrow> False)
      then Inl (JsError (''ENOTDIR: not a directory, open '' @ CHR 0x27 # p @ [CHR 0x27]))
      else Inl (JsError (''ENOENT: no such file or directory, open '' @ CHR 0x27 # p @ [CHR 0x27])))"

text \<open>
  \<open>fs.mkdirSync(p, {recursive: true})\<close>: creates every missing ancestor and \<open>p\<close>. A
  regular file at \<open>p\<close> makes it throw \<open>EEXIST\<close>, one on the way \<open>ENOTDIR\<close>.
\<close>

definition mkdir_recursive :: "world \<Rightarrow> path \<Rightarrow> js_error + world" where
  "mkdir_recursive w p =
     (if files w p \<noteq> None
      then Inl (JsError (''EEXIST: file already exists, mkdir '' @ CHR 0x27 # p @ [CHR 0x27]))
      else if list_ex (\<lambda>q. files w q \<noteq> None) (path_prefixes p)
      then Inl (JsError (''ENOTDIR: not a directory, mkdir '' @ CHR 0x27 # p @ [CHR 0x27]))
      else Inr (w\<lparr>dirs := dirs w \<union> set (path_prefixes p)\<rparr>))"

text \<open>
  Loading certificate-generator.js (lines 7-10): the directory is created when nothing
  exists at its path. \<open>fs.existsSync\<close> is also true for a regular file, in which case
  nothing is created.
\<close>

definition init_cert_module :: "world \<Rightarrow> js_error + world" where
  "init_cert_module w =
     (if fs_exists w (certificates_dir w) then Inr w else mkdir_recursive w (certificates_dir w))"

text \<open>
  Well-formed file systems: every file lies in a known directory, the ancestors of a
  directory are directories, and no path is both a file and a directory.
\<close>

definition wf_world :: "world \<Rightarrow> bool" where
  "wf_world w \<longleftrightarrow>
     (\<forall>p \<in> dom (files w). dirname p \<in> dirs w) \<and> (\<forall>d \<in> dirs w. set (path_prefixes d) \<subseteq> dirs w) \<and>
     dom (files w) \<inter> dirs w = {}"

text \<open>A directory without subdirectories: every path directly inside it names no directory.\<close>

definition dir_ready :: "world \<Rightarrow> path \<Rightarrow> bool" where
  "dir_ready w d \<longleftrightarrow> d \<in> dirs w \<and> (\<forall>q \<in> dirs w. dirname q \<noteq> d)"

text \<open>
  What a request may do to the disk: the working directory and the directories stay, and
  no file disappears.
\<close>

definition fs_grows :: "world \<Rightarrow> world \<Rightarrow> bool" where
  "fs_grows w w' \<longleftrightarrow> cwd w' = cwd w \<and> dirs w' = dirs w \<and> dom (files w) \<subseteq> dom (files w')"

lemma io_bind_simps [simp]:
  "io_bind (w, Inl e) f = (w, Inl e)"
  "io_bind (w, Inr a) f = f a w"
  by (simp_all add: io_bind_def)

lemma path_join_normal_eq:
  assumes "normal_path q" and "seg_ok f"
  shows "path_join q f = q @ ''/'' @ f" and "dirname (path_join q f) = q"
proof -
  show pj: "path_join q f = q @ ''/'' @ f"
    unfolding path_join_def using assms by (rule path_join_normal)
  have "q \<noteq> []" "q \<noteq> ''/''" using assms(1) by (simp_all add: normal_path_def)
  then show "dirname (path_join q f) = q"
    using dirname_append [OF _ _ assms(2)] pj by simp
qed

lemma certificates_dir_split: "[cwd w, ''public'', ''certificates''] = [cwd w, ''public''] @ [''certificates'']"
  by simp

lemma seg_ok_certificates: "seg_ok ''certificates''"
  by (simp add: seg_ok_def)

lemma certificates_dir_normal: "normal_path (certificates_dir w)"
  unfolding certificates_dir_def certificates_dir_split
  using seg_ok_certificates by (rule normal_path_join_list)

lemma certificates_dir_no_dot:
  assumes "CHR ''.'' \<notin> set (cwd w)"
  shows "CHR ''.'' \<notin> set (certificates_dir w)"
proof
  assume dot: "CHR ''.'' \<in> set (certificates_dir w)"
  have "set (certificates_dir w) \<subseteq> insert (CHR ''/'') (set (concat [cwd w, ''public'']) \<union> set ''certificates'')"
    unfolding certificates_dir_def certificates_dir_split
    using seg_ok_certificates by (rule path_join_list_chars)
  with dot have "CHR ''.'' \<in> insert (CHR ''/'') (set (concat [cwd w, ''public'']) \<union> set ''certificates'')"
    by blast
  with assms show False by simp
qed

lemma certificates_dir_upd [simp]:
  "certificates_dir (w\<lparr>files := f\<rparr>) = certificates_dir w"
  "certificates_dir (w\<lparr>transporter := t\<rparr>) = certificates_dir w"
  "certificates_dir (w\<lparr>outbox := m\<rparr>) = certificates_dir w"
  by (simp_all add: certificates_dir_def)

lemma write_file_sync_Inr:
  "write_file_sync w p c = Inr w' \<longleftrightarrow>
     dirname p \<in> dirs w \<and> p \<notin> dirs w \<and> w' = w\<lparr>files := (files w)(p \<mapsto> c)\<rparr>"
  by (auto simp: write_file_sync_def)

lemma write_file_sync_ready:
  "dir_ready w (dirname p) \<Longrightarrow> write_file_sync w p c = Inr (w\<lparr>files := (files w)(p \<mapsto> c)\<rparr>)"
  by (auto simp: write_file_sync_def dir_ready_def)

text \<open>A regular file in place of the parent directory, whose own ancestors exist.\<close>

lemma write_file_sync_enotdir:
  assumes "files w (dirname p) \<noteq> None" and "dirname p \<notin> dirs w"
    and "list_all (\<lambda>q. q \<in> dirs w) (butlast (path_prefixes (dirname p)))"
  shows "write_file_sync w p c = Inl (JsError (''ENOTDIR: not a directory, open '' @ CHR 0x27 # p @ [CHR 0x27]))"
proof -
  have "find (\<lambda>q. q \<notin> dirs w) (butlast (path_prefixes (dirname p))) = None"
    using assms(3) by (simp add: find_None_iff list_all_iff)
  then have "find (\<lambda>q. q \<notin> dirs w) (path_prefixes (dirname p)) = Some (dirname p)"
    using assms(2) by (subst path_prefixes_snoc) (simp add: find_append)
  then show ?thesis
    using assms(1,2) by (simp add: write_file_sync_def)
qed

lemma write_file_sync_frame:
  "write_file_sync w p c = Inr w' \<Longrightarrow>
     dirs w' = dirs w \<and> cwd w' = cwd w \<and> env w' = env w \<and> transporter w' = transporter w \<and>
     outbox w' = outbox w \<and> files w' p = Some c \<and> (\<forall>q. q \<noteq> p \<longrightarrow> files w' q = files w q)"
  by (auto simp: write_file_sync_Inr)

lemma dir_ready_upd [simp]:
  "dir_ready (w\<lparr>files := f\<rparr>) d = dir_ready w d"
  "dir_ready (w\<lparr>transporter := t\<rparr>) d = dir_ready w d"
  "dir_ready (w\<lparr>outbox := m\<rparr>) d = dir_ready w d"
  by (simp_all add: dir_ready_def)

subsection \<open>Well-formedness of the file system\<close>

lemma wf_world_upd [simp]:
  "wf_world (w\<lparr>transporter := t\<rparr>) = wf_world w"
  "wf_world (w\<lparr>outbox := m\<rparr>) = wf_world w"
  by (simp_all add: wf_world_def)

lemma write_file_sync_wf:
  "wf_world w \<Longrightarrow> write_file_sync w p c = Inr w' \<Longrightarrow> wf_world w'"
  by (auto simp: wf_world_def write_file_sync_Inr)

lemma mkdir_recursive_wf:
  assumes "wf_world w" and "mkdir_recursive w p = Inr w'"
  shows "wf_world w' \<and> p \<in> dirs w' \<and> files w' = files w"
proof -
  have w': "w' = w\<lparr>dirs := dirs w \<union> set (path_prefixes p)\<rparr>"
    and nf: "\<forall>q \<in> set (path_prefixes p). files w q = None"
    using assms(2) by (simp_all add: mkdir_recursive_def list_ex_iff split: if_splits)
  have "set (path_prefixes d) \<subseteq> dirs w \<union> set (path_prefixes p)"
    if "d \<in> dirs w \<union> set (path_prefixes p)" for d
    using that assms(1) path_prefixes_trans [of d p] by (auto simp: wf_world_def)
  moreover have "dom (files w) \<inter> (dirs w \<union> set (path_prefixes p)) = {}"
    using assms(1) nf by (auto simp: wf_world_def)
  ultimately show ?thesis
    using assms(1) by (auto simp: w' wf_world_def path_prefixes_def)
qed

subsection \<open>Requests only add files\<close>

lemma fs_grows_refl [simp]: "fs_grows w w"
  by (simp add: fs_grows_def)

lemma fs_grows_trans:
  assumes "fs_grows w1 w2" and "fs_grows w2 w3"
  shows "fs_grows w1 w3"
proof -
  have "dom (files w1) \<subseteq> dom (files w2)" "dom (files w2) \<subseteq> dom (files w3)"
    using assms by (simp_all add: fs_grows_def)
  then have "dom (files w1) \<subseteq> dom (files w3)" by (rule subset_trans)
  then show ?thesis using assms by (simp add: fs_grows_def)
qed

lemma fs_grows_upd [simp]:
  "fs_grows w (w'\<lparr>transporter := t\<rparr>) = fs_grows w w'"
  "fs_grows w (w'\<lparr>outbox := m\<rparr>) = fs_grows w w'"
  by (simp_all add: fs_grows_def)

lemma write_file_sync_grows: "write_file_sync w p c = Inr w' \<Longrightarrow> fs_grows w w'"
  by (auto simp: fs_grows_def write_file_sync_Inr)

text \<open>A step that keeps the world or performs one successful write.\<close>

lemma kept_or_written:
  assumes "w' = w \<or> write_file_sync w p c = Inr w'"
  shows "wf_world w \<Longrightarrow> wf_world w'" and "fs_grows w w'"
  using assms write_file_sync_wf write_file_sync_grows by auto

lemma write_file_sync_overwrite:
  "write_file_sync w p c = Inr w1 \<Longrightarrow>
     write_file_sync w p c' = Inr (w1\<lparr>files := (files w1)(p \<mapsto> c')\<rparr>)"
  by (simp add: write_file_sync_Inr)

text \<open>An invariant of every step carries over a sequence of two steps.\<close>

lemma io_bind_inv:
  "P (fst r) \<Longrightarrow> (\<And>a w. P w \<Longrightarrow> P (fst (f a w))) \<Longrightarrow> P (fst (io_bind r f))"
  by (cases r) (auto simp: io_bind_def split: sum.split)

subsection \<open>Properties of the file system\<close>

text \<open>
  C19. Loading certificate-generator.js in a well-formed file system leaves a well-formed
  file system in which the certificates directory is a directory exactly when no regular
  file lies on its path (at the directory itself or at an ancestor). A regular file at the
  directory's own path is accepted by \<open>existsSync\<close>: the module loads, and nothing is
  created.
\<close>

theorem init_cert_module_ready:
  assumes "wf_world w"
  shows "(\<exists>w'. init_cert_module w = Inr w' \<and> wf_world w' \<and> certificates_dir w' \<in> dirs w') \<longleftrightarrow>
         list_all (\<lambda>q. files w q = None) (path_prefixes (certificates_dir w))"
proof (cases "fs_exists w (certificates_dir w)")
  case True
  then have init: "init_cert_module w = Inr w"
    by (simp add: init_cert_module_def)
  have "certificates_dir w \<in> dirs w \<longleftrightarrow> list_all (\<lambda>q. files w q = None) (path_prefixes (certificates_dir w))"
  proof
    assume "certificates_dir w \<in> dirs w"
    then have "set (path_prefixes (certificates_dir w)) \<subseteq> dirs w"
      using assms by (simp add: wf_world_def)
    moreover have "dom (files w) \<inter> dirs w = {}"
      using assms by (simp add: wf_world_def)
    ultimately show "list_all (\<lambda>q. files w q = None) (path_prefixes (certificates_dir w))"
      unfolding list_all_iff by blast
  next
    assume "list_all (\<lambda>q. files w q = None) (path_prefixes (certificates_dir w))"
    moreover have "certificates_dir w \<in> set (path_prefixes (certificates_dir w))"
      by (simp add: path_prefixes_mem)
    ultimately have "files w (certificates_dir w) = None"
      by (simp add: list_all_iff)
    then show "certificates_dir w \<in> dirs w"
      using True by (simp add: fs_exists_def)
  qed
  then show ?thesis
    using init assms by simp
next
  case False
  then have nf: "files w (certificates_dir w) = None"
    by (simp add: fs_exists_def)
  show ?thesis
  proof
    assume "\<exists>w'. init_cert_module w = Inr w' \<and> wf_world w' \<and> certificates_dir w' \<in> dirs w'"
    then obtain w' where "mkdir_recursive w (certificates_dir w) = Inr w'"
      using False by (auto simp: init_cert_module_def)
    then have "\<not> list_ex (\<lambda>q. files w q \<noteq> None) (path_prefixes (certificates_dir w))"
      by (simp add: mkdir_recursive_def split: if_splits)
    then show "list_all (\<lambda>q. files w q = None) (path_prefixes (certificates_dir w))"
      by (simp add: list_ex_iff list_all_iff)
  next
    assume "list_all (\<lambda>q. files w q = None) (path_prefixes (certificates_dir w))"
    then have "\<not> list_ex (\<lambda>q. files w q \<noteq> None) (path_prefixes (certificates_dir w))"
      by (simp add: list_ex_iff list_all_iff)
    then have m: "mkdir_recursive w (certificates_dir w) = Inr (w\<lparr>dirs := dirs w \<union> set (path_prefixes (certificates_dir w))\<rparr>)"
      using nf by (simp add: mkdir_recursive_def)
    show "\<exists>w'. init_cert_module w = Inr w' \<and> wf_world w' \<and> certificates_dir w' \<in> dirs w'"
      using False mkdir_recursive_wf [OF assms m] m by (simp add: init_cert_module_def certificates_dir_def)
  qed
qed

theorem init_cert_module_ready_witness:
  "\<exists>w'. init_cert_module \<lparr>cwd = ''/app'', dirs = {''/app''}, files = Map.empty, env = Map.empty,
          transporter = None, outbox = []\<rparr> = Inr w' \<and> wf_world w' \<and> certificates_dir w' \<in> dirs w'"
proof -
  have p1: "path_prefixes ''/app'' = [''/app'']"
    by (simp add: path_prefixes_def upt_rec)
  have p3: "path_prefixes ''/app/public/certificates'' = [''/app'', ''/app/public'', ''/app/public/certificates'']"
    by (simp add: path_prefixes_def upt_rec)
  have cd: "certificates_dir \<lparr>cwd = ''/app'', dirs = {''/app''}, files = Map.empty, env = Map.empty,
          transporter = None, outbox = []\<rparr> = ''/app/public/certificates''"
    by (simp add: certificates_dir_def path_join_list_def path_normalize_def Let_def)
  have wf: "wf_world \<lparr>cwd = ''/app'', dirs = {''/app''}, files = Map.empty, env = Map.empty,
          transporter = None, outbox = []\<rparr>"
    by (simp add: wf_world_def p1)
  show ?thesis
    using init_cert_module_ready [OF wf] by (simp only: cd p3) simp
qed

end
