(* ===== verification/Cert_Generator.thy ===== *)
theory Cert_Generator
  imports World
begin

text \<open>
  The certificate service of src/lib/certificate-generator.js: the certificate ID
  (line 16), the encoding and writing of the image with its PNG fallback
  (\<open>generateJPG\<close>, lines 118-145), the PDF stream to disk (\<open>generatePDF\<close>, lines
  149-212) and \<open>generateCertificate\<close> (lines 12-40), which runs them in sequence.
  The drawing programs themselves are in Canvas and Pdf_Doc.
\<close>

subsection \<open>Certificate IDs\<close>

text \<open>\<open>cert-${Date.now()}-${Math.random().toString(36).substr(2, 9)}\<close>\<close>

definition cert_id :: "outcomes \<Rightarrow> string" where
  "cert_id oc =
     ''cert-'' @ nat_to_dec (now_ms oc) @ ''-'' @ js_substr (frac36_to_string (random36 oc)) 2 9"

text \<open>
  The format section 3 of the specification gives the ID, read back: the milliseconds
  and the random token.
\<close>

definition parse_cert_id :: "string \<Rightarrow> (nat \<times> string) option" where
  "parse_cert_id s =
     (if take 5 s = ''cert-'' then
        (let r = drop 5 s; ds = takeWhile (\<lambda>c. c \<noteq> CHR ''-'') r; rest = dropWhile (\<lambda>c. c \<noteq> CHR ''-'') r
         in case rest of [] \<Rightarrow> None | _ # tok \<Rightarrow> map_option (\<lambda>n. (n, tok)) (dec_to_nat ds))
      else None)"

subsection \<open>The image file\<close>

text \<open>
  Lines 42-145. The drawing (lines 45-116) throws when a field does not convert to a
  string (\<open>cert_text_error\<close>), before anything is written. The \<open>try\<close> block covers both the JPEG encoding (the callback's
  error) and \<open>writeFileSync\<close>; either failure falls back to \<open>toBuffer("image/png")\<close>,
  whose exception, like that of the second write, propagates. The PNG path is
  \<open>jpgPath.replace(".jpg", ".png")\<close>: the first occurrence in the whole path.
\<close>

definition generate_jpg :: "outcomes \<Rightarrow> world \<Rightarrow> string \<Rightarrow> cert_data \<Rightarrow> path io_result" where
  "generate_jpg oc w certificateId d =
     (case cert_text_error d of
        Some e \<Rightarrow> (w, Inl e)
      | None \<Rightarrow>
          (let paints = render_jpg d (jpg_date oc);
               jpgPath = path_join (certificates_dir w) (certificateId @ ''.jpg'');
               attempt = (case jpeg_error oc of
                            Some e \<Rightarrow> Inl (JsError e)
                          | None \<Rightarrow> write_file_sync w jpgPath (Jpeg_file paints))
           in case attempt of
                Inr w' \<Rightarrow> (w', Inr jpgPath)
              | Inl _ \<Rightarrow>
                  (case png_error oc of
                     Some e \<Rightarrow> (w, Inl (JsError e))
                   | None \<Rightarrow>
                       (let pngPath = replace_first ''.jpg'' ''.png'' jpgPath
                        in case write_file_sync w pngPath (Png_file paints) of
                             Inl e \<Rightarrow> (w, Inl e)
                           | Inr w' \<Rightarrow> (w', Inr pngPath)))))"

subsection \<open>The document file\<close>

text \<open>
  Lines 149-212. \<open>fs.createWriteStream\<close> (line 157) opens the file, creating or
  truncating it, once the synchronous drawing has run; a failure to open is the stream's
  \<open>error\<close> event, and the file is not created. A field that does not convert makes
  \<open>doc.text\<close> throw inside the promise's executor: the promise rejects with that
  \<open>TypeError\<close> (a later \<open>error\<close> event no longer counts), and the file the stream opens
  stays incomplete. An error of the stream after the open (a failed write) also leaves
  an incomplete file. Otherwise the promise resolves on \<open>finish\<close>, with the page written.
\<close>

definition generate_pdf :: "outcomes \<Rightarrow> world \<Rightarrow> string \<Rightarrow> cert_data \<Rightarrow> path io_result" where
  "generate_pdf oc w certificateId d =
     (let pdfPath = path_join (certificates_dir w) (certificateId @ ''.pdf'')
      in case write_file_sync w pdfPath Partial_file of
           Inl e \<Rightarrow> (w, Inl (case cert_text_error d of Some te \<Rightarrow> te | None \<Rightarrow> e))
         | Inr w1 \<Rightarrow>
             (case cert_text_error d of
                Some te \<Rightarrow> (w1, Inl te)
              | None \<Rightarrow>
                  (case pdf_stream_error oc of
                     Some e \<Rightarrow> (w1, Inl (JsError e))
                   | None \<Rightarrow>
                       (w1\<lparr>files := (files w1)(pdfPath \<mapsto> Pdf_file (render_pdf d (pdf_date oc)))\<rparr>,
                        Inr pdfPath))))"

subsection \<open>generateCertificate\<close>

record artifact =
  certificateId :: string
  jpgPath :: path
  pdfPath :: path
  fileName :: string

text \<open>
  Line 13: \<open>const { name, email, gstNumber, businessName, businessAddress } = data\<close>,
  which throws on \<open>null\<close> and reads \<open>undefined\<close> for an absent property.
\<close>

definition js_prop :: "json \<Rightarrow> string \<Rightarrow> json option" where
  "js_prop v k = (case js_get v k of Inr x \<Rightarrow> x | Inl _ \<Rightarrow> None)"

definition body_cert_data :: "json \<Rightarrow> cert_data" where
  "body_cert_data data =
     \<lparr>d_name = js_prop data ''name'', d_gstNumber = js_prop data ''gstNumber'',
      d_businessName = js_prop data ''businessName'', d_businessAddress = js_prop data ''businessAddress''\<rparr>"

definition read_cert_data :: "json \<Rightarrow> js_error + cert_data" where
  "read_cert_data data =
     (if data = JNull
      then Inl (JsError (''Cannot destructure property '' @ CHR 0x27 # ''name'' @ CHR 0x27 #
                         '' of '' @ CHR 0x27 # ''data'' @ CHR 0x27 # '' as it is null.''))
      else Inr (body_cert_data data))"

definition generate_certificate :: "outcomes \<Rightarrow> world \<Rightarrow> json \<Rightarrow> artifact io_result" where
  "generate_certificate oc w data =
     (case read_cert_data data of
        Inl e \<Rightarrow> (w, Inl e)
      | Inr d \<Rightarrow>
          (let cid = cert_id oc
           in io_bind (generate_jpg oc w cid d) (\<lambda>jp w1.
                io_bind (generate_pdf oc w1 cid d) (\<lambda>pp w2.
                  (w2, Inr \<lparr>certificateId = cid, jpgPath = jp, pdfPath = pp, fileName = cid\<rparr>)))))"

subsection \<open>Facts about IDs and paths\<close>

lemma cert_token:
  "js_substr (frac36_to_string ds) 2 9 = take 9 (map digit36 ds)"
  by (simp add: js_substr_def frac36_to_string_def)

lemma cert_id_eq:
  "cert_id oc = ''cert-'' @ nat_to_dec (now_ms oc) @ ''-'' @ take 9 (map digit36 (random36 oc))"
  by (simp add: cert_id_def cert_token)

lemma base36_not_sep:
  "is_base36_char c \<Longrightarrow> c \<noteq> CHR ''/'' \<and> c \<noteq> CHR ''.'' \<and> c \<noteq> CHR ''-''"
  by (auto simp: is_base36_char_def is_dec_digit_def)

lemma dec_digit_base36: "is_dec_digit c \<Longrightarrow> is_base36_char c"
  by (simp add: is_base36_char_def)

lemma cert_token_base36:
  assumes "list_all (\<lambda>d. d < 36) ds"
  shows "list_all is_base36_char (take 9 (map digit36 ds))"
  using assms by (auto simp: list_all_iff take_map digit36_base36 dest: in_set_takeD)

lemma nat_to_dec_base36: "list_all is_base36_char (nat_to_dec n)"
  using nat_to_dec_digits [of n] by (auto simp: list_all_iff dec_digit_base36)

lemma base36_no_sep:
  "list_all is_base36_char xs \<Longrightarrow> CHR ''/'' \<notin> set xs \<and> CHR ''.'' \<notin> set xs \<and> CHR ''-'' \<notin> set xs"
  by (auto simp: list_all_iff dest: base36_not_sep)

lemma cert_id_no_sep:
  assumes "list_all (\<lambda>d. d < 36) (random36 oc)"
  shows "CHR ''/'' \<notin> set (cert_id oc) \<and> CHR ''.'' \<notin> set (cert_id oc)"
  using base36_no_sep [OF nat_to_dec_base36 [of "now_ms oc"]]
    base36_no_sep [OF cert_token_base36 [OF assms]]
  by (simp add: cert_id_eq)

lemma seg_ok_cert_file:
  assumes "CHR ''/'' \<notin> set cid"
  shows "seg_ok (cid @ ''.jpg'')" "seg_ok (cid @ ''.png'')" "seg_ok (cid @ ''.pdf'')"
  using assms by (auto simp: seg_ok_def append_eq_Cons_conv)

lemma cert_file_path:
  assumes "seg_ok f"
  shows "path_join (certificates_dir w) f = certificates_dir w @ ''/'' @ f"
    and "dirname (path_join (certificates_dir w) f) = certificates_dir w"
  using path_join_normal_eq [OF certificates_dir_normal assms] by simp_all

lemma cert_files_distinct:
  assumes "list_all (\<lambda>d. d < 36) (random36 oc)"
  shows "path_join (certificates_dir w) (cert_id oc @ ''.jpg'') \<noteq> path_join (certificates_dir w) (cert_id oc @ ''.pdf'')"
    and "path_join (certificates_dir w) (cert_id oc @ ''.png'') \<noteq> path_join (certificates_dir w) (cert_id oc @ ''.pdf'')"
  using cert_id_no_sep [OF assms] by (simp_all add: cert_file_path(1) seg_ok_cert_file)

lemma generate_jpg_ok:
  assumes "jpeg_error oc = None" and "dir_ready w (certificates_dir w)"
    and "CHR ''/'' \<notin> set cid" and "cert_text_error d = None"
  shows "generate_jpg oc w cid d =
    (let p = path_join (certificates_dir w) (cid @ ''.jpg'')
     in (w\<lparr>files := (files w)(p \<mapsto> Jpeg_file (render_jpg d (jpg_date oc)))\<rparr>, Inr p))"
  using assms by (simp add: generate_jpg_def Let_def write_file_sync_ready cert_file_path(2) seg_ok_cert_file)

lemma png_path:
  assumes "CHR ''.'' \<notin> set (cwd w)" and "CHR ''.'' \<notin> set cid" and "CHR ''/'' \<notin> set cid"
  shows "replace_first ''.jpg'' ''.png'' (path_join (certificates_dir w) (cid @ ''.jpg'')) =
         path_join (certificates_dir w) (cid @ ''.png'')"
proof -
  let ?pre = "certificates_dir w @ ''/'' @ cid"
  have "replace_first ''.jpg'' ''.png'' (?pre @ ''.jpg'') = ?pre @ replace_first ''.jpg'' ''.png'' ''.jpg''"
    by (rule replace_first_skip) (use assms(2) certificates_dir_no_dot [OF assms(1)] in auto)
  moreover have "replace_first ''.jpg'' ''.png'' ''.jpg'' = ''.png''"
    by simp
  ultimately show ?thesis by (simp add: cert_file_path(1) seg_ok_cert_file assms(3))
qed

lemma generate_jpg_fallback:
  assumes "jpeg_error oc = Some e" and "png_error oc = None" and "dir_ready w (certificates_dir w)"
    and "CHR ''/'' \<notin> set cid" and "CHR ''.'' \<notin> set cid" and "CHR ''.'' \<notin> set (cwd w)"
    and "cert_text_error d = None"
  shows "generate_jpg oc w cid d =
    (let p = path_join (certificates_dir w) (cid @ ''.png'')
     in (w\<lparr>files := (files w)(p \<mapsto> Png_file (render_jpg d (jpg_date oc)))\<rparr>, Inr p))"
  using assms by (simp add: generate_jpg_def Let_def write_file_sync_ready cert_file_path(2) seg_ok_cert_file png_path)


lemma generate_pdf_ok:
  assumes "pdf_stream_error oc = None" and "dir_ready w (certificates_dir w)"
    and "CHR ''/'' \<notin> set cid" and "cert_text_error d = None"
  shows "generate_pdf oc w cid d =
    (let p = path_join (certificates_dir w) (cid @ ''.pdf'')
     in (w\<lparr>files := (files w)(p \<mapsto> Pdf_file (render_pdf d (pdf_date oc)))\<rparr>, Inr p))"
  using assms by (simp add: generate_pdf_def Let_def write_file_sync_ready cert_file_path(2) seg_ok_cert_file)

lemma generate_pdf_stream_error:
  assumes "pdf_stream_error oc = Some e" and "dir_ready w (certificates_dir w)"
    and "CHR ''/'' \<notin> set cid" and "cert_text_error d = None"
  shows "generate_pdf oc w cid d =
    (w\<lparr>files := (files w)(path_join (certificates_dir w) (cid @ ''.pdf'') \<mapsto> Partial_file)\<rparr>, Inl (JsError e))"
  using assms by (simp add: generate_pdf_def Let_def write_file_sync_ready cert_file_path(2) seg_ok_cert_file)

lemma read_cert_data_obj:
  "data \<noteq> JNull \<Longrightarrow> read_cert_data data = Inr (body_cert_data data)"
  by (simp add: read_cert_data_def)

lemmas generate_steps = generate_jpg_ok generate_jpg_fallback generate_pdf_ok generate_pdf_stream_error
  read_cert_data_obj

text \<open>
  The data object read from a body that is not \<open>null\<close>, and the two files of a run.
\<close>

lemma generate_certificate_ok:
  assumes "data \<noteq> JNull" and "jpeg_error oc = None" and "pdf_stream_error oc = None"
    and "dir_ready w (certificates_dir w)" and "list_all (\<lambda>d. d < 36) (random36 oc)"
    and "cert_text_error (body_cert_data data) = None"
  shows "generate_certificate oc w data =
    (let d = body_cert_data data; cid = cert_id oc;
         jp = path_join (certificates_dir w) (cid @ ''.jpg'');
         pp = path_join (certificates_dir w) (cid @ ''.pdf'')
     in (w\<lparr>files := (files w)(jp \<mapsto> Jpeg_file (render_jpg d (jpg_date oc)),
                              pp \<mapsto> Pdf_file (render_pdf d (pdf_date oc)))\<rparr>,
         Inr \<lparr>certificateId = cid, jpgPath = jp, pdfPath = pp, fileName = cid\<rparr>))"
  using assms cert_id_no_sep [OF assms(5)]
  by (simp add: generate_certificate_def generate_steps Let_def)

lemma generate_certificate_fallback:
  assumes "data \<noteq> JNull" and "jpeg_error oc = Some e" and "png_error oc = None"
    and "pdf_stream_error oc = None" and "dir_ready w (certificates_dir w)"
    and "list_all (\<lambda>d. d < 36) (random36 oc)" and "CHR ''.'' \<notin> set (cwd w)"
    and "cert_text_error (body_cert_data data) = None"
  shows "generate_certificate oc w data =
    (let d = body_cert_data data; cid = cert_id oc;
         jp = path_join (certificates_dir w) (cid @ ''.png'');
         pp = path_join (certificates_dir w) (cid @ ''.pdf'')
     in (w\<lparr>files := (files w)(jp \<mapsto> Png_file (render_jpg d (jpg_date oc)),
                              pp \<mapsto> Pdf_file (render_pdf d (pdf_date oc)))\<rparr>,
         Inr \<lparr>certificateId = cid, jpgPath = jp, pdfPath = pp, fileName = cid\<rparr>))"
  using assms cert_id_no_sep [OF assms(6)]
  by (simp add: generate_certificate_def generate_steps Let_def)

text \<open>The generator keeps the file system well formed and only adds files.\<close>

lemma generate_jpg_step:
  "\<exists>p c. fst (generate_jpg oc w cid d) = w \<or> write_file_sync w p c = Inr (fst (generate_jpg oc w cid d))"
  unfolding generate_jpg_def Let_def by (auto split: option.split sum.split)

lemma generate_pdf_step:
  "\<exists>p c. fst (generate_pdf oc w cid d) = w \<or> write_file_sync w p c = Inr (fst (generate_pdf oc w cid d))"
  unfolding generate_pdf_def Let_def
  by (auto split: option.split sum.split dest: write_file_sync_overwrite)

lemma generate_jpg_inv:
  shows "wf_world w \<Longrightarrow> wf_world (fst (generate_jpg oc w cid d))"
    and "fs_grows w (fst (generate_jpg oc w cid d))"
  using generate_jpg_step [of oc w cid d] kept_or_written by blast+

lemma generate_pdf_inv:
  shows "wf_world w \<Longrightarrow> wf_world (fst (generate_pdf oc w cid d))"
    and "fs_grows w (fst (generate_pdf oc w cid d))"
  using generate_pdf_step [of oc w cid d] kept_or_written by blast+

lemma generate_certificate_inv:
  shows "wf_world w \<Longrightarrow> wf_world (fst (generate_certificate oc w data))"
    and "fs_grows w (fst (generate_certificate oc w data))"
proof -
  show "wf_world (fst (generate_certificate oc w data))" if "wf_world w"
  proof (cases "read_cert_data data")
    case (Inr d)
    show ?thesis
      unfolding generate_certificate_def Inr Let_def sum.case
      apply (rule io_bind_inv [where P = wf_world])
       apply (rule generate_jpg_inv(1) [OF that])
      apply (rule io_bind_inv [where P = wf_world])
       apply (erule generate_pdf_inv(1))
      apply simp
      done
  qed (use that in \<open>simp add: generate_certificate_def\<close>)
  show "fs_grows w (fst (generate_certificate oc w data))"
  proof (cases "read_cert_data data")
    case (Inr d)
    show ?thesis
      unfolding generate_certificate_def Inr Let_def sum.case
      apply (rule io_bind_inv [where P = "fs_grows w"])
       apply (rule generate_jpg_inv(2))
      apply (rule io_bind_inv [where P = "fs_grows w"])
       apply (erule fs_grows_trans [OF _ generate_pdf_inv(2)])
      apply simp
      done
  qed (simp add: generate_certificate_def)
qed

subsection \<open>Properties of the certificate service\<close>

text \<open>
  C15. A certificate ID is \<open>cert-\<close>, the decimal milliseconds, a dash and a token of
  lower-case base-36 characters whose length is the number of base-36 digits of the
  random number, capped at 9. The token is shorter than the 9 characters the specification
  promises whenever \<open>Math.random()\<close> has fewer than 9 base-36 digits (it is empty for 0).
\<close>

theorem cert_id_shape:
  assumes "list_all (\<lambda>d. d < 36) (random36 oc)"
  shows "cert_id oc = ''cert-'' @ nat_to_dec (now_ms oc) @ ''-'' @ take 9 (map digit36 (random36 oc)) \<and>
    nat_to_dec (now_ms oc) \<noteq> [] \<and> list_all is_dec_digit (nat_to_dec (now_ms oc)) \<and>
    list_all is_base36_char (take 9 (map digit36 (random36 oc))) \<and>
    length (take 9 (map digit36 (random36 oc))) = min 9 (length (random36 oc))"
  using assms by (simp add: cert_id_eq nat_to_dec_digits cert_token_base36)

text \<open>
  C16. The ID can be read back: parsing it gives the timestamp and the random token.
\<close>

theorem parse_cert_id_cert_id:
  assumes "list_all (\<lambda>d. d < 36) (random36 oc)"
  shows "parse_cert_id (cert_id oc) = Some (now_ms oc, take 9 (map digit36 (random36 oc)))"
proof -
  let ?ds = "nat_to_dec (now_ms oc)" and ?tok = "take 9 (map digit36 (random36 oc))"
  have "CHR ''-'' \<notin> set ?ds" using base36_no_sep [OF nat_to_dec_base36] by blast
  then have "\<forall>x\<in>set ?ds. x \<noteq> CHR ''-''" by auto
  then have t: "takeWhile (\<lambda>c. c \<noteq> CHR ''-'') (?ds @ CHR ''-'' # ?tok) = ?ds"
    and d: "dropWhile (\<lambda>c. c \<noteq> CHR ''-'') (?ds @ CHR ''-'' # ?tok) = CHR ''-'' # ?tok"
    by (simp_all add: dropWhile_append2)
  show ?thesis
    by (simp add: parse_cert_id_def cert_id_eq Let_def t d)
qed

theorem cert_id_shape_witness:
  "cert_id \<lparr>now_ms = 7, random36 = [18], jpg_date = [], pdf_date = [], jpeg_error = None,
      png_error = None, pdf_stream_error = None, send_result = Inr [], verify_error = None\<rparr> = ''cert-7-i'' \<and>
   length (take 9 (map digit36 [18::nat])) = 1"
  using cert_id_shape [of "\<lparr>now_ms = 7, random36 = [18], jpg_date = [], pdf_date = [], jpeg_error = None,
      png_error = None, pdf_stream_error = None, send_result = Inr [], verify_error = None\<rparr>"]
  by (simp add: nat_to_dec.simps digit36_def char_of_nat_eq_iff)

theorem parse_cert_id_cert_id_witness:
  "parse_cert_id (cert_id \<lparr>now_ms = 1234, random36 = [18, 3, 35], jpg_date = [], pdf_date = [],
      jpeg_error = None, png_error = None, pdf_stream_error = None, send_result = Inr [],
      verify_error = None\<rparr>) = Some (1234, ''i3z'')"
  using parse_cert_id_cert_id [of "\<lparr>now_ms = 1234, random36 = [18, 3, 35], jpg_date = [], pdf_date = [],
      jpeg_error = None, png_error = None, pdf_stream_error = None, send_result = Inr [],
      verify_error = None\<rparr>"]
  by (simp add: digit36_def char_of_nat_eq_iff)

text \<open>
  C18. The PNG fallback path is computed with \<open>jpgPath.replace(".jpg", ".png")\<close>, which
  replaces the first \<open>.jpg\<close> of the whole path. When the working directory's path
  contains \<open>.jpg\<close> (here \<open>/srv/a.jpg\<close>), the directory part is rewritten instead of
  the extension: the PNG is written to a directory that does not exist, and the fallback
  throws ENOENT instead of producing the image.
\<close>

theorem generate_jpg_fallback_path_bug:
  assumes "cwd w = ''/srv/a.jpg''"
    and "dirs w = {''/srv'', ''/srv/a.jpg'', ''/srv/a.jpg/public'', ''/srv/a.jpg/public/certificates''}"
    and "files w ''/srv/a.png'' = None"
    and "jpeg_error oc = Some e" and "png_error oc = None" and "CHR ''/'' \<notin> set cid"
    and "cert_text_error d = None"
  shows "generate_jpg oc w cid d =
    (w, Inl (JsError (''ENOENT: no such file or directory, open '' @
       CHR 0x27 # ''/srv/a.png/public/certificates/'' @ cid @ ''.jpg'' @ [CHR 0x27])))"
proof -
  have cd: "certificates_dir w = ''/srv/a.jpg/public/certificates''"
    using assms(1) by (simp add: certificates_dir_def path_join_list_def path_normalize_def Let_def dir_ready_def dirname_def)
  have "replace_first ''.jpg'' ''.png'' (''/srv/a'' @ ''.jpg'' @ ''/public/certificates/'' @ cid @ ''.jpg'') =
        ''/srv/a'' @ replace_first ''.jpg'' ''.png'' (''.jpg'' @ ''/public/certificates/'' @ cid @ ''.jpg'')"
    by (rule replace_first_skip) simp_all
  also have "\<dots> = ''/srv/a.png/public/certificates/'' @ cid @ ''.jpg''"
    by (simp only: replace_first_here) simp
  finally have r: "replace_first ''.jpg'' ''.png'' (path_join (certificates_dir w) (cid @ ''.jpg'')) =
        ''/srv/a.png/public/certificates/'' @ cid @ ''.jpg''"
    using cert_file_path(1) [OF seg_ok_cert_file(1) [OF assms(6)], of w] cd by simp
  have qn: "normal_path ''/srv/a.png/public/certificates''"
    by (simp add: normal_path_def path_normalize_def Let_def)
  have dn: "dirname (''/srv/a.png/public/certificates/'' @ cid @ ''.jpg'') = ''/srv/a.png/public/certificates''"
    using path_join_normal_eq [OF qn seg_ok_cert_file(1) [OF assms(6)]] by simp
  have pp: "path_prefixes ''/srv/a.png/public/certificates'' =
      [''/srv'', ''/srv/a.png'', ''/srv/a.png/public'', ''/srv/a.png/public/certificates'']"
    by (simp add: path_prefixes_def upt_rec)
  have "write_file_sync w (''/srv/a.png/public/certificates/'' @ cid @ ''.jpg'') c =
    Inl (JsError (''ENOENT: no such file or directory, open '' @
       CHR 0x27 # ''/srv/a.png/public/certificates/'' @ cid @ ''.jpg'' @ [CHR 0x27]))" for c
    unfolding write_file_sync_def dn pp assms(2) using assms(3) by simp
  then show ?thesis
    using r assms(4,5,7) by (simp add: generate_jpg_def Let_def)
qed

theorem generate_jpg_fallback_path_bug_witness:
  "generate_jpg \<lparr>now_ms = 0, random36 = [], jpg_date = [], pdf_date = [], jpeg_error = Some ''enc'',
      png_error = None, pdf_stream_error = None, send_result = Inr [], verify_error = None\<rparr>
     \<lparr>cwd = ''/srv/a.jpg'',
      dirs = {''/srv'', ''/srv/a.jpg'', ''/srv/a.jpg/public'', ''/srv/a.jpg/public/certificates''},
      files = Map.empty, env = Map.empty, transporter = None, outbox = []\<rparr> ''c''
     \<lparr>d_name = Some (JStr ''Jane''), d_gstNumber = None, d_businessName = None, d_businessAddress = None\<rparr> =
   (\<lparr>cwd = ''/srv/a.jpg'',
      dirs = {''/srv'', ''/srv/a.jpg'', ''/srv/a.jpg/public'', ''/srv/a.jpg/public/certificates''},
      files = Map.empty, env = Map.empty, transporter = None, outbox = []\<rparr>,
    Inl (JsError (''ENOENT: no such file or directory, open '' @
       CHR 0x27 # ''/srv/a.png/public/certificates/'' @ ''c'' @ ''.jpg'' @ [CHR 0x27])))"
  by (rule generate_jpg_fallback_path_bug) (simp_all add: cert_text_error_def js_ToString_opt_def)

text \<open>
  C17. When the PDF stream fails after opening its file, \<open>generateCertificate\<close> throws
  the stream's error, and both files stay on disk: the complete image and the incomplete
  document. There is no cleanup of a half-generated certificate.
\<close>

theorem generate_certificate_pdf_error_keeps_image:
  assumes "data \<noteq> JNull" and "jpeg_error oc = None" and "pdf_stream_error oc = Some e"
    and "dir_ready w (certificates_dir w)" and "list_all (\<lambda>d. d < 36) (random36 oc)"
    and "cert_text_error (body_cert_data data) = None"
  shows "generate_certificate oc w data =
    (w\<lparr>files := (files w)(path_join (certificates_dir w) (cert_id oc @ ''.jpg'') \<mapsto>
                        Jpeg_file (render_jpg (body_cert_data data) (jpg_date oc)),
                        path_join (certificates_dir w) (cert_id oc @ ''.pdf'') \<mapsto> Partial_file)\<rparr>,
     Inl (JsError e))"
  using assms cert_id_no_sep [OF assms(5)]
  by (simp add: generate_certificate_def generate_steps Let_def)

theorem generate_certificate_pdf_error_keeps_image_witness:
  "files (fst (generate_certificate
      \<lparr>now_ms = 5, random36 = [1], jpg_date = ''d'', pdf_date = ''d'', jpeg_error = None,
       png_error = None, pdf_stream_error = Some ''EIO'', send_result = Inr [], verify_error = None\<rparr>
      \<lparr>cwd = ''/app'', dirs = {''/app/public/certificates''}, files = Map.empty,
       env = Map.empty, transporter = None, outbox = []\<rparr> (JObj [(''name'', JStr ''Jane'')])))
      ''/app/public/certificates/cert-5-1.pdf'' = Some Partial_file \<and>
   snd (generate_certificate
      \<lparr>now_ms = 5, random36 = [1], jpg_date = ''d'', pdf_date = ''d'', jpeg_error = None,
       png_error = None, pdf_stream_error = Some ''EIO'', send_result = Inr [], verify_error = None\<rparr>
      \<lparr>cwd = ''/app'', dirs = {''/app/public/certificates''}, files = Map.empty,
       env = Map.empty, transporter = None, outbox = []\<rparr> (JObj [(''name'', JStr ''Jane'')])) = Inl (JsError ''EIO'')"
  using generate_certificate_pdf_error_keeps_image [of "JObj [(''name'', JStr ''Jane'')]"
      "\<lparr>now_ms = 5, random36 = [1], jpg_date = ''d'', pdf_date = ''d'', jpeg_error = None,
       png_error = None, pdf_stream_error = Some ''EIO'', send_result = Inr [], verify_error = None\<rparr>"
      "''EIO''" "\<lparr>cwd = ''/app'', dirs = {''/app/public/certificates''}, files = Map.empty,
       env = Map.empty, transporter = None, outbox = []\<rparr>"]
  by (simp add: certificates_dir_def path_join_def path_join_list_def path_normalize_def Let_def
      dir_ready_def dirname_def cert_id_def js_substr_def frac36_to_string_def nat_to_dec.simps digit36_def
      char_of_nat_eq_iff cert_text_error_def body_cert_data_def js_prop_def js_ToString_opt_def)

text \<open>
  C20. A regular file at the path of the certificates directory (with its ancestors in
  place) passes the module's \<open>existsSync\<close> check, so the directory is never created, and
  every generation then fails: the JPEG write throws \<open>ENOTDIR\<close>, the PNG fallback throws it
  again, and that error is what \<open>generateCertificate\<close> throws.
\<close>

theorem cert_dir_file_blocks:
  assumes "wf_world w" and "files w (certificates_dir w) \<noteq> None"
    and "list_all (\<lambda>q. q \<in> dirs w) (butlast (path_prefixes (certificates_dir w)))"
    and "data \<noteq> JNull" and "jpeg_error oc = None" and "png_error oc = None"
    and "list_all (\<lambda>d. d < 36) (random36 oc)" and "CHR ''.'' \<notin> set (cwd w)"
    and "cert_text_error (body_cert_data data) = None"
  shows "init_cert_module w = Inr w \<and>
    generate_certificate oc w data =
      (w, Inl (JsError (''ENOTDIR: not a directory, open '' @
         CHR 0x27 # path_join (certificates_dir w) (cert_id oc @ ''.png'') @ [CHR 0x27])))"
proof -
  have cid: "CHR ''/'' \<notin> set (cert_id oc)" "CHR ''.'' \<notin> set (cert_id oc)"
    using cert_id_no_sep [OF assms(7)] by simp_all
  have nd: "certificates_dir w \<notin> dirs w"
    using assms(1,2) by (auto simp: wf_world_def)
  have blocked: "write_file_sync w (path_join (certificates_dir w) f) c =
      Inl (JsError (''ENOTDIR: not a directory, open '' @ CHR 0x27 # path_join (certificates_dir w) f @ [CHR 0x27]))"
    if "seg_ok f" for f c
    by (rule write_file_sync_enotdir) (simp_all add: cert_file_path(2) [OF that] assms(2,3) nd)
  have "generate_jpg oc w (cert_id oc) (body_cert_data data) =
      (w, Inl (JsError (''ENOTDIR: not a directory, open '' @
         CHR 0x27 # path_join (certificates_dir w) (cert_id oc @ ''.png'') @ [CHR 0x27])))"
    using assms(5,6,9) cid
    by (simp add: generate_jpg_def Let_def blocked seg_ok_cert_file png_path [OF assms(8)])
  then show ?thesis
    using assms(2,4) by (simp add: init_cert_module_def fs_exists_def generate_certificate_def read_cert_data_obj)
qed

theorem cert_dir_file_blocks_witness:
  "init_cert_module \<lparr>cwd = ''/app'', dirs = {''/app'', ''/app/public''},
      files = [''/app/public/certificates'' \<mapsto> Pdf_file []], env = Map.empty, transporter = None, outbox = []\<rparr> =
     Inr \<lparr>cwd = ''/app'', dirs = {''/app'', ''/app/public''},
      files = [''/app/public/certificates'' \<mapsto> Pdf_file []], env = Map.empty, transporter = None, outbox = []\<rparr> \<and>
   snd (generate_certificate
     \<lparr>now_ms = 5, random36 = [1], jpg_date = ''d'', pdf_date = ''d'', jpeg_error = None,
      png_error = None, pdf_stream_error = None, send_result = Inr [], verify_error = None\<rparr>
     \<lparr>cwd = ''/app'', dirs = {''/app'', ''/app/public''},
      files = [''/app/public/certificates'' \<mapsto> Pdf_file []], env = Map.empty, transporter = None, outbox = []\<rparr>
     (JObj [])) =
   Inl (JsError (''ENOTDIR: not a directory, open '' @ CHR 0x27 # ''/app/public/certificates/cert-5-1.png'' @ [CHR 0x27]))"
proof -
  let ?w = "\<lparr>cwd = ''/app'', dirs = {''/app'', ''/app/public''},
      files = [''/app/public/certificates'' \<mapsto> Pdf_file []], env = Map.empty, transporter = None, outbox = []\<rparr>"
  let ?oc = "\<lparr>now_ms = 5, random36 = [1], jpg_date = ''d'', pdf_date = ''d'', jpeg_error = None,
      png_error = None, pdf_stream_error = None, send_result = Inr [], verify_error = None\<rparr>"
  have p2: "path_prefixes ''/app/public'' = [''/app'', ''/app/public'']"
    by (simp add: path_prefixes_def upt_rec)
  have p1: "path_prefixes ''/app'' = [''/app'']"
    by (simp add: path_prefixes_def upt_rec)
  have p3: "path_prefixes ''/app/public/certificates'' = [''/app'', ''/app/public'', ''/app/public/certificates'']"
    by (simp add: path_prefixes_def upt_rec)
  have cd: "certificates_dir ?w = ''/app/public/certificates''"
    by (simp add: certificates_dir_def path_join_list_def path_normalize_def Let_def)
  have dn: "dirname ''/app/public/certificates'' = ''/app/public''"
    by (simp add: dirname_def)
  have wf: "wf_world ?w"
    by (simp add: wf_world_def p1 p2 dn)
  have ci: "cert_id ?oc = ''cert-5-1''"
    by (simp add: cert_id_def js_substr_def frac36_to_string_def nat_to_dec.simps digit36_def char_of_nat_eq_iff)
  have pj: "path_join ''/app/public/certificates'' (''cert-5-1'' @ ''.png'') = ''/app/public/certificates/cert-5-1.png''"
    by (simp add: path_join_def path_join_list_def path_normalize_def Let_def)
  show ?thesis
    using cert_dir_file_blocks [OF wf, of "JObj []" ?oc] unfolding cd ci pj
    by (simp add: p3 cert_text_error_def body_cert_data_def js_prop_def)
qed

end
