(* ===== verification/Email_Service.thy ===== *)
theory Email_Service
  imports Cert_Generator
begin

text \<open>
  The delivery service of src/lib/email-service.js: the module variable
  \<open>transporter\<close> and its lazy initialisation \<open>getTransporter\<close> (lines 5-21),
  \<open>sendCertificateEmail\<close> (lines 23-80) and \<open>testEmailConnection\<close> (lines 82-90).
  The transport's SMTP conversation is the outcome \<open>send_result\<close> / \<open>verify_error\<close>;
  an accepted message is appended to the world's outbox with the transport that sent it.
\<close>

subsection \<open>The transport\<close>

text \<open>
  Lines 10-18: the options are read from \<open>process.env\<close> when the transport is built;
  \<open>SMTP_PORT || "587"\<close> replaces an unset or empty value.
\<close>

definition create_transport :: "(string \<Rightarrow> string option) \<Rightarrow> transport" where
  "create_transport e =
     \<lparr>t_host = e ''SMTP_HOST'',
      t_port = js_parse_int (case e ''SMTP_PORT'' of None \<Rightarrow> ''587'' | Some s \<Rightarrow> if s = [] then ''587'' else s),
      t_secure = (e ''SMTP_SECURE'' = Some ''true''),
      t_user = e ''SMTP_USER'', t_pass = e ''SMTP_PASSWORD''\<rparr>"

definition get_transporter :: "world \<Rightarrow> world \<times> transport" where
  "get_transporter w =
     (case transporter w of
        Some t \<Rightarrow> (w, t)
      | None \<Rightarrow> (let t = create_transport (env w) in (w\<lparr>transporter := Some t\<rparr>, t)))"

subsection \<open>The message\<close>

definition dq :: "string \<Rightarrow> string" where
  "dq s = CHR 0x22 # s @ [CHR 0x22]"

text \<open>The HTML template of lines 51-68, line by line, with \<open>${name}\<close> and \<open>${certificateId}\<close>.\<close>

definition cert_email_html :: "string \<Rightarrow> string \<Rightarrow> string" where
  "cert_email_html name cid =
     js_join [CHR 0x0A]
       [[],
        ''      <div style='' @ dq ''font-family: Arial, sans-serif; max-width: 600px; margin: 0 auto;'' @ ''>'',
        ''        <h1 style='' @ dq ''color: #1e3a8a;'' @ ''>Certificate of Completion</h1>'',
        ''        <p>Dear '' @ name @ '',</p>'',
        ''        <p>Congratulations! Your certificate of completion has been generated and is attached to this email.</p>'',
        ''        <p>You will find two versions attached:</p>'',
        ''        <ul>'',
        ''          <li><strong>JPG Format:</strong> For viewing and sharing on digital platforms</li>'',
        ''          <li><strong>PDF Format:</strong> For printing and official records</li>'',
        ''        </ul>'',
        ''        <p style='' @ dq ''background-color: #f3f4f6; padding: 15px; border-radius: 5px; margin: 20px 0;'' @ ''>'',
        ''          <strong>Certificate Details:</strong><br>'',
        ''          Certificate ID: '' @ cid,
        ''        </p>'',
        ''        <p>If you have any questions, please don'' @ CHR 0x27 # ''t hesitate to reach out.</p>'',
        ''        <p>Best regards,<br>Certificate Generation Team</p>'',
        ''      </div>'',
        ''    '']"

text \<open>
  \<open>certificateData\<close>: the artifact of \<open>generateCertificate\<close> with \<open>name: body.name\<close>
  (route.js lines 31-34).
\<close>

record cert_email_data =
  ce_name :: "json option"
  ce_jpgPath :: path
  ce_pdfPath :: path
  ce_certificateId :: string

definition cert_mail :: "world \<Rightarrow> json option \<Rightarrow> cert_email_data \<Rightarrow> mail" where
  "cert_mail w email cd =
     (let name = js_str_opt (ce_name cd); cid = ce_certificateId cd
      in \<lparr>mail_from = env w ''SMTP_FROM_EMAIL'', mail_to = email,
          mail_subject = ''Your Certificate of Completion - '' @ name,
          mail_html = cert_email_html name cid,
          mail_attachments = [(cid @ ''.jpg'', ce_jpgPath cd), (cid @ ''.pdf'', ce_pdfPath cd)]\<rparr>)"

subsection \<open>sendCertificateEmail and testEmailConnection\<close>

text \<open>
  Lines 23-80. The transporter is obtained first, so a call that then fails on a missing
  file has still created it. The subject and the body are template literals on \<open>name\<close>
  (lines 50 and 54): a name that does not convert to a string throws there, before the
  send. A send error is rethrown with the transport's message.
\<close>

definition send_certificate_email ::
  "outcomes \<Rightarrow> world \<Rightarrow> json option \<Rightarrow> cert_email_data \<Rightarrow> message_id io_result" where
  "send_certificate_email oc w email cd =
     (let (w1, t) = get_transporter w
      in if \<not> fs_exists w1 (ce_jpgPath cd) then (w1, Inl (JsError (''JPG file not found: '' @ ce_jpgPath cd)))
         else if \<not> fs_exists w1 (ce_pdfPath cd) then (w1, Inl (JsError (''PDF file not found: '' @ ce_pdfPath cd)))
         else (case js_ToString_opt (ce_name cd) of
                 Inl e \<Rightarrow> (w1, Inl e)
               | Inr _ \<Rightarrow>
                   (case send_result oc of
                      Inl msg \<Rightarrow> (w1, Inl (JsError (''Failed to send email: '' @ msg)))
                    | Inr mid \<Rightarrow> (w1\<lparr>outbox := outbox w1 @ [(t, cert_mail w1 email cd)]\<rparr>, Inr mid))))"

definition test_email_connection :: "outcomes \<Rightarrow> world \<Rightarrow> string io_result" where
  "test_email_connection oc w =
     (let (w1, t) = get_transporter w
      in case verify_error oc of
           Some m \<Rightarrow> (w1, Inl (JsError (''Email connection failed: '' @ m)))
         | None \<Rightarrow> (w1, Inr ''Email connection verified''))"

subsection \<open>Facts about the transport\<close>

lemma get_transporter_eq:
  "get_transporter w =
     (let t = (case transporter w of Some t \<Rightarrow> t | None \<Rightarrow> create_transport (env w))
      in (w\<lparr>transporter := Some t\<rparr>, t))"
  by (cases "transporter w") (auto simp: get_transporter_def)

lemma fs_exists_transporter [simp]: "fs_exists (w\<lparr>transporter := t\<rparr>) p = fs_exists w p"
  by (simp add: fs_exists_def)

lemma create_transport_port_default:
  "e ''SMTP_PORT'' = None \<or> e ''SMTP_PORT'' = Some [] \<Longrightarrow> t_port (create_transport e) = Some 587"
proof -
  have "nat_to_dec 587 = ''587''"
    by (simp add: nat_to_dec.simps digit36_def char_of_nat_eq_iff)
  then have "js_parse_int ''587'' = Some 587"
    using js_parse_int_nat_to_dec [of 587] by simp
  then show "e ''SMTP_PORT'' = None \<or> e ''SMTP_PORT'' = Some [] \<Longrightarrow> ?thesis"
    by (auto simp: create_transport_def)
qed

text \<open>Sending touches only the transporter and the outbox, never the disk.\<close>

lemma send_certificate_email_frame:
  "cwd (fst (send_certificate_email oc w email cd)) = cwd w \<and>
   dirs (fst (send_certificate_email oc w email cd)) = dirs w \<and>
   files (fst (send_certificate_email oc w email cd)) = files w"
  unfolding send_certificate_email_def get_transporter_eq Let_def
  by (simp split: sum.split)

lemma send_certificate_email_inv:
  "send_certificate_email oc w email cd = (w2, r) \<Longrightarrow> wf_world w2 = wf_world w \<and> fs_grows w w2"
  using send_certificate_email_frame [of oc w email cd] by (simp add: wf_world_def fs_grows_def)

subsection \<open>Properties of the delivery service\<close>

text \<open>
  C23. The transport is built once: after \<open>sendCertificateEmail\<close> or
  \<open>testEmailConnection\<close>, the module's transporter is the one it held before, or, on the
  first call, one built from the environment of that moment. Later changes of
  \<open>SMTP_HOST\<close>, \<open>SMTP_PORT\<close> and the credentials are never read again.
\<close>

theorem send_certificate_email_transporter:
  "transporter (fst (send_certificate_email oc w email cd)) =
     Some (case transporter w of Some t \<Rightarrow> t | None \<Rightarrow> create_transport (env w)) \<and>
   transporter (fst (test_email_connection oc w)) =
     Some (case transporter w of Some t \<Rightarrow> t | None \<Rightarrow> create_transport (env w))"
  by (simp add: send_certificate_email_def test_email_connection_def get_transporter_eq Let_def
      split: sum.split option.split)

text \<open>
  C22. A missing image file makes \<open>sendCertificateEmail\<close> throw
  \<open>JPG file not found: <path>\<close> before anything is sent (the transporter, obtained
  first, is created all the same).
\<close>

theorem send_certificate_email_missing_jpg:
  "\<not> fs_exists w (ce_jpgPath cd) \<Longrightarrow>
   send_certificate_email oc w email cd =
     (fst (get_transporter w), Inl (JsError (''JPG file not found: '' @ ce_jpgPath cd)))"
  by (simp add: send_certificate_email_def get_transporter_eq Let_def)

theorem send_certificate_email_missing_jpg_witness:
  "send_certificate_email \<lparr>now_ms = 5, random36 = [1], jpg_date = ''d'', pdf_date = ''d'', jpeg_error = None, png_error = None, pdf_stream_error = None, send_result = Inr ''m1'', verify_error = None\<rparr> \<lparr>cwd = ''/app'', dirs = {''/app/public/certificates''}, files = Map.empty, env = Map.empty, transporter = None, outbox = []\<rparr> (Some (JStr ''a@b.co'')) \<lparr>ce_name = Some (JStr ''Jane''), ce_jpgPath = ''/app/public/certificates/c.png'', ce_pdfPath = ''/app/public/certificates/c.pdf'', ce_certificateId = ''c''\<rparr> =
     (fst (get_transporter \<lparr>cwd = ''/app'', dirs = {''/app/public/certificates''}, files = Map.empty, env = Map.empty, transporter = None, outbox = []\<rparr>),
      Inl (JsError (''JPG file not found: '' @ ''/app/public/certificates/c.png'')))"
  using send_certificate_email_missing_jpg [where w = "\<lparr>cwd = ''/app'', dirs = {''/app/public/certificates''}, files = Map.empty, env = Map.empty, transporter = None, outbox = []\<rparr>" and cd = "\<lparr>ce_name = Some (JStr ''Jane''), ce_jpgPath = ''/app/public/certificates/c.png'', ce_pdfPath = ''/app/public/certificates/c.pdf'', ce_certificateId = ''c''\<rparr>"]
  by (simp add: fs_exists_def)

text \<open>
  C21. With the transport built and both files present, an accepted message is appended
  to the outbox and its id returned. The sender is read from \<open>SMTP_FROM_EMAIL\<close> at
  every send (line 48), not once with the transport as the specification says of the mail
  configuration; the image attachment is always named \<open><id>.jpg\<close>, also when the file
  written was the PNG fallback.
\<close>

theorem send_certificate_email_sent:
  assumes "transporter w = Some t" and "fs_exists w (ce_jpgPath cd)" and "fs_exists w (ce_pdfPath cd)"
    and "\<not> isl (js_ToString_opt (ce_name cd))" and "send_result oc = Inr mid"
  shows "send_certificate_email oc w email cd = (w\<lparr>outbox := outbox w @ [(t, cert_mail w email cd)]\<rparr>, Inr mid) \<and>
    mail_from (cert_mail w email cd) = env w ''SMTP_FROM_EMAIL'' \<and>
    mail_attachments (cert_mail w email cd) =
      [(ce_certificateId cd @ ''.jpg'', ce_jpgPath cd), (ce_certificateId cd @ ''.pdf'', ce_pdfPath cd)]"
  using assms by (auto simp: send_certificate_email_def get_transporter_def cert_mail_def Let_def
      split: sum.split)

theorem send_certificate_email_sent_witness:
  "send_certificate_email \<lparr>now_ms = 5, random36 = [1], jpg_date = ''d'', pdf_date = ''d'', jpeg_error = None, png_error = None, pdf_stream_error = None, send_result = Inr ''m1'', verify_error = None\<rparr> \<lparr>cwd = ''/app'', dirs = {''/app/public/certificates''}, files = [''/app/public/certificates/c.png'' \<mapsto> Png_file [], ''/app/public/certificates/c.pdf'' \<mapsto> Pdf_file []], env = [''SMTP_FROM_EMAIL'' \<mapsto> ''noreply@x.org''], transporter = Some \<lparr>t_host = None, t_port = Some 587, t_secure = False, t_user = None, t_pass = None\<rparr>, outbox = []\<rparr> (Some (JStr ''a@b.co'')) \<lparr>ce_name = Some (JStr ''Jane''), ce_jpgPath = ''/app/public/certificates/c.png'', ce_pdfPath = ''/app/public/certificates/c.pdf'', ce_certificateId = ''c''\<rparr> =
     (\<lparr>cwd = ''/app'', dirs = {''/app/public/certificates''}, files = [''/app/public/certificates/c.png'' \<mapsto> Png_file [], ''/app/public/certificates/c.pdf'' \<mapsto> Pdf_file []], env = [''SMTP_FROM_EMAIL'' \<mapsto> ''noreply@x.org''], transporter = Some \<lparr>t_host = None, t_port = Some 587, t_secure = False, t_user = None, t_pass = None\<rparr>, outbox = []\<rparr>\<lparr>outbox := [(\<lparr>t_host = None, t_port = Some 587, t_secure = False, t_user = None, t_pass = None\<rparr>, cert_mail \<lparr>cwd = ''/app'', dirs = {''/app/public/certificates''}, files = [''/app/public/certificates/c.png'' \<mapsto> Png_file [], ''/app/public/certificates/c.pdf'' \<mapsto> Pdf_file []], env = [''SMTP_FROM_EMAIL'' \<mapsto> ''noreply@x.org''], transporter = Some \<lparr>t_host = None, t_port = Some 587, t_secure = False, t_user = None, t_pass = None\<rparr>, outbox = []\<rparr> (Some (JStr ''a@b.co'')) \<lparr>ce_name = Some (JStr ''Jane''), ce_jpgPath = ''/app/public/certificates/c.png'', ce_pdfPath = ''/app/public/certificates/c.pdf'', ce_certificateId = ''c''\<rparr>)]\<rparr>, Inr ''m1'') \<and>
   mail_attachments (cert_mail \<lparr>cwd = ''/app'', dirs = {''/app/public/certificates''}, files = [''/app/public/certificates/c.png'' \<mapsto> Png_file [], ''/app/public/certificates/c.pdf'' \<mapsto> Pdf_file []], env = [''SMTP_FROM_EMAIL'' \<mapsto> ''noreply@x.org''], transporter = Some \<lparr>t_host = None, t_port = Some 587, t_secure = False, t_user = None, t_pass = None\<rparr>, outbox = []\<rparr> (Some (JStr ''a@b.co'')) \<lparr>ce_name = Some (JStr ''Jane''), ce_jpgPath = ''/app/public/certificates/c.png'', ce_pdfPath = ''/app/public/certificates/c.pdf'', ce_certificateId = ''c''\<rparr>) =
     [(''c.jpg'', ''/app/public/certificates/c.png''), (''c.pdf'', ''/app/public/certificates/c.pdf'')]"
  using send_certificate_email_sent [of "\<lparr>cwd = ''/app'', dirs = {''/app/public/certificates''}, files = [''/app/public/certificates/c.png'' \<mapsto> Png_file [], ''/app/public/certificates/c.pdf'' \<mapsto> Pdf_file []], env = [''SMTP_FROM_EMAIL'' \<mapsto> ''noreply@x.org''], transporter = Some \<lparr>t_host = None, t_port = Some 587, t_secure = False, t_user = None, t_pass = None\<rparr>, outbox = []\<rparr>" "\<lparr>t_host = None, t_port = Some 587, t_secure = False, t_user = None, t_pass = None\<rparr>" "\<lparr>ce_name = Some (JStr ''Jane''), ce_jpgPath = ''/app/public/certificates/c.png'', ce_pdfPath = ''/app/public/certificates/c.pdf'', ce_certificateId = ''c''\<rparr>" "\<lparr>now_ms = 5, random36 = [1], jpg_date = ''d'', pdf_date = ''d'', jpeg_error = None, png_error = None, pdf_stream_error = None, send_result = Inr ''m1'', verify_error = None\<rparr>" "''m1''" "Some (JStr ''a@b.co'')"]
  by (simp add: fs_exists_def)

text \<open>
  C34. The recipient's name is pasted into the HTML body as it is: the body contains the
  line \<open><p>Dear <name>,</p>\<close> verbatim, so markup in the submitted name reaches the
  message unescaped.
\<close>

theorem cert_mail_name_unescaped:
  "sublist (''        <p>Dear '' @ js_str_opt (ce_name cd) @ '',</p>'') (mail_html (cert_mail w email cd))"
proof -
  have "mail_html (cert_mail w email cd) = cert_email_html (js_str_opt (ce_name cd)) (ce_certificateId cd)"
    by (simp add: cert_mail_def Let_def)
  moreover have "sublist (''        <p>Dear '' @ js_str_opt (ce_name cd) @ '',</p>'')
      (cert_email_html (js_str_opt (ce_name cd)) (ce_certificateId cd))"
    unfolding cert_email_html_def by (rule sublist_js_join) simp
  ultimately show ?thesis by simp
qed


text \<open>
  C35. The SMTP port defaults to 587 when \<open>SMTP_PORT\<close> is unset or empty, and a
  decimal \<open>SMTP_PORT\<close> is read as its value.
\<close>

theorem create_transport_port:
  "(e ''SMTP_PORT'' = None \<or> e ''SMTP_PORT'' = Some [] \<longrightarrow> t_port (create_transport e) = Some 587) \<and>
   (e ''SMTP_PORT'' = Some (nat_to_dec n) \<longrightarrow> t_port (create_transport e) = Some (int n))"
  using create_transport_port_default [of e] js_parse_int_nat_to_dec [of n]
  by (auto simp: create_transport_def)

theorem create_transport_port_witness:
  "t_port (create_transport Map.empty) = Some 587 \<and>
   t_port (create_transport [''SMTP_PORT'' \<mapsto> nat_to_dec 2525]) = Some 2525"
  using create_transport_port [of "Map.empty" 0] create_transport_port [of "[''SMTP_PORT'' \<mapsto> nat_to_dec 2525]" 2525]
  by simp

end
