(* ===== verification/Regex.thy ===== *)
theory Regex
  imports Js_Values "HOL-Library.Monad_Syntax"
begin

text \<open>
  The regular-expression engine behind \<open>emailRegex.test(body.email)\<close> (route.js lines
  18-19), for the fragment the pattern uses: the anchors \<open>^\<close> and \<open>$\<close>, literal characters
  and greedy one-or-more repetitions of a negated character class. \<open>re_exec\<close> is the
  backtracking matcher of ECMAScript: a greedy \<open>+\<close> first takes the longest run of the
  class and gives characters back one at a time; \<open>test\<close> tries the start positions from
  0 up to the length of the input. The matcher is written as a partial function in the
  option monad (\<open>None\<close> is divergence), since a backtracking engine need not stop for
  every pattern; \<open>re_match\<close> is the total reference semantics, and the lemmas below show
  that the engine returns its answer on every pattern of the fragment and every input.
\<close>

text \<open>\<open>[^\s...]\<close>: a character outside the listed ones, and not white space when the flag is set.\<close>

datatype re_class = Not_in (excl_space: bool) (excl_chars: "char list")

datatype re_item = Bol | Eol | Lit char | Plus re_class

definition class_ok :: "re_class \<Rightarrow> char \<Rightarrow> bool" where
  "class_ok cl c \<longleftrightarrow> \<not> (excl_space cl \<and> is_js_space c) \<and> c \<notin> set (excl_chars cl)"

text \<open>\<open>/^[^\s@]+@[^\s@]+\.[^\s@]+$/\<close> of route.js line 18.\<close>

definition email_pattern :: "re_item list" where
  "email_pattern =
     [Bol, Plus (Not_in True ''@''), Lit (CHR ''@''), Plus (Not_in True ''@''), Lit (CHR ''.''),
      Plus (Not_in True ''@''), Eol]"

text \<open>
  A goal of the matcher: match the rest of a pattern at index \<open>i\<close> with input \<open>r\<close> left;
  try a greedy repetition with \<open>k\<close> characters and fewer; or scan the start positions.
\<close>

datatype re_goal =
    Match "re_item list" nat string
  | Try "re_item list" nat string nat
  | Scan "re_item list" nat string

partial_function (option) re_exec :: "re_goal \<Rightarrow> bool option" where
  "re_exec g =
     (case g of
        Match [] i r \<Rightarrow> Some True
      | Match (Bol # ps) i r \<Rightarrow> (if i = 0 then re_exec (Match ps i r) else Some False)
      | Match (Eol # ps) i r \<Rightarrow> (if r = [] then re_exec (Match ps i r) else Some False)
      | Match (Lit c # ps) i r \<Rightarrow>
          (case r of
             [] \<Rightarrow> Some False
           | x # r' \<Rightarrow> (if x = c then re_exec (Match ps (Suc i) r') else Some False))
      | Match (Plus cl # ps) i r \<Rightarrow> re_exec (Try ps i r (length (takeWhile (class_ok cl) r)))
      | Try ps i r 0 \<Rightarrow> Some False
      | Try ps i r (Suc k) \<Rightarrow>
          do { b \<leftarrow> re_exec (Match ps (i + Suc k) (drop (Suc k) r));
               if b then Some True else re_exec (Try ps i r k) }
      | Scan ps i r \<Rightarrow>
          do { b \<leftarrow> re_exec (Match ps i r);
               if b then Some True
               else (case r of [] \<Rightarrow> Some False | _ # r' \<Rightarrow> re_exec (Scan ps (Suc i) r')) })"

text \<open>\<open>RegExp.prototype.test\<close> of a non-global pattern: a match starting anywhere.\<close>

definition regex_test :: "re_item list \<Rightarrow> string \<Rightarrow> bool option" where
  "regex_test ps s = re_exec (Scan ps 0 s)"

text \<open>The reference semantics: which matches exist, without an order of search.\<close>

fun re_match :: "re_item list \<Rightarrow> nat \<Rightarrow> string \<Rightarrow> bool" where
  "re_match [] i r = True"
| "re_match (Bol # ps) i r = (i = 0 \<and> re_match ps i r)"
| "re_match (Eol # ps) i r = (r = [] \<and> re_match ps i r)"
| "re_match (Lit c # ps) i r = (case r of [] \<Rightarrow> False | x # r' \<Rightarrow> x = c \<and> re_match ps (Suc i) r')"
| "re_match (Plus cl # ps) i r =
     (\<exists>k \<in> {1..length (takeWhile (class_ok cl) r)}. re_match ps (i + k) (drop k r))"

definition re_search :: "re_item list \<Rightarrow> string \<Rightarrow> bool" where
  "re_search ps s \<longleftrightarrow> (\<exists>j \<le> length s. re_match ps j (drop j s))"

lemma re_exec_try:
  assumes "\<And>i r. re_exec (Match ps i r) = Some (re_match ps i r)"
  shows "re_exec (Try ps i r k) = Some (\<exists>j \<in> {1..k}. re_match ps (i + j) (drop j r))"
proof (induction k)
  case 0
  then show ?case by (simp add: re_exec.simps)
next
  case (Suc k)
  then show ?case
    by (subst re_exec.simps) (auto simp: assms atLeastAtMostSuc_conv)
qed

lemma re_exec_match: "re_exec (Match ps i r) = Some (re_match ps i r)"
proof (induction ps arbitrary: i r)
  case Nil
  then show ?case by (simp add: re_exec.simps)
next
  case (Cons p ps)
  then show ?case
    by (cases p) (auto simp: re_exec.simps [of "Match _ _ _"] re_exec_try split: list.split)
qed

lemma ex_le_Suc_split: "(\<exists>j \<le> Suc n. P j) \<longleftrightarrow> P 0 \<or> (\<exists>j \<le> n. P (Suc j))"
proof
  assume "\<exists>j \<le> Suc n. P j"
  then obtain j where "j \<le> Suc n" "P j" by blast
  then show "P 0 \<or> (\<exists>j \<le> n. P (Suc j))" by (cases j) auto
qed auto

lemma re_exec_scan:
  "re_exec (Scan ps i r) = Some (\<exists>j \<le> length r. re_match ps (i + j) (drop j r))"
proof (induction r arbitrary: i)
  case Nil
  then show ?case by (subst re_exec.simps) (simp add: re_exec_match)
next
  case (Cons x r)
  have "(\<exists>j \<le> length (x # r). re_match ps (i + j) (drop j (x # r))) \<longleftrightarrow>
        re_match ps i (x # r) \<or> (\<exists>j \<le> length r. re_match ps (Suc i + j) (drop j r))"
    by (simp add: ex_le_Suc_split)
  with Cons show ?case by (subst re_exec.simps) (simp add: re_exec_match)
qed

lemma re_match_Plus:
  "re_match (Plus cl # ps) i r \<longleftrightarrow>
     (\<exists>u v. r = u @ v \<and> u \<noteq> [] \<and> list_all (class_ok cl) u \<and> re_match ps (i + length u) v)"
proof
  assume "re_match (Plus cl # ps) i r"
  then obtain k where k: "1 \<le> k" "k \<le> length (takeWhile (class_ok cl) r)"
    and m: "re_match ps (i + k) (drop k r)" by auto
  have "take k r = take k (takeWhile (class_ok cl) r)"
    using k(2) by (metis takeWhile_eq_take take_take min.absorb1)
  then have "list_all (class_ok cl) (take k r)"
    by (metis list_all_iff in_set_takeD set_takeWhileD)
  moreover have "length (take k r) = k"
    using k(2) length_takeWhile_le [of "class_ok cl" r] by simp
  ultimately show "\<exists>u v. r = u @ v \<and> u \<noteq> [] \<and> list_all (class_ok cl) u \<and> re_match ps (i + length u) v"
    using k(1) m by (intro exI [of _ "take k r"] exI [of _ "drop k r"]) auto
next
  assume "\<exists>u v. r = u @ v \<and> u \<noteq> [] \<and> list_all (class_ok cl) u \<and> re_match ps (i + length u) v"
  then obtain u v where r: "r = u @ v" and u: "u \<noteq> []" "list_all (class_ok cl) u"
    and m: "re_match ps (i + length u) v" by blast
  have "takeWhile (class_ok cl) r = u @ takeWhile (class_ok cl) v"
    using r u(2) by (simp add: takeWhile_append2 list_all_iff)
  then have "length u \<in> {1..length (takeWhile (class_ok cl) r)}"
    using u(1) by (simp add: Suc_le_eq)
  moreover have "re_match ps (i + length u) (drop (length u) r)"
    using m r by simp
  ultimately show "re_match (Plus cl # ps) i r"
    unfolding re_match.simps by blast
qed

end
