(* ===== verification/Route.thy ===== *)
theory Route
  imports Email_Service Regex
begin

text \<open>
  The request handler \<open>POST\<close> of src/app/api/generate-certificate/route.js: it parses
  the body, rejects it with 400 when a required field is falsy or the email does not
  match the pattern, then awaits \<open>generateCertificate\<close> and \<open>sendCertificateEmail\<close>
  in sequence, mapping any exception to 500 with its message.
\<close>

subsection \<open>Responses\<close>

datatype resp_body =
    Err_body string
  | Ok_body string string

record response =
  status :: nat
  body :: resp_body

text \<open>Lines 46-48: the error's message, or the fallback text when it is empty.\<close>

definition err500 :: "js_error \<Rightarrow> response" where
  "err500 e =
     \<lparr>status = 500,
      body = Err_body (if err_msg e = [] then ''Failed to generate certificate'' else err_msg e)\<rparr>"

text \<open>
  The JSON body \<open>NextResponse.json\<close> sends (lines 14, 20, 38-45, 48): \<open>{error}\<close> for
  a failure, \<open>{success, message, certificateId}\<close> for a success.
\<close>

definition response_json :: "response \<Rightarrow> json" where
  "response_json r =
     (case body r of
        Err_body m \<Rightarrow> JObj [(''error'', JStr m)]
      | Ok_body m cid \<Rightarrow> JObj [(''success'', JBool True), (''message'', JStr m), (''certificateId'', JStr cid)])"

text \<open>The two shapes of the answer's body: \<open>{error}\<close> and \<open>{success, message, certificateId}\<close>.\<close>

definition err_schema :: json_type where
  "err_schema = T_obj [(''error'', T_str)]"

definition ok_schema :: json_type where
  "ok_schema = T_obj [(''success'', T_bool), (''message'', T_str), (''certificateId'', T_str)]"

subsection \<open>Validation\<close>

definition required_fields :: "string list" where
  "required_fields = [''name'', ''email'', ''gstNumber'', ''businessName'', ''businessAddress'']"

text \<open>
  Line 11: \<open>required.filter((field) => !body[field])\<close>. A property read on a
  \<open>null\<close> body throws inside the filter callback.
\<close>

fun missing_fields :: "json \<Rightarrow> string list \<Rightarrow> js_error + string list" where
  "missing_fields b [] = Inr []"
| "missing_fields b (f # fs) =
     (case js_get b f of
        Inl e \<Rightarrow> Inl e
      | Inr v \<Rightarrow> (case missing_fields b fs of
                  Inl e \<Rightarrow> Inl e
                | Inr m \<Rightarrow> Inr (if js_truthy_opt v then m else f # m)))"

text \<open>
  Line 18: \<open>/^[^\s@]+@[^\s@]+\.[^\s@]+$/\<close>. \<open>email_re_spec\<close> is the set of strings
  the pattern denotes; \<open>email_regex_test\<close> decides it in one pass: no white space, a
  non-empty part before the only \<open>@\<close>, and a dot strictly inside the rest.
\<close>

definition re_class_ok :: "char \<Rightarrow> bool" where
  "re_class_ok c \<longleftrightarrow> \<not> is_js_space c \<and> c \<noteq> CHR ''@''"

definition email_re_spec :: "string \<Rightarrow> bool" where
  "email_re_spec s \<longleftrightarrow>
     (\<exists>a b c. s = a @ CHR ''@'' # b @ CHR ''.'' # c \<and> a \<noteq> [] \<and> b \<noteq> [] \<and> c \<noteq> [] \<and>
        list_all re_class_ok a \<and> list_all re_class_ok b \<and> list_all re_class_ok c)"

definition email_regex_test :: "string \<Rightarrow> bool" where
  "email_regex_test s \<longleftrightarrow>
     list_all (\<lambda>c. \<not> is_js_space c) s \<and>
     (case dropWhile (\<lambda>c. c \<noteq> CHR ''@'') s of
        [] \<Rightarrow> False
      | _ # r \<Rightarrow> takeWhile (\<lambda>c. c \<noteq> CHR ''@'') s \<noteq> [] \<and> CHR ''@'' \<notin> set r \<and>
                 CHR ''.'' \<in> set (butlast (tl r)))"

subsection \<open>The handler\<close>

text \<open>
  \<open>POST\<close>, lines 5-50. \<open>req\<close> is the outcome of \<open>request.json()\<close>: the parsed
  body or the parser's exception. \<open>emailRegex.test(body.email)\<close> (line 19) converts the
  email to a string first; that conversion may throw.
\<close>

definition post :: "outcomes \<Rightarrow> world \<Rightarrow> js_error + json \<Rightarrow> world \<times> response" where
  "post oc w req =
     (case req of
        Inl e \<Rightarrow> (w, err500 e)
      | Inr b \<Rightarrow>
          (case missing_fields b required_fields of
             Inl e \<Rightarrow> (w, err500 e)
           | Inr ms \<Rightarrow>
               if ms \<noteq> [] then
                 (w, \<lparr>status = 400, body = Err_body (''Missing required fields: '' @ js_join '', '' ms)\<rparr>)
               else
                 (case js_ToString_opt (js_prop b ''email'') of
                    Inl e \<Rightarrow> (w, err500 e)
                  | Inr s \<Rightarrow>
                      if \<not> email_regex_test s then
                        (w, \<lparr>status = 400, body = Err_body ''Invalid email address''\<rparr>)
                      else
                        (case generate_certificate oc w b of
                           (w1, Inl e) \<Rightarrow> (w1, err500 e)
                         | (w1, Inr a) \<Rightarrow>
                             (case send_certificate_email oc w1 (js_prop b ''email'')
                                     \<lparr>ce_name = js_prop b ''name'', ce_jpgPath = jpgPath a,
                                      ce_pdfPath = pdfPath a, ce_certificateId = certificateId a\<rparr> of
                                (w2, Inl e) \<Rightarrow> (w2, err500 e)
                              | (w2, Inr _) \<Rightarrow>
                                  (w2, \<lparr>status = 200,
                                        body = Ok_body ''Certificate generated and sent successfully''
                                                 (certificateId a)\<rparr>))))))"

text \<open>
  The bodies whose required fields all convert to strings: for the others the handler
  answers 500 with the conversion's \<open>TypeError\<close>.
\<close>

definition fields_convert :: "json \<Rightarrow> bool" where
  "fields_convert b \<longleftrightarrow> list_all (\<lambda>f. \<not> isl (js_ToString_opt (js_prop b f))) required_fields"

subsection \<open>Facts about validation\<close>

lemma missing_fields_filter:
  "b \<noteq> JNull \<Longrightarrow> missing_fields b fs = Inr (filter (\<lambda>f. \<not> js_truthy_opt (js_prop b f)) fs)"
  by (induction fs) (cases b; simp add: js_prop_def)+

lemma re_class_ok_list:
  "list_all re_class_ok xs \<longleftrightarrow> list_all (\<lambda>c. \<not> is_js_space c) xs \<and> CHR ''@'' \<notin> set xs"
  by (auto simp: list_all_iff re_class_ok_def)

lemma at_not_space: "\<not> is_js_space (CHR ''@'')" and dot_not_space: "\<not> is_js_space (CHR ''.'')"
  by (simp_all add: is_js_space_def)

lemma email_regex_test_complete:
  assumes "email_re_spec s" shows "email_regex_test s"
proof -
  from assms obtain a b c where s: "s = a @ CHR ''@'' # b @ CHR ''.'' # c"
    and ne: "a \<noteq> []" "b \<noteq> []" "c \<noteq> []"
    and ok: "list_all re_class_ok a" "list_all re_class_ok b" "list_all re_class_ok c"
    unfolding email_re_spec_def by blast
  from ok have noat: "\<forall>x\<in>set a. x \<noteq> CHR ''@''" by (auto simp: list_all_iff re_class_ok_def)
  then have tw: "takeWhile (\<lambda>x. x \<noteq> CHR ''@'') s = a"
    and dw: "dropWhile (\<lambda>x. x \<noteq> CHR ''@'') s = CHR ''@'' # b @ CHR ''.'' # c"
    by (simp_all add: s takeWhile_append2 dropWhile_append2)
  obtain b0 bs where b: "b = b0 # bs" using ne(2) by (cases b) auto
  have "butlast (tl (b @ CHR ''.'' # c)) = bs @ CHR ''.'' # butlast c"
    using ne(3) by (simp add: b butlast_append)
  then have dot: "CHR ''.'' \<in> set (butlast (tl (b @ CHR ''.'' # c)))" by simp
  show ?thesis
    using ok ne tw dw dot at_not_space dot_not_space
    by (simp add: email_regex_test_def re_class_ok_list s)
qed

lemma email_regex_test_sound:
  assumes "email_regex_test s" shows "email_re_spec s"
proof -
  define a where "a = takeWhile (\<lambda>x. x \<noteq> CHR ''@'') s"
  from assms obtain x r where dw: "dropWhile (\<lambda>x. x \<noteq> CHR ''@'') s = x # r"
    by (auto simp: email_regex_test_def split: list.splits)
  from dw have x: "x = CHR ''@''"
    using dropWhile_eq_Cons_conv [THEN iffD1, OF dw] by simp
  from assms dw have sp: "list_all (\<lambda>c. \<not> is_js_space c) s" and a_ne: "a \<noteq> []"
    and r_noat: "CHR ''@'' \<notin> set r" and dot: "CHR ''.'' \<in> set (butlast (tl r))"
    by (auto simp: email_regex_test_def a_def)
  have s: "s = a @ CHR ''@'' # r"
    using takeWhile_dropWhile_id [of "\<lambda>x. x \<noteq> CHR ''@''" s] dw x by (simp add: a_def)
  have a_noat: "CHR ''@'' \<notin> set a"
    unfolding a_def by (auto dest: set_takeWhileD)
  from dot obtain u v where uv: "butlast (tl r) = u @ CHR ''.'' # v"
    by (meson split_list)
  then have "tl r \<noteq> []" by auto
  then obtain r0 rs where r: "r = r0 # rs" and rs: "rs \<noteq> []" by (cases r) auto
  from uv r have br: "butlast rs = u @ CHR ''.'' # v" by simp
  obtain z where z: "last rs = z" by simp
  from rs have "rs = butlast rs @ [last rs]" by (rule append_butlast_last_id [symmetric])
  also have "\<dots> = (u @ CHR ''.'' # v) @ [z]" by (simp only: br z)
  finally have rs_eq: "rs = u @ CHR ''.'' # v @ [z]" by simp
  from sp have sp_a: "list_all (\<lambda>c. \<not> is_js_space c) a" and sp_r: "list_all (\<lambda>c. \<not> is_js_space c) r"
    by (simp_all add: s)
  have a_ok: "list_all re_class_ok a"
    using sp_a a_noat by (simp add: re_class_ok_list)
  have r_ok: "list_all re_class_ok r"
    using sp_r r_noat by (simp add: re_class_ok_list)
  have "s = a @ CHR ''@'' # (r0 # u) @ CHR ''.'' # (v @ [z])"
    using s r rs_eq by simp
  moreover have "list_all re_class_ok (r0 # u) \<and> list_all re_class_ok (v @ [z])"
    using r_ok r rs_eq by simp
  ultimately show ?thesis
    unfolding email_re_spec_def using a_ne a_ok by blast
qed

lemma class_ok_email: "class_ok (Not_in True ''@'') = re_class_ok"
  by (auto simp: class_ok_def re_class_ok_def)

lemma re_search_Bol: "re_search (Bol # ps) s \<longleftrightarrow> re_match ps 0 s"
  by (auto simp: re_search_def intro: exI [of _ 0])

lemma case_list_False_ex: "(case v of [] \<Rightarrow> False | x # r \<Rightarrow> P x r) \<longleftrightarrow> (\<exists>x r. v = x # r \<and> P x r)"
  by (cases v) auto

lemma re_match_email: "re_match (tl email_pattern) 0 s \<longleftrightarrow> email_re_spec s"
proof -
  have "re_match (tl email_pattern) 0 s \<longleftrightarrow>
    (\<exists>a v. s = a @ v \<and> a \<noteq> [] \<and> list_all re_class_ok a \<and>
      (\<exists>r. v = CHR ''@'' # r \<and> (\<exists>b v'. r = b @ v' \<and> b \<noteq> [] \<and> list_all re_class_ok b \<and>
        (\<exists>c. v' = CHR ''.'' # c \<and> c \<noteq> [] \<and> list_all re_class_ok c))))"
    unfolding email_pattern_def list.sel(3)
    by (simp only: re_match_Plus re_match.simps(1-4) class_ok_email) (auto simp: case_list_False_ex)
  also have "\<dots> \<longleftrightarrow> email_re_spec s"
    unfolding email_re_spec_def by blast
  finally show ?thesis .
qed

lemma post_valid:
  assumes "b \<noteq> JNull" and "list_all (\<lambda>f. js_truthy_opt (js_prop b f)) required_fields"
    and "js_ToString_opt (js_prop b ''email'') = Inr s" and "email_re_spec s"
  shows "post oc w (Inr b) =
    (case generate_certificate oc w b of
       (w1, Inl e) \<Rightarrow> (w1, err500 e)
     | (w1, Inr a) \<Rightarrow>
         (case send_certificate_email oc w1 (js_prop b ''email'')
                 \<lparr>ce_name = js_prop b ''name'', ce_jpgPath = jpgPath a,
                  ce_pdfPath = pdfPath a, ce_certificateId = certificateId a\<rparr> of
            (w2, Inl e) \<Rightarrow> (w2, err500 e)
          | (w2, Inr _) \<Rightarrow>
              (w2, \<lparr>status = 200, body = Ok_body ''Certificate generated and sent successfully''
                                           (certificateId a)\<rparr>)))"
proof -
  have "filter (\<lambda>f. \<not> js_truthy_opt (js_prop b f)) required_fields = []"
    using assms(2) by (simp add: list_all_iff filter_empty_conv)
  moreover have "email_regex_test s"
    using assms(4) by (rule email_regex_test_complete)
  ultimately show ?thesis
    using assms(1,3) by (simp add: post_def missing_fields_filter)
qed

lemma status_err500 [simp]: "status (err500 e) = 500"
  by (simp add: err500_def)

lemma fields_convert_parts:
  assumes "fields_convert b"
  shows "js_ToString_opt (js_prop b ''email'') = Inr (js_str_opt (js_prop b ''email''))"
    and "js_ToString_opt (js_prop b ''name'') = Inr (js_str_opt (js_prop b ''name''))"
    and "cert_text_error (body_cert_data b) = None"
proof -
  show "js_ToString_opt (js_prop b ''email'') = Inr (js_str_opt (js_prop b ''email''))"
    and "js_ToString_opt (js_prop b ''name'') = Inr (js_str_opt (js_prop b ''name''))"
    using assms by (simp_all add: fields_convert_def required_fields_def js_ToString_opt_Inr)
  show "cert_text_error (body_cert_data b) = None"
    using assms unfolding cert_text_error_def first_error_None
    by (simp add: fields_convert_def required_fields_def body_cert_data_def)
qed

text \<open>The answers the pipeline after validation gives: 200 or 500, never 400.\<close>

lemma pipeline_status:
  "status (snd (case generate_certificate oc w b of
       (w1, Inl e) \<Rightarrow> (w1, err500 e)
     | (w1, Inr a) \<Rightarrow>
         (case send_certificate_email oc w1 em (cd a) of
            (w2, Inl e) \<Rightarrow> (w2, err500 e)
          | (w2, Inr _) \<Rightarrow> (w2, \<lparr>status = 200, body = Ok_body m (certificateId a)\<rparr>)))) \<noteq> 400"
  by (simp add: err500_def split: prod.split sum.split)

text \<open>
  Every answer of the handler is a success with status 200 or an error with status 400
  or 500 carrying a non-empty message.
\<close>

lemma post_response_shape:
  "(\<exists>m cid. snd (post oc w req) = \<lparr>status = 200, body = Ok_body m cid\<rparr>) \<or>
   (\<exists>m. m \<noteq> [] \<and> snd (post oc w req) \<in> {\<lparr>status = 400, body = Err_body m\<rparr>, \<lparr>status = 500, body = Err_body m\<rparr>})"
  by (auto simp: post_def err500_def split: sum.splits prod.splits)

subsection \<open>Properties of the request handler\<close>

text \<open>
  C1. A body with falsy or absent required fields is answered 400, and the message lists
  exactly the failing fields, comma-separated, in the order of the required-field list.
  Nothing is generated or sent.
\<close>

theorem post_missing_fields:
  assumes "b \<noteq> JNull" and "filter (\<lambda>f. \<not> js_truthy_opt (js_prop b f)) required_fields \<noteq> []"
  shows "post oc w (Inr b) =
    (w, \<lparr>status = 400, body = Err_body (''Missing required fields: '' @
           js_join '', '' (filter (\<lambda>f. \<not> js_truthy_opt (js_prop b f)) required_fields))\<rparr>)"
  using assms by (simp add: post_def missing_fields_filter)

theorem post_missing_fields_witness:
  "post \<lparr>now_ms = 5, random36 = [1], jpg_date = ''d'', pdf_date = ''d'', jpeg_error = None, png_error = None, pdf_stream_error = None, send_result = Inr ''m1'', verify_error = None\<rparr>
      \<lparr>cwd = ''/app'', dirs = {''/app/public/certificates''}, files = Map.empty, env = Map.empty, transporter = None, outbox = []\<rparr>
      (Inr (JObj [(''name'', JStr ''Jane Doe''), (''gstNumber'', JStr ''27AABCT1234H1Z0''), (''businessName'', JStr ''ABC Corp''), (''businessAddress'', JStr ''123 Main St'')])) =
     (\<lparr>cwd = ''/app'', dirs = {''/app/public/certificates''}, files = Map.empty, env = Map.empty, transporter = None, outbox = []\<rparr>,
     \<lparr>status = 400, body = Err_body ''Missing required fields: email''\<rparr>)"
  using post_missing_fields [of "JObj [(''name'', JStr ''Jane Doe''), (''gstNumber'', JStr ''27AABCT1234H1Z0''), (''businessName'', JStr ''ABC Corp''), (''businessAddress'', JStr ''123 Main St'')]"
      "\<lparr>now_ms = 5, random36 = [1], jpg_date = ''d'', pdf_date = ''d'', jpeg_error = None, png_error = None, pdf_stream_error = None, send_result = Inr ''m1'', verify_error = None\<rparr>" "\<lparr>cwd = ''/app'', dirs = {''/app/public/certificates''}, files = Map.empty, env = Map.empty, transporter = None, outbox = []\<rparr>"]
  by (simp add: required_fields_def js_prop_def js_truthy_opt_def)

text \<open>
  C2. A body with all required fields present whose email converts to a string that
  does not have the shape \<open>local@domain.tld\<close> of the pattern is answered 400
  \<open>Invalid email address\<close>; nothing is generated or sent.
\<close>

theorem post_invalid_email:
  assumes "b \<noteq> JNull" and "list_all (\<lambda>f. js_truthy_opt (js_prop b f)) required_fields"
    and "js_ToString_opt (js_prop b ''email'') = Inr s" and "\<not> email_re_spec s"
  shows "post oc w (Inr b) = (w, \<lparr>status = 400, body = Err_body ''Invalid email address''\<rparr>)"
proof -
  have "filter (\<lambda>f. \<not> js_truthy_opt (js_prop b f)) required_fields = []"
    using assms(2) by (simp add: list_all_iff filter_empty_conv)
  moreover have "\<not> email_regex_test s"
    using assms(4) email_regex_test_sound by blast
  ultimately show ?thesis
    using assms(1,3) by (simp add: post_def missing_fields_filter)
qed

theorem post_invalid_email_witness:
  "post \<lparr>now_ms = 5, random36 = [1], jpg_date = ''d'', pdf_date = ''d'', jpeg_error = None, png_error = None, pdf_stream_error = None, send_result = Inr ''m1'', verify_error = None\<rparr>
      \<lparr>cwd = ''/app'', dirs = {''/app/public/certificates''}, files = Map.empty, env = Map.empty, transporter = None, outbox = []\<rparr>
      (Inr (JObj [(''name'', JStr ''Jane''), (''email'', JStr ''not-an-email''), (''gstNumber'', JStr ''27A''),
      (''businessName'', JStr ''ABC''), (''businessAddress'', JStr ''Main'')])) =
   (\<lparr>cwd = ''/app'', dirs = {''/app/public/certificates''}, files = Map.empty, env = Map.empty, transporter = None, outbox = []\<rparr>, \<lparr>status = 400, body = Err_body ''Invalid email address''\<rparr>)"
proof (rule post_invalid_email)
  show "\<not> email_re_spec ''not-an-email''"
    by (simp add: email_re_spec_def Cons_eq_append_conv)
qed (simp_all add: required_fields_def js_prop_def js_truthy_opt_def)

text \<open>
  C3. The one-pass check \<open>email_regex_test\<close> decides exactly the language of the
  pattern \<open>/^[^\s@]+@[^\s@]+\.[^\s@]+$/\<close>.
\<close>

theorem email_regex_test_iff: "email_regex_test s \<longleftrightarrow> email_re_spec s"
  using email_regex_test_sound email_regex_test_complete by blast

text \<open>
  C4. Every answer of the handler is well typed: status 200 with a body of shape
  \<open>{success: boolean, message: string, certificateId: string}\<close>, or status 400 or 500
  with a body \<open>{error: string}\<close> whose message is non-empty.
\<close>

theorem post_response_typed:
  "(status (snd (post oc w req)) = 200 \<and> has_type ok_schema (response_json (snd (post oc w req)))) \<or>
   (status (snd (post oc w req)) \<in> {400, 500} \<and> has_type err_schema (response_json (snd (post oc w req))) \<and>
    (\<exists>m. m \<noteq> [] \<and> js_get (response_json (snd (post oc w req))) ''error'' = Inr (Some (JStr m))))"
  using post_response_shape [of oc w req]
  by (auto simp: response_json_def ok_schema_def err_schema_def)

text \<open>
  C5. The one-pass check agrees with the backtracking engine of ECMAScript on the
  pattern of line 18: \<open>emailRegex.test(s)\<close> returns, with the answer of \<open>email_regex_test\<close>.
\<close>

theorem email_regex_engine: "regex_test email_pattern s = Some (email_regex_test s)"
proof -
  have "email_pattern = Bol # tl email_pattern" by (simp add: email_pattern_def)
  then have "re_search email_pattern s \<longleftrightarrow> email_re_spec s"
    using re_search_Bol re_match_email by metis
  then show ?thesis
    using email_regex_test_sound email_regex_test_complete
    by (auto simp: regex_test_def re_exec_scan re_search_def)
qed

text \<open>
  C32. A body that is not a JSON object is never processed: \<open>null\<close> is answered 500 with
  the engine's TypeError message (the property read in the filter callback throws), and
  any other primitive or array lacks every field and is answered 400 listing all five.
  Nothing is generated or sent.
\<close>

theorem post_non_object_body:
  assumes "\<forall>kvs. b \<noteq> JObj kvs"
  shows "post oc w (Inr b) =
     (w, if b = JNull
         then \<lparr>status = 500, body = Err_body (''Cannot read properties of null (reading '' @
                                              CHR 0x27 # ''name'' @ [CHR 0x27, CHR '')''])\<rparr>
         else \<lparr>status = 400, body = Err_body
                 ''Missing required fields: name, email, gstNumber, businessName, businessAddress''\<rparr>)"
  using assms
  by (cases b) (simp_all add: post_def required_fields_def err500_def js_truthy_opt_def)

theorem post_non_object_body_witness:
  "post \<lparr>now_ms = 5, random36 = [1], jpg_date = ''d'', pdf_date = ''d'', jpeg_error = None, png_error = None, pdf_stream_error = None, send_result = Inr ''m1'', verify_error = None\<rparr>
      \<lparr>cwd = ''/app'', dirs = {''/app/public/certificates''}, files = Map.empty, env = Map.empty, transporter = None, outbox = []\<rparr>
      (Inr (JArr [JStr ''jane@example.com''])) =
   (\<lparr>cwd = ''/app'', dirs = {''/app/public/certificates''}, files = Map.empty, env = Map.empty, transporter = None, outbox = []\<rparr>,
    \<lparr>status = 400, body = Err_body ''Missing required fields: name, email, gstNumber, businessName, businessAddress''\<rparr>)"
  using post_non_object_body [of "JArr [JStr ''jane@example.com'']"] by simp

text \<open>
  C33. For a body that is not \<open>null\<close>, the answer is 400 exactly when a required field is
  falsy, or when the email converts to a string that fails the pattern. Validation looks
  at truthiness and at the string form only: numbers, booleans, arrays and objects pass
  as fields, and an email array holding one address passes as that address.
\<close>

theorem post_validation_400:
  assumes "b \<noteq> JNull"
  shows "status (snd (post oc w (Inr b))) = 400 \<longleftrightarrow>
    \<not> list_all (\<lambda>f. js_truthy_opt (js_prop b f)) required_fields \<or>
    (\<exists>s. js_ToString_opt (js_prop b ''email'') = Inr s \<and> \<not> email_regex_test s)"
proof (cases "list_all (\<lambda>f. js_truthy_opt (js_prop b f)) required_fields")
  case True
  then have "filter (\<lambda>f. \<not> js_truthy_opt (js_prop b f)) required_fields = []"
    by (simp add: list_all_iff filter_empty_conv)
  then show ?thesis
    using assms True by (simp add: post_def missing_fields_filter pipeline_status split: sum.split)
next
  case False
  then have "filter (\<lambda>f. \<not> js_truthy_opt (js_prop b f)) required_fields \<noteq> []"
    by (simp add: list_all_iff filter_empty_conv)
  then show ?thesis
    using assms False by (simp add: post_def missing_fields_filter)
qed

theorem post_validation_400_witness:
  "status (snd (post \<lparr>now_ms = 5, random36 = [1], jpg_date = ''d'', pdf_date = ''d'', jpeg_error = None, png_error = None, pdf_stream_error = None, send_result = Inr ''m1'', verify_error = None\<rparr>
      \<lparr>cwd = ''/app'', dirs = {''/app/public/certificates''}, files = Map.empty, env = Map.empty, transporter = None, outbox = []\<rparr>
      (Inr (JObj [(''name'', JNum 1), (''email'', JArr [JStr ''a@b.co'']), (''gstNumber'', JBool True),
                  (''businessName'', JArr []), (''businessAddress'', JNum 7)])))) \<noteq> 400"
  using post_validation_400 [of "JObj [(''name'', JNum 1), (''email'', JArr [JStr ''a@b.co'']), (''gstNumber'', JBool True),
                  (''businessName'', JArr []), (''businessAddress'', JNum 7)]"
      "\<lparr>now_ms = 5, random36 = [1], jpg_date = ''d'', pdf_date = ''d'', jpeg_error = None, png_error = None, pdf_stream_error = None, send_result = Inr ''m1'', verify_error = None\<rparr>"
      "\<lparr>cwd = ''/app'', dirs = {''/app/public/certificates''}, files = Map.empty, env = Map.empty, transporter = None, outbox = []\<rparr>"]
  by (simp add: required_fields_def js_prop_def js_truthy_opt_def js_ToString_def email_regex_test_def
      is_js_space_def)

end
