(* ===== verification/Form_UI.thy ===== *)
theory Form_UI
  imports Js_Values
begin

text \<open>
  The client form of certificate-form.jsx as a state machine. The React state of
  \<open>CertificateForm\<close> (\<open>loading\<close>, \<open>message\<close>, \<open>error\<close>, \<open>formData\<close>) is a record; the one
  request in flight is recorded with the \<open>formData\<close> its closure captured when it was
  submitted, since \<open>handleSubmit\<close> reads that snapshot (not the current fields) when the
  answer arrives. The events are the ones the component reacts to: an edit of a field
  (\<open>handleChange\<close>), a submission the browser lets through (\<open>handleSubmit\<close> up to its
  first \<open>await\<close>) and the settlement of the pending \<open>fetch\<close>: an HTTP answer whose body
  parsed to JSON or failed to parse, or a network failure. \<open>form_step\<close> is the
  component's reaction, \<open>form_reach\<close> the states a sequence of events can produce.
\<close>

record form_data =
  fd_name :: string
  fd_email :: string
  fd_gstNumber :: string
  fd_businessName :: string
  fd_businessAddress :: string

text \<open>The \<open>name\<close> attributes of the five inputs (lines 70, 83, 96, 109, 121).\<close>

datatype form_field = Field_name | Field_email | Field_gstNumber | Field_businessName | Field_businessAddress

record form_state =
  loading :: bool
  message :: string
  error :: string
  formData :: form_data
  pending :: "form_data option"

text \<open>The empty form of lines 10-16 and 50-56.\<close>

definition empty_form :: form_data where
  "empty_form = \<lparr>fd_name = [], fd_email = [], fd_gstNumber = [], fd_businessName = [],
                 fd_businessAddress = []\<rparr>"

definition form_init :: form_state where
  "form_init = \<lparr>loading = False, message = [], error = [], formData = empty_form, pending = None\<rparr>"

text \<open>\<open>{...prev, [name]: value}\<close> of \<open>handleChange\<close>.\<close>

fun set_field :: "form_field \<Rightarrow> string \<Rightarrow> form_data \<Rightarrow> form_data" where
  "set_field Field_name v d = d\<lparr>fd_name := v\<rparr>"
| "set_field Field_email v d = d\<lparr>fd_email := v\<rparr>"
| "set_field Field_gstNumber v d = d\<lparr>fd_gstNumber := v\<rparr>"
| "set_field Field_businessName v d = d\<lparr>fd_businessName := v\<rparr>"
| "set_field Field_businessAddress v d = d\<lparr>fd_businessAddress := v\<rparr>"

text \<open>\<open>JSON.stringify(formData)\<close>: an object with the five keys in declaration order.\<close>

definition form_body :: "form_data \<Rightarrow> json" where
  "form_body d = JObj [(''name'', JStr (fd_name d)), (''email'', JStr (fd_email d)),
                       (''gstNumber'', JStr (fd_gstNumber d)), (''businessName'', JStr (fd_businessName d)),
                       (''businessAddress'', JStr (fd_businessAddress d))]"

text \<open>
  The browser submits the form only when the submit button is enabled
  (\<open>disabled={loading}\<close>, line 145; implicit submission follows the default button) and
  every \<open>required\<close> field is non-empty. The additional syntax check of
  \<open>type="email"\<close> is the browser's and is not modelled: the guard admits a superset of
  the submissions a browser lets through.
\<close>

definition all_filled :: "form_data \<Rightarrow> bool" where
  "all_filled d \<longleftrightarrow> fd_name d \<noteq> [] \<and> fd_email d \<noteq> [] \<and> fd_gstNumber d \<noteq> [] \<and>
                    fd_businessName d \<noteq> [] \<and> fd_businessAddress d \<noteq> []"

definition submit_enabled :: "form_state \<Rightarrow> bool" where
  "submit_enabled s \<longleftrightarrow> \<not> loading s \<and> all_filled (formData s)"

datatype ui_event =
    Change form_field string
  | Submit
  | Reply nat "js_error + json"
  | Fetch_failed js_error

text \<open>
  The \<open>try\<close> block of \<open>handleSubmit\<close> after \<open>fetch\<close> resolved with an HTTP status and
  \<open>response.json()\<close> settled: \<open>Inr msg\<close> is the success message, \<open>Inl e\<close> the exception
  the \<open>catch\<close> receives (a JSON syntax error, the \<open>TypeError\<close> of reading \<open>error\<close> of
  \<open>null\<close>, or the \<open>Error\<close> built from \<open>data.error\<close>).
\<close>

definition reply_outcome :: "form_data \<Rightarrow> nat \<Rightarrow> js_error + json \<Rightarrow> js_error + string" where
  "reply_outcome d st data =
     (case data of
        Inl e \<Rightarrow> Inl e
      | Inr v \<Rightarrow>
          if 200 \<le> st \<and> st \<le> 299 then
            Inr (''Success! Certificate has been generated and sent to '' @ fd_email d)
          else
            (case js_get v ''error'' of
               Inl e \<Rightarrow> Inl e
             | Inr x \<Rightarrow> Inl (JsError (if js_truthy_opt x then js_str_opt x
                                      else ''Failed to generate certificate''))))"

text \<open>The \<open>catch\<close> (line 58): \<open>err.message || "An error occurred"\<close>.\<close>

definition shown_error :: "js_error \<Rightarrow> string" where
  "shown_error e = (if err_msg e = [] then ''An error occurred'' else err_msg e)"

text \<open>
  Settlement of the pending request: the success branch sets the message and clears the
  fields (lines 49-56), the \<open>catch\<close> sets the error, the \<open>finally\<close> clears \<open>loading\<close>.
\<close>

definition settle :: "form_state \<Rightarrow> js_error + string \<Rightarrow> form_state" where
  "settle s r =
     (case r of
        Inr msg \<Rightarrow> s\<lparr>message := msg, formData := empty_form, loading := False, pending := None\<rparr>
      | Inl e \<Rightarrow> s\<lparr>error := shown_error e, loading := False, pending := None\<rparr>)"

fun form_step :: "form_state \<Rightarrow> ui_event \<Rightarrow> form_state" where
  "form_step s (Change f v) =
     s\<lparr>formData := set_field f v (formData s), error := [], message := []\<rparr>"
| "form_step s Submit =
     (if submit_enabled s
      then s\<lparr>loading := True, error := [], message := [], pending := Some (formData s)\<rparr>
      else s)"
| "form_step s (Reply st data) =
     (case pending s of
        None \<Rightarrow> s
      | Some d \<Rightarrow> settle s (reply_outcome d st data))"
| "form_step s (Fetch_failed e) =
     (case pending s of
        None \<Rightarrow> s
      | Some d \<Rightarrow> settle s (Inl e))"

text \<open>The request body a step sends: a submission the browser lets through sends one.\<close>

definition sent_by :: "form_state \<Rightarrow> ui_event \<Rightarrow> json option" where
  "sent_by s ev = (if ev = Submit \<and> submit_enabled s then Some (form_body (formData s)) else None)"

definition form_run :: "form_state \<Rightarrow> ui_event list \<Rightarrow> form_state" where
  "form_run s evs = foldl form_step s evs"

inductive form_reach :: "form_state \<Rightarrow> bool" where
  init: "form_reach form_init"
| step: "form_reach s \<Longrightarrow> form_reach (form_step s ev)"

definition form_inv :: "form_state \<Rightarrow> bool" where
  "form_inv s \<longleftrightarrow>
     (loading s \<longleftrightarrow> pending s \<noteq> None) \<and>
     (message s = [] \<or> error s = []) \<and>
     (loading s \<longrightarrow> message s = [] \<and> error s = []) \<and>
     (\<forall>d. pending s = Some d \<longrightarrow> all_filled d)"

text \<open>The five edits that fill the form with the data of the specification's Scenario A.\<close>

definition demo_filled :: "ui_event list" where
  "demo_filled = [Change Field_name ''Jane Doe'', Change Field_email ''jane@example.com'',
     Change Field_gstNumber ''27AABCT1234H1Z0'', Change Field_businessName ''ABC Corp'',
     Change Field_businessAddress ''123 Main St'']"

text \<open>
  What the component renders (lines 64-153): the five controlled inputs show \<open>formData\<close>,
  the error and success boxes appear when their strings are truthy (non-empty), and the
  submit button is disabled and relabelled while loading.
\<close>

record form_view =
  v_values :: form_data
  v_error_box :: "string option"
  v_message_box :: "string option"
  v_button_label :: string
  v_button_disabled :: bool

definition form_view :: "form_state \<Rightarrow> form_view" where
  "form_view s =
     \<lparr>v_values = formData s,
      v_error_box = (if error s \<noteq> [] then Some (error s) else None),
      v_message_box = (if message s \<noteq> [] then Some (message s) else None),
      v_button_label = (if loading s then ''Generating Certificate...'' else ''Generate & Send Certificate''),
      v_button_disabled = loading s\<rparr>"

text \<open>The five edits that type the fields of \<open>d\<close> into the inputs, in the order of the form.\<close>

definition fill_events :: "form_data \<Rightarrow> ui_event list" where
  "fill_events d = [Change Field_name (fd_name d), Change Field_email (fd_email d),
     Change Field_gstNumber (fd_gstNumber d), Change Field_businessName (fd_businessName d),
     Change Field_businessAddress (fd_businessAddress d)]"

inductive_cases form_reach_cases: "form_reach s"

lemma shown_error_ne [simp]: "shown_error e \<noteq> []"
  by (simp add: shown_error_def)

lemma settle_exclusive:
  "message s = [] \<Longrightarrow> error s = [] \<Longrightarrow> message (settle s r) = [] \<or> error (settle s r) = []"
  by (auto simp: settle_def split: sum.splits)

lemma form_inv_init: "form_inv form_init"
  by (simp add: form_inv_def form_init_def)

lemma form_inv_step: "form_inv s \<Longrightarrow> form_inv (form_step s ev)"
  by (cases ev) (auto simp: form_inv_def submit_enabled_def settle_def split: option.splits sum.splits)

lemma form_reach_inv: "form_reach s \<Longrightarrow> form_inv s"
  by (induction rule: form_reach.induct) (auto intro: form_inv_init form_inv_step)

lemma form_reach_run: "form_reach s \<Longrightarrow> form_reach (form_run s evs)"
  by (induction evs arbitrary: s) (auto simp: form_run_def intro: form_reach.step)

lemma form_run_fill:
  "formData (form_run s (fill_events d)) = d \<and> loading (form_run s (fill_events d)) = loading s"
  by (simp add: form_run_def fill_events_def)

lemma form_run_Cons: "form_run s (ev # evs) = form_run (form_step s ev) evs"
  by (simp add: form_run_def)

lemma fill_enables: "\<not> loading t \<Longrightarrow> all_filled d \<Longrightarrow> submit_enabled (form_run t (fill_events d))"
  using form_run_fill [of t d] by (simp add: submit_enabled_def)

lemma form_run_edits:
  "pending (form_run s (map (\<lambda>(f, x). Change f x) edits)) = pending s"
  by (induction edits arbitrary: s) (auto simp: form_run_def)

lemma settle_idle: "\<not> loading (settle s r) \<and> pending (settle s r) = None"
  by (simp add: settle_def split: sum.split)

subsection \<open>Properties of the form\<close>

text \<open>
  C24. In every reachable state of the form, \<open>loading\<close> is set exactly while a request is
  pending, the success and error banners are never shown together, and neither is shown
  while loading.
\<close>

theorem form_reach_invariant:
  assumes "form_reach s"
  shows "(loading s \<longleftrightarrow> pending s \<noteq> None) \<and> (message s = [] \<or> error s = []) \<and>
         (loading s \<longrightarrow> message s = [] \<and> error s = [])"
  using form_reach_inv [OF assms] by (simp add: form_inv_def)

theorem form_reach_invariant_witness:
  "(loading (form_run form_init (demo_filled @ [Submit])) \<longleftrightarrow>
      pending (form_run form_init (demo_filled @ [Submit])) \<noteq> None) \<and>
   loading (form_run form_init (demo_filled @ [Submit]))"
  using form_reach_invariant [OF form_reach_run [OF form_reach.init, of "demo_filled @ [Submit]"]]
  by (simp add: form_run_def demo_filled_def form_init_def submit_enabled_def all_filled_def)

text \<open>
  C25. While a request is pending no event sends another one, and every request the form
  sends has all five fields non-empty strings.
\<close>

theorem form_single_flight:
  assumes "form_reach s"
  shows "(pending s \<noteq> None \<longrightarrow> sent_by s ev = None) \<and>
         (\<forall>b. sent_by s ev = Some b \<longrightarrow> (\<exists>d. b = form_body d \<and> all_filled d))"
  using form_reach_inv [OF assms]
  by (auto simp: form_inv_def sent_by_def submit_enabled_def)

theorem form_single_flight_witness:
  "sent_by (form_run form_init (demo_filled @ [Submit])) Submit = None"
  using form_single_flight [OF form_reach_run [OF form_reach.init, of "demo_filled @ [Submit]"], of Submit]
  by (simp add: form_run_def demo_filled_def form_init_def submit_enabled_def all_filled_def)

text \<open>
  C26. The fields are cleared only by a confirmed success: when a step empties a form
  that was not empty, the step is an edit or the arrival of a 2xx answer whose body
  parsed, for a request that was pending.
\<close>

theorem form_cleared_only_on_success:
  assumes "formData (form_step s ev) = empty_form" and "formData s \<noteq> empty_form"
  shows "(\<exists>f v. ev = Change f v) \<or>
         (\<exists>st v. ev = Reply st (Inr v) \<and> 200 \<le> st \<and> st \<le> 299 \<and> pending s \<noteq> None)"
  using assms
  by (cases ev) (auto simp: settle_def reply_outcome_def split: option.splits sum.splits if_splits)

theorem form_cleared_only_on_success_witness:
  "formData (form_run form_init (demo_filled @ [Submit, Reply 500 (Inr (JObj [(''error'', JStr ''x'')]))]))
     \<noteq> empty_form"
proof
  assume "formData (form_run form_init (demo_filled @ [Submit, Reply 500 (Inr (JObj [(''error'', JStr ''x'')]))]))
     = empty_form"
  from form_cleared_only_on_success [OF this [unfolded form_run_def foldl_append foldl_Cons foldl_Nil]]
  show False
    by (simp add: demo_filled_def form_init_def submit_enabled_def all_filled_def empty_form_def)
qed

text \<open>
  C27. An error answer is shown with the message the server sent: for a pending request,
  a non-2xx answer whose body is \<open>{error: m}\<close> with \<open>m\<close> non-empty sets the error banner
  to \<open>m\<close>, clears \<open>loading\<close> and keeps the fields.
\<close>

theorem form_shows_server_error:
  assumes "pending s = Some d" and "\<not> (200 \<le> st \<and> st \<le> 299)" and "m \<noteq> []"
  shows "error (form_step s (Reply st (Inr (JObj [(''error'', JStr m)])))) = m \<and>
         \<not> loading (form_step s (Reply st (Inr (JObj [(''error'', JStr m)])))) \<and>
         formData (form_step s (Reply st (Inr (JObj [(''error'', JStr m)])))) = formData s"
  using assms
  by (auto simp: settle_def reply_outcome_def shown_error_def js_truthy_opt_def js_str_opt_def)

theorem form_shows_server_error_witness:
  "error (form_run form_init (demo_filled @ [Submit, Reply 400 (Inr (JObj [(''error'', JStr ''Invalid email address'')]))]))
     = ''Invalid email address''"
  using form_shows_server_error [of "form_run form_init (demo_filled @ [Submit])"
      "empty_form\<lparr>fd_name := ''Jane Doe'', fd_email := ''jane@example.com'', fd_gstNumber := ''27AABCT1234H1Z0'',
         fd_businessName := ''ABC Corp'', fd_businessAddress := ''123 Main St''\<rparr>"
      400 "''Invalid email address''"]
  by (simp add: form_run_def demo_filled_def form_init_def submit_enabled_def all_filled_def)

text \<open>
  C30. Edits made while a request is in flight are lost: from any state with a pending
  request for the snapshot \<open>d\<close>, after any edits, a 2xx answer empties the fields and the
  success message names the address of the submitted snapshot, not the one on screen.
\<close>

theorem form_edit_in_flight_lost:
  assumes "pending s = Some d" and "200 \<le> st" and "st \<le> 299"
  shows "formData (form_run s (map (\<lambda>(f, x). Change f x) edits @ [Reply st (Inr v)])) = empty_form \<and>
    message (form_run s (map (\<lambda>(f, x). Change f x) edits @ [Reply st (Inr v)])) =
      ''Success! Certificate has been generated and sent to '' @ fd_email d"
proof -
  have "form_run s (map (\<lambda>(f, x). Change f x) edits @ [Reply st (Inr v)]) =
        form_step (form_run s (map (\<lambda>(f, x). Change f x) edits)) (Reply st (Inr v))"
    by (simp add: form_run_def)
  then show ?thesis
    using form_run_edits [of s edits] assms by (simp add: settle_def reply_outcome_def)
qed

theorem form_edit_in_flight_lost_witness:
  "formData (form_run (form_run form_init (demo_filled @ [Submit]))
      (map (\<lambda>(f, x). Change f x) [(Field_email, ''new@example.com'')] @
       [Reply 200 (Inr (JObj [(''success'', JBool True)]))])) = empty_form \<and>
   message (form_run (form_run form_init (demo_filled @ [Submit]))
      (map (\<lambda>(f, x). Change f x) [(Field_email, ''new@example.com'')] @
       [Reply 200 (Inr (JObj [(''success'', JBool True)]))])) =
     ''Success! Certificate has been generated and sent to jane@example.com''"
proof -
  have "pending (form_run form_init (demo_filled @ [Submit])) =
      Some \<lparr>fd_name = ''Jane Doe'', fd_email = ''jane@example.com'', fd_gstNumber = ''27AABCT1234H1Z0'',
            fd_businessName = ''ABC Corp'', fd_businessAddress = ''123 Main St''\<rparr>"
    by (simp add: form_run_def demo_filled_def form_init_def submit_enabled_def all_filled_def)
  then show ?thesis
    using form_edit_in_flight_lost [of "form_run form_init (demo_filled @ [Submit])"
        "\<lparr>fd_name = ''Jane Doe'', fd_email = ''jane@example.com'', fd_gstNumber = ''27AABCT1234H1Z0'',
          fd_businessName = ''ABC Corp'', fd_businessAddress = ''123 Main St''\<rparr>" 200
        "[(Field_email, ''new@example.com'')]" "JObj [(''success'', JBool True)]"]
    by simp
qed

text \<open>
  C36. The form never gets stuck: from every reachable state, once the pending request
  settles (an answer or a network failure), typing a complete set of fields makes the
  form submittable again.
\<close>

theorem form_live:
  assumes "form_reach s" and "all_filled d"
  shows "submit_enabled (form_run s (Reply st data # fill_events d)) \<and>
         submit_enabled (form_run s (Fetch_failed e # fill_events d))"
proof -
  have r: "\<not> loading (form_step s (Reply st data))" and f: "\<not> loading (form_step s (Fetch_failed e))"
    using form_reach_inv [OF assms(1)] settle_idle by (cases "pending s"; auto simp: form_inv_def)+
  show ?thesis
    by (simp only: form_run_Cons) (intro conjI fill_enables assms(2) r f)
qed

theorem form_live_witness:
  "submit_enabled (form_run (form_run form_init (demo_filled @ [Submit]))
     (Fetch_failed (JsError ''Failed to fetch'') #
      fill_events \<lparr>fd_name = ''A'', fd_email = ''a@b.co'', fd_gstNumber = ''1'', fd_businessName = ''B'',
                    fd_businessAddress = ''C''\<rparr>))"
  using form_live [OF form_reach_run [OF form_reach.init, of "demo_filled @ [Submit]"],
      of "\<lparr>fd_name = ''A'', fd_email = ''a@b.co'', fd_gstNumber = ''1'', fd_businessName = ''B'',
           fd_businessAddress = ''C''\<rparr>" 200 "Inr JNull" "JsError ''Failed to fetch''"]
  by (simp add: all_filled_def)

end
