(* ===== verification/Home_Page.thy ===== *)
theory Home_Page
  imports Form_UI
begin

text \<open>
  The home page (src/app/page.jsx): a static frame around the certificate form. It has no
  state or handler of its own; what it shows is its fixed heading, subtitle and footnote
  and the view of the embedded \<open>CertificateForm\<close> (Form_UI's \<open>form_view\<close>).
\<close>

record home_view =
  hv_title :: string
  hv_subtitle :: string
  hv_form :: form_view
  hv_note :: string

text \<open>\<open>Home()\<close>, lines 5-26, for the form state \<open>s\<close> of the embedded form.\<close>

definition home_page :: "form_state \<Rightarrow> home_view" where
  "home_page s =
     \<lparr>hv_title = ''Certificate Generator'',
      hv_subtitle = ''Generate and deliver certificates via email instantly'',
      hv_form = form_view s,
      hv_note = ''Generated certificates will be sent to your email in JPG and PDF formats''\<rparr>"

lemma home_page_form [simp]: "hv_form (home_page s) = form_view s"
  by (simp add: home_page_def)

end
