(* ===== verification/Spec2Isabelle.thy ===== *)
theory Spec2Isabelle
  imports Route Home_Page
begin

text \<open>
  Verification development for the certificate-generation system: a form page
  (src/app/page.jsx, src/components/certificate-form.jsx) posts the five fields to the
  handler \<open>POST\<close> (src/app/api/generate-certificate/route.js), which validates them,
  calls \<open>generateCertificate\<close> (src/lib/certificate-generator.js: an ID, a JPEG drawn
  on a canvas with a PNG fallback, a PDF drawn with pdfkit, both written under
  \<open>public/certificates\<close>) and \<open>sendCertificateEmail\<close> (src/lib/email-service.js: a
  lazily created SMTP transport and one message with both files), and maps every
  exception to a 500 answer that the form shows.

  Theories, leaves first:
  \<^item> Prelude: the model's basic type names, \<open>js_error\<close>, the fact collections, and
    list, character and \<open>find\<close> lemmas the components share.
  \<^item> Js_Values: the JavaScript runtime behaviour the code relies on: JSON values and
    their typing judgement, truthiness, property access, \<open>String(v)\<close> with the
    \<open>TypeError\<close> it throws for an object with an own \<open>toString\<close> member
    (\<open>js_ToString\<close>), \<open>join\<close>, \<open>replace\<close>, \<open>substr\<close>, \<open>toString\<close> in bases 10 and
    36, \<open>parseInt\<close>.
  \<^item> Paths: Node's \<open>path.join\<close> (with \<open>normalizeString\<close>), \<open>path.dirname\<close>, and the
    ancestors \<open>mkdirSync\<close> creates, with the lemmas World uses to place the files of a
    certificate in the certificates directory.
  \<^item> Canvas and Pdf_Doc: the canvas 2D context and the pdfkit document as state machines
    (\<open>canvas_step\<close>, \<open>pdf_step\<close>) and the drawing programs of \<open>generateJPG\<close> (lines 42-116)
    and \<open>generatePDF\<close> (lines 148-203), call by call; a rendered file is its display list
    or page marks. \<open>cert_text_error\<close> is the exception the drawing's string conversions
    throw; pdfkit prints an absent or \<open>null\<close> text as nothing.
  \<^item> World: the process state (\<open>world\<close>: working directory, directories, files,
    \<open>process.env\<close>, the module's transporter, the accepted messages) and the answers of
    the outside world for one request (\<open>outcomes\<close>: clock, random digits, encoder and
    stream errors, SMTP answers). It models \<open>existsSync\<close>, \<open>writeFileSync\<close> (EISDIR,
    ENOTDIR, ENOENT), recursive \<open>mkdirSync\<close> (EEXIST, ENOTDIR), the module's directory
    creation \<open>init_cert_module\<close> (lines 6-10), the invariant \<open>wf_world\<close> (files lie in
    directories, directories are closed under ancestors, no path is both) and
    \<open>fs_grows\<close> (what a request may do to the disk).
  \<^item> Cert_Generator: \<open>cert_id\<close>, \<open>generate_jpg\<close>, \<open>generate_pdf\<close>,
    \<open>generate_certificate\<close>, in world-passing style (\<open>'a io_result\<close>): an exception keeps
    what was written before it, and the PDF stream creates its file when it opens, so a
    later stream error leaves an incomplete file (\<open>Partial_file\<close>). Lemmas: the ID's shape and its parse, each step on every
    branch, the invariants, and the failures a bad working directory causes.
  \<^item> Email_Service: \<open>getTransporter\<close>, the message of \<open>sendCertificateEmail\<close>, send and
    verify; the transporter is created once and the disk is never touched.
  \<^item> Regex: a backtracking matcher for the fragment of \<open>emailRegex\<close> as a partial function
    in the option monad, with the lemmas that it returns the reference semantics' answer;
    Route applies them to the pattern of line 18.
  \<^item> Route: validation (\<open>missing_fields\<close>, \<open>email_regex_test\<close>), \<open>post\<close> and the JSON
    answers, with the typing of every answer.
  \<^item> Form_UI: \<open>CertificateForm\<close> as a step function over UI events, its reachable states
    (inductive \<open>form_reach\<close>) and invariant, its rendered view, and liveness.
  \<^item> Home_Page: the static frame of \<open>Home\<close> around the form's view.
  \<^item> this theory: the layout both renderers implement (\<open>cert_lines\<close>), whole requests
    from body to answer and disk (success, JPEG fallback, send failure, empty error
    message, fields that do not convert to strings, preservation of \<open>wf_world\<close>), and
    the form and the handler together.

  No fuel is used: every loop of the code is structural recursion, and the one search
  that is not (the regex engine) is a partial function proved to return.

  Not modelled: pixels, glyph metrics and the JPEG, PNG and PDF encoders (a file is its
  drawing calls); the SMTP protocol (its answer is an outcome); file permissions,
  symbolic links and concurrent requests (each request runs alone on the world it is
  given); the browser's \<open>type=email\<close> check and the React rendering machinery beyond
  the values the JSX shows; logging (\<open>console.log\<close>), which has no observable effect on
  the answers or the disk.
\<close>

subsection \<open>The certificate layout both renderers implement\<close>

text \<open>
  The visible text of a certificate, top to bottom, as section 4.1 of the specification
  lists it: title, lead-in, name, completion line, the three detail lines in the order
  business, GST number, address, and the footer.
\<close>

definition cert_lines :: "cert_data \<Rightarrow> string \<Rightarrow> string list" where
  "cert_lines d date =
     [''CERTIFICATE OF COMPLETION'', ''This is to certify that'', js_str_opt (d_name d),
      ''has successfully completed the requirements'',
      ''Business: '' @ js_str_opt (d_businessName d),
      ''GST Number: '' @ js_str_opt (d_gstNumber d),
      ''Address: '' @ js_str_opt (d_businessAddress d),
      ''Date: '' @ date, ''Authorized Signature'']"

text \<open>
  C7. Both renderers draw exactly the certificate's text lines, in the same order: the
  image and the document are two renderings of the same content. This needs a name that
  prints: pdfkit draws nothing for an absent or \<open>null\<close> name or one that converts to
  the empty string (such as an empty array), where the canvas draws its string.
\<close>

theorem renderers_same_text:
  assumes "pdf_text_arg (d_name d) \<noteq> []"
  shows "map ti_text (canvas_text_items (render_jpg d date)) = cert_lines d date \<and>
    map ti_text (pdf_text_items (render_pdf d date)) = cert_lines d date"
  using assms pdf_text_arg_shown [OF assms] by (simp add: render_simps cert_lines_def)

theorem renderers_same_text_witness:
  "map ti_text (canvas_text_items (render_jpg \<lparr>d_name = Some (JStr ''Jane''), d_gstNumber = None, d_businessName = Some (JNum 7), d_businessAddress = None\<rparr> ''1/2/2025'')) = cert_lines \<lparr>d_name = Some (JStr ''Jane''), d_gstNumber = None, d_businessName = Some (JNum 7), d_businessAddress = None\<rparr> ''1/2/2025'' \<and>
   map ti_text (pdf_text_items (render_pdf \<lparr>d_name = Some (JStr ''Jane''), d_gstNumber = None, d_businessName = Some (JNum 7), d_businessAddress = None\<rparr> ''1/2/2025'')) = cert_lines \<lparr>d_name = Some (JStr ''Jane''), d_gstNumber = None, d_businessName = Some (JNum 7), d_businessAddress = None\<rparr> ''1/2/2025''"
  using renderers_same_text [of "\<lparr>d_name = Some (JStr ''Jane''), d_gstNumber = None, d_businessName = Some (JNum 7), d_businessAddress = None\<rparr>"] by (simp add: pdf_text_arg_def)

text \<open>
  C10. Line by line, the two renderings use the same colour, the same size and the same
  weight (bold exactly for the title and the name), for a name that prints.
\<close>

theorem renderers_same_text_style:
  assumes "pdf_text_arg (d_name d) \<noteq> []"
  shows "map (\<lambda>i. (ti_color i, ti_px i, ti_bold i)) (canvas_text_items (render_jpg d date)) =
    map (\<lambda>i. (ti_color i, ti_px i, ti_bold i)) (pdf_text_items (render_pdf d date))"
  using assms by (simp add: render_simps)

theorem renderers_same_text_style_witness:
  "map (\<lambda>i. (ti_color i, ti_px i, ti_bold i)) (canvas_text_items (render_jpg \<lparr>d_name = Some (JStr ''Jane''), d_gstNumber = None, d_businessName = Some (JNum 7), d_businessAddress = None\<rparr> ''d'')) =
   map (\<lambda>i. (ti_color i, ti_px i, ti_bold i)) (pdf_text_items (render_pdf \<lparr>d_name = Some (JStr ''Jane''), d_gstNumber = None, d_businessName = Some (JNum 7), d_businessAddress = None\<rparr> ''d''))"
  using renderers_same_text_style [of "\<lparr>d_name = Some (JStr ''Jane''), d_gstNumber = None, d_businessName = Some (JNum 7), d_businessAddress = None\<rparr>"] by (simp add: pdf_text_arg_def)

text \<open>
  C9. The detail lines are not at the same heights in the two renderings: the image
  steps them by \<open>lineHeight = 45\<close> (lines 97-108), the document hard-codes 470, 510,
  550 (lines 197-199), while the specification asks for identical positions.
\<close>

theorem detail_lines_heights_differ:
  assumes "pdf_text_arg (d_name d) \<noteq> []"
  shows "map ti_y (take 3 (drop 4 (canvas_text_items (render_jpg d date)))) = [470, 515, 560] \<and>
    map ti_y (take 3 (drop 4 (pdf_text_items (render_pdf d date)))) = [470, 510, 550]"
  using assms by (simp add: render_simps)

theorem detail_lines_heights_differ_witness:
  "map ti_y (take 3 (drop 4 (canvas_text_items (render_jpg \<lparr>d_name = Some (JStr ''Jane''), d_gstNumber = None, d_businessName = Some (JNum 7), d_businessAddress = None\<rparr> ''d'')))) = [470, 515, 560] \<and>
   map ti_y (take 3 (drop 4 (pdf_text_items (render_pdf \<lparr>d_name = Some (JStr ''Jane''), d_gstNumber = None, d_businessName = Some (JNum 7), d_businessAddress = None\<rparr> ''d'')))) = [470, 510, 550]"
  using detail_lines_heights_differ [of "\<lparr>d_name = Some (JStr ''Jane''), d_gstNumber = None, d_businessName = Some (JNum 7), d_businessAddress = None\<rparr>"] by (simp add: pdf_text_arg_def)

subsection \<open>The request pipeline\<close>

lemma post_valid_test:
  assumes "b \<noteq> JNull" and "list_all (\<lambda>f. js_truthy_opt (js_prop b f)) required_fields"
    and "fields_convert b" and "email_regex_test (js_str_opt (js_prop b ''email''))"
  shows "post oc w (Inr b) =
    (case generate_certificate oc w b of
       (w1, Inl e) \<Rightarrow> (w1, err500 e)
     | (w1, Inr a) \<Rightarrow>
         (case send_certificate_email oc w1 (js_prop b ''email'')
                 \<lparr>ce_name = js_prop b ''name'', ce_jpgPath = jpgPath a,
                  ce_pdfPath = pdfPath a, ce_certificateId = certificateId a\<rparr> of
            (w2, Inl e) \<Rightarrow> (w2, err500 e)
          | (w2, Inr _) \<Rightarrow>
              (w2, \<lparr>status = 200, body = Ok_body ''Certificate generated and sent successfully''
                                           (certificateId a)\<rparr>)))"
  using assms(1,2) fields_convert_parts(1) [OF assms(3)] email_regex_test_sound [OF assms(4)]
  by (rule post_valid)

lemma form_body_fields:
  "all_filled d \<Longrightarrow> missing_fields (form_body d) required_fields = Inr []"
  by (simp add: all_filled_def form_body_def required_fields_def js_truthy_opt_def)

subsection \<open>End-to-end behaviour of a request\<close>

text \<open>
  C6. Scenario A of the specification: a valid request in a world where the certificates
  directory exists and every external call succeeds is answered 200 with the new
  certificate ID; both files are on disk under that ID, and one message addressed to the
  submitted email, with the subject naming the submitter and the two files attached, has
  been accepted by the transport.
\<close>

theorem post_success:
  assumes "b \<noteq> JNull" and "list_all (\<lambda>f. js_truthy_opt (js_prop b f)) required_fields"
    and "fields_convert b" and "email_regex_test (js_str_opt (js_prop b ''email''))"
    and "dir_ready w (certificates_dir w)" and "list_all (\<lambda>d. d < 36) (random36 oc)"
    and "jpeg_error oc = None" and "pdf_stream_error oc = None" and "send_result oc = Inr mid"
  shows "\<exists>w' t m.
    post oc w (Inr b) =
      (w', \<lparr>status = 200, body = Ok_body ''Certificate generated and sent successfully'' (cert_id oc)\<rparr>) \<and>
    files w' (path_join (certificates_dir w) (cert_id oc @ ''.jpg'')) =
      Some (Jpeg_file (render_jpg (body_cert_data b) (jpg_date oc))) \<and>
    files w' (path_join (certificates_dir w) (cert_id oc @ ''.pdf'')) =
      Some (Pdf_file (render_pdf (body_cert_data b) (pdf_date oc))) \<and>
    outbox w' = outbox w @ [(t, m)] \<and> mail_to m = js_prop b ''email'' \<and>
    mail_subject m = ''Your Certificate of Completion - '' @ js_str_opt (js_prop b ''name'') \<and>
    map snd (mail_attachments m) =
      [path_join (certificates_dir w) (cert_id oc @ ''.jpg''), path_join (certificates_dir w) (cert_id oc @ ''.pdf'')]"
  using assms fields_convert_parts [OF assms(3)] cert_files_distinct(1) [OF assms(6)]
  by (simp add: post_def missing_fields_filter filter_empty_conv list_all_iff generate_certificate_ok
      send_certificate_email_def get_transporter_eq fs_exists_def cert_mail_def Let_def)

theorem post_success_witness:
  "snd (post \<lparr>now_ms = 5, random36 = [1], jpg_date = ''d'', pdf_date = ''d'', jpeg_error = None, png_error = None, pdf_stream_error = None, send_result = Inr ''m1'', verify_error = None\<rparr>
          \<lparr>cwd = ''/app'', dirs = {''/app/public/certificates''}, files = Map.empty, env = Map.empty, transporter = None, outbox = []\<rparr>
          (Inr (JObj [(''name'', JStr ''Jane Doe''), (''email'', JStr ''jane@example.com''), (''gstNumber'', JStr ''27AABCT1234H1Z0''), (''businessName'', JStr ''ABC Corp''), (''businessAddress'', JStr ''123 Main St'')]))) =
   \<lparr>status = 200, body = Ok_body ''Certificate generated and sent successfully''
      (cert_id \<lparr>now_ms = 5, random36 = [1], jpg_date = ''d'', pdf_date = ''d'', jpeg_error = None, png_error = None, pdf_stream_error = None, send_result = Inr ''m1'', verify_error = None\<rparr>)\<rparr>"
  using post_success [of "JObj [(''name'', JStr ''Jane Doe''), (''email'', JStr ''jane@example.com''), (''gstNumber'', JStr ''27AABCT1234H1Z0''), (''businessName'', JStr ''ABC Corp''), (''businessAddress'', JStr ''123 Main St'')]" "\<lparr>cwd = ''/app'', dirs = {''/app/public/certificates''}, files = Map.empty, env = Map.empty, transporter = None, outbox = []\<rparr>" "\<lparr>now_ms = 5, random36 = [1], jpg_date = ''d'', pdf_date = ''d'', jpeg_error = None, png_error = None, pdf_stream_error = None, send_result = Inr ''m1'', verify_error = None\<rparr>" "''m1''"]
  by (auto simp: required_fields_def js_prop_def js_truthy_opt_def js_str_opt_def email_regex_test_def is_js_space_def fields_convert_def certificates_dir_def path_join_list_def path_normalize_def Let_def dir_ready_def dirname_def)

text \<open>
  C11. Scenario D: when the JPEG encoder fails, the image is written as PNG under
  \<open><id>.png\<close> (in a working directory whose path has no dot), the PDF is still written
  and the request still succeeds. The message's first attachment keeps the name
  \<open><id>.jpg\<close> while its file is the PNG.
\<close>

theorem post_jpeg_fallback:
  assumes "b \<noteq> JNull" and "list_all (\<lambda>f. js_truthy_opt (js_prop b f)) required_fields"
    and "fields_convert b" and "email_regex_test (js_str_opt (js_prop b ''email''))"
    and "dir_ready w (certificates_dir w)" and "list_all (\<lambda>d. d < 36) (random36 oc)"
    and "CHR ''.'' \<notin> set (cwd w)"
    and "jpeg_error oc = Some e" and "png_error oc = None" and "pdf_stream_error oc = None"
    and "send_result oc = Inr mid"
  shows "\<exists>w' t m.
    post oc w (Inr b) =
      (w', \<lparr>status = 200, body = Ok_body ''Certificate generated and sent successfully'' (cert_id oc)\<rparr>) \<and>
    files w' (path_join (certificates_dir w) (cert_id oc @ ''.png'')) =
      Some (Png_file (render_jpg (body_cert_data b) (jpg_date oc))) \<and>
    files w' (path_join (certificates_dir w) (cert_id oc @ ''.pdf'')) =
      Some (Pdf_file (render_pdf (body_cert_data b) (pdf_date oc))) \<and>
    outbox w' = outbox w @ [(t, m)] \<and>
    mail_attachments m =
      [(cert_id oc @ ''.jpg'', path_join (certificates_dir w) (cert_id oc @ ''.png'')),
       (cert_id oc @ ''.pdf'', path_join (certificates_dir w) (cert_id oc @ ''.pdf''))]"
  using assms fields_convert_parts [OF assms(3)] cert_files_distinct(2) [OF assms(6)] cert_id_no_sep [OF assms(6)]
  by (simp add: post_valid_test generate_certificate_def read_cert_data_obj generate_jpg_def
      write_file_sync_ready cert_file_path(2) seg_ok_cert_file png_path generate_pdf_ok
      send_certificate_email_def get_transporter_eq fs_exists_def cert_mail_def Let_def)

theorem post_jpeg_fallback_witness:
  "snd (post \<lparr>now_ms = 5, random36 = [1], jpg_date = ''d'', pdf_date = ''d'', jpeg_error = Some ''encoder'', png_error = None, pdf_stream_error = None, send_result = Inr ''m1'', verify_error = None\<rparr>
          \<lparr>cwd = ''/app'', dirs = {''/app/public/certificates''}, files = Map.empty, env = Map.empty, transporter = None, outbox = []\<rparr>
          (Inr (JObj [(''name'', JStr ''Jane Doe''), (''email'', JStr ''jane@example.com''), (''gstNumber'', JStr ''27AABCT1234H1Z0''), (''businessName'', JStr ''ABC Corp''), (''businessAddress'', JStr ''123 Main St'')]))) =
   \<lparr>status = 200, body = Ok_body ''Certificate generated and sent successfully''
      (cert_id \<lparr>now_ms = 5, random36 = [1], jpg_date = ''d'', pdf_date = ''d'', jpeg_error = Some ''encoder'', png_error = None, pdf_stream_error = None, send_result = Inr ''m1'', verify_error = None\<rparr>)\<rparr>"
  using post_jpeg_fallback [of "JObj [(''name'', JStr ''Jane Doe''), (''email'', JStr ''jane@example.com''), (''gstNumber'', JStr ''27AABCT1234H1Z0''), (''businessName'', JStr ''ABC Corp''), (''businessAddress'', JStr ''123 Main St'')]" "\<lparr>cwd = ''/app'', dirs = {''/app/public/certificates''}, files = Map.empty, env = Map.empty, transporter = None, outbox = []\<rparr>" "\<lparr>now_ms = 5, random36 = [1], jpg_date = ''d'', pdf_date = ''d'', jpeg_error = Some ''encoder'', png_error = None, pdf_stream_error = None, send_result = Inr ''m1'', verify_error = None\<rparr>"
      "''encoder''" "''m1''"]
  by (auto simp: required_fields_def js_prop_def js_truthy_opt_def js_str_opt_def email_regex_test_def is_js_space_def fields_convert_def certificates_dir_def path_join_list_def path_normalize_def Let_def dir_ready_def dirname_def)

text \<open>
  C12. Scenario E: when the transport rejects the message, the request is answered 500 with
  \<open>Failed to send email: <transport message>\<close>, and both generated files stay on disk.
\<close>

theorem post_send_failure:
  assumes "b \<noteq> JNull" and "list_all (\<lambda>f. js_truthy_opt (js_prop b f)) required_fields"
    and "fields_convert b" and "email_regex_test (js_str_opt (js_prop b ''email''))"
    and "dir_ready w (certificates_dir w)" and "list_all (\<lambda>d. d < 36) (random36 oc)"
    and "jpeg_error oc = None" and "pdf_stream_error oc = None" and "send_result oc = Inl msg"
  shows "\<exists>w'.
    post oc w (Inr b) = (w', \<lparr>status = 500, body = Err_body (''Failed to send email: '' @ msg)\<rparr>) \<and>
    files w' (path_join (certificates_dir w) (cert_id oc @ ''.jpg'')) \<noteq> None \<and>
    files w' (path_join (certificates_dir w) (cert_id oc @ ''.pdf'')) \<noteq> None \<and>
    outbox w' = outbox w"
  using assms fields_convert_parts [OF assms(3)] cert_files_distinct(1) [OF assms(6)]
  by (simp add: post_valid_test generate_certificate_ok send_certificate_email_def get_transporter_eq
      fs_exists_def err500_def Let_def)

theorem post_send_failure_witness:
  "snd (post \<lparr>now_ms = 5, random36 = [1], jpg_date = ''d'', pdf_date = ''d'', jpeg_error = None, png_error = None, pdf_stream_error = None, send_result = Inl ''535 Authentication failed'', verify_error = None\<rparr>
          \<lparr>cwd = ''/app'', dirs = {''/app/public/certificates''}, files = Map.empty, env = Map.empty, transporter = None, outbox = []\<rparr>
          (Inr (JObj [(''name'', JStr ''Jane Doe''), (''email'', JStr ''jane@example.com''), (''gstNumber'', JStr ''27AABCT1234H1Z0''), (''businessName'', JStr ''ABC Corp''), (''businessAddress'', JStr ''123 Main St'')]))) =
   \<lparr>status = 500, body = Err_body ''Failed to send email: 535 Authentication failed''\<rparr>"
  using post_send_failure [of "JObj [(''name'', JStr ''Jane Doe''), (''email'', JStr ''jane@example.com''), (''gstNumber'', JStr ''27AABCT1234H1Z0''), (''businessName'', JStr ''ABC Corp''), (''businessAddress'', JStr ''123 Main St'')]" "\<lparr>cwd = ''/app'', dirs = {''/app/public/certificates''}, files = Map.empty, env = Map.empty, transporter = None, outbox = []\<rparr>" "\<lparr>now_ms = 5, random36 = [1], jpg_date = ''d'', pdf_date = ''d'', jpeg_error = None, png_error = None, pdf_stream_error = None, send_result = Inl ''535 Authentication failed'', verify_error = None\<rparr>"
      "''535 Authentication failed''"]
  by (auto simp: required_fields_def js_prop_def js_truthy_opt_def js_str_opt_def email_regex_test_def is_js_space_def fields_convert_def certificates_dir_def path_join_list_def path_normalize_def Let_def dir_ready_def dirname_def)

text \<open>
  C31. An exception with an empty message is reported with the fallback text: a PDF stream
  error whose message is empty is answered 500 \<open>Failed to generate certificate\<close>.
\<close>

theorem post_empty_error_message:
  assumes "b \<noteq> JNull" and "list_all (\<lambda>f. js_truthy_opt (js_prop b f)) required_fields"
    and "fields_convert b" and "email_regex_test (js_str_opt (js_prop b ''email''))"
    and "dir_ready w (certificates_dir w)" and "list_all (\<lambda>d. d < 36) (random36 oc)"
    and "jpeg_error oc = None" and "pdf_stream_error oc = Some []"
  shows "snd (post oc w (Inr b)) = \<lparr>status = 500, body = Err_body ''Failed to generate certificate''\<rparr>"
  using assms fields_convert_parts [OF assms(3)]
  by (simp add: post_valid_test generate_certificate_def generate_steps Let_def cert_id_no_sep [OF assms(6)]
      err500_def)

theorem post_empty_error_message_witness:
  "snd (post \<lparr>now_ms = 5, random36 = [1], jpg_date = ''d'', pdf_date = ''d'', jpeg_error = None, png_error = None, pdf_stream_error = Some [], send_result = Inr ''m1'', verify_error = None\<rparr>
          \<lparr>cwd = ''/app'', dirs = {''/app/public/certificates''}, files = Map.empty, env = Map.empty, transporter = None, outbox = []\<rparr>
          (Inr (JObj [(''name'', JStr ''Jane Doe''), (''email'', JStr ''jane@example.com''), (''gstNumber'', JStr ''27AABCT1234H1Z0''), (''businessName'', JStr ''ABC Corp''), (''businessAddress'', JStr ''123 Main St'')]))) =
   \<lparr>status = 500, body = Err_body ''Failed to generate certificate''\<rparr>"
  using post_empty_error_message [of "JObj [(''name'', JStr ''Jane Doe''), (''email'', JStr ''jane@example.com''), (''gstNumber'', JStr ''27AABCT1234H1Z0''), (''businessName'', JStr ''ABC Corp''), (''businessAddress'', JStr ''123 Main St'')]" "\<lparr>cwd = ''/app'', dirs = {''/app/public/certificates''}, files = Map.empty, env = Map.empty, transporter = None, outbox = []\<rparr>" "\<lparr>now_ms = 5, random36 = [1], jpg_date = ''d'', pdf_date = ''d'', jpeg_error = None, png_error = None, pdf_stream_error = Some [], send_result = Inr ''m1'', verify_error = None\<rparr>"]
  by (simp add: required_fields_def js_prop_def js_truthy_opt_def js_str_opt_def email_regex_test_def is_js_space_def fields_convert_def certificates_dir_def path_join_list_def path_normalize_def Let_def dir_ready_def dirname_def)

text \<open>
  C13. A body whose required fields are truthy but one of which does not convert to a
  string (a JSON object with its own \<open>toString\<close> member, or an array holding one) is
  answered 500 with the \<open>TypeError\<close> of the conversion, and nothing is written or sent:
  the email's conversion throws in \<open>emailRegex.test\<close> (line 19), any other field's in
  the drawing of \<open>generateJPG\<close> (lines 88-108), before the first file write.
\<close>

theorem post_unconvertible_field:
  assumes "b \<noteq> JNull" and "list_all (\<lambda>f. js_truthy_opt (js_prop b f)) required_fields"
    and "\<not> fields_convert b"
    and "\<forall>s. js_ToString_opt (js_prop b ''email'') = Inr s \<longrightarrow> email_regex_test s"
  shows "post oc w (Inr b) = (w, \<lparr>status = 500, body = Err_body ''Cannot convert object to primitive value''\<rparr>)"
proof -
  have nomiss: "filter (\<lambda>f. \<not> js_truthy_opt (js_prop b f)) required_fields = []"
    using assms(2) by (simp add: list_all_iff filter_empty_conv)
  show ?thesis
  proof (cases "js_ToString_opt (js_prop b ''email'')")
    case (Inl e)
    then have "e = to_primitive_error" by (simp add: js_ToString_opt_Inl)
    then show ?thesis
      using assms(1) Inl nomiss by (simp add: post_def missing_fields_filter err500_def to_primitive_error_def)
  next
    case (Inr s)
    have "cert_text_error (body_cert_data b) \<noteq> None"
    proof
      assume "cert_text_error (body_cert_data b) = None"
      then have "list_all (\<lambda>v. \<not> isl (js_ToString_opt v))
          [js_prop b ''name'', js_prop b ''businessName'', js_prop b ''gstNumber'', js_prop b ''businessAddress'']"
        unfolding cert_text_error_def first_error_None by (simp add: body_cert_data_def)
      with Inr assms(3) show False by (auto simp: fields_convert_def required_fields_def)
    qed
    then obtain e where ce: "cert_text_error (body_cert_data b) = Some e" by blast
    then have "e = to_primitive_error" unfolding cert_text_error_def by (rule first_error_Some)
    with ce assms(1) have "generate_certificate oc w b = (w, Inl to_primitive_error)"
      by (simp add: generate_certificate_def read_cert_data_obj generate_jpg_def)
    moreover have "email_re_spec s"
      using assms(4) Inr email_regex_test_sound by blast
    ultimately show ?thesis
      using post_valid [OF assms(1,2) Inr] by (simp add: err500_def to_primitive_error_def)
  qed
qed

theorem post_unconvertible_field_witness:
  "post \<lparr>now_ms = 5, random36 = [1], jpg_date = ''d'', pdf_date = ''d'', jpeg_error = None, png_error = None, pdf_stream_error = None, send_result = Inr ''m1'', verify_error = None\<rparr>
          \<lparr>cwd = ''/app'', dirs = {''/app/public/certificates''}, files = Map.empty, env = Map.empty, transporter = None, outbox = []\<rparr>
          (Inr (JObj [(''name'', JStr ''Jane Doe''), (''email'', JStr ''jane@example.com''), (''gstNumber'', JStr ''27AABCT1234H1Z0''), (''businessName'', JObj [(''toString'', JNum 0)]), (''businessAddress'', JStr ''123 Main St'')])) =
   (\<lparr>cwd = ''/app'', dirs = {''/app/public/certificates''}, files = Map.empty, env = Map.empty, transporter = None, outbox = []\<rparr>,
    \<lparr>status = 500, body = Err_body ''Cannot convert object to primitive value''\<rparr>)"
  by (rule post_unconvertible_field)
     (simp_all add: required_fields_def js_prop_def js_truthy_opt_def fields_convert_def js_ToString_def
       email_regex_test_def is_js_space_def)

text \<open>
  C14. Handling a request keeps the file system well formed, whatever the body and
  whatever the external calls answer: the working directory and the directories stay as
  they were, and no file disappears (a failed request may leave the files it wrote).
\<close>

theorem post_preserves_fs:
  assumes "wf_world w"
  shows "wf_world (fst (post oc w req)) \<and> fs_grows w (fst (post oc w req))"
proof (cases req)
  case (Inl e)
  then show ?thesis using assms by (simp add: post_def)
next
  case (Inr b)
  obtain w1 r1 where g: "generate_certificate oc w b = (w1, r1)" by fastforce
  have g1: "wf_world w1" "fs_grows w w1"
    using generate_certificate_inv [of w oc b] assms g by simp_all
  have s: "wf_world w2 \<and> fs_grows w w2" if "send_certificate_email oc w1 em cd = (w2, r)" for em cd w2 r
    using send_certificate_email_inv [OF that] g1 fs_grows_trans by blast
  show ?thesis
    unfolding post_def Inr using assms g g1 s by (auto split: sum.split prod.split)
qed

theorem post_preserves_fs_witness:
  "wf_world (fst (post \<lparr>now_ms = 5, random36 = [1], jpg_date = ''d'', pdf_date = ''d'', jpeg_error = None, png_error = None, pdf_stream_error = None, send_result = Inr ''m1'', verify_error = None\<rparr>
          \<lparr>cwd = ''/app'', dirs = {''/app'', ''/app/public'', ''/app/public/certificates''}, files = Map.empty, env = Map.empty, transporter = None, outbox = []\<rparr>
          (Inr (JObj [(''name'', JStr ''Jane Doe''), (''email'', JStr ''jane@example.com''), (''gstNumber'', JStr ''27AABCT1234H1Z0''), (''businessName'', JStr ''ABC Corp''), (''businessAddress'', JStr ''123 Main St'')]))))"
proof -
  have p1: "path_prefixes ''/app'' = [''/app'']"
    by (simp add: path_prefixes_def upt_rec)
  have p2: "path_prefixes ''/app/public'' = [''/app'', ''/app/public'']"
    by (simp add: path_prefixes_def upt_rec)
  have p3: "path_prefixes ''/app/public/certificates'' = [''/app'', ''/app/public'', ''/app/public/certificates'']"
    by (simp add: path_prefixes_def upt_rec)
  have "wf_world \<lparr>cwd = ''/app'', dirs = {''/app'', ''/app/public'', ''/app/public/certificates''}, files = Map.empty, env = Map.empty, transporter = None, outbox = []\<rparr>"
    by (simp add: wf_world_def p1 p2 p3)
  then show ?thesis
    using post_preserves_fs by blast
qed

subsection \<open>The form and the handler together\<close>

text \<open>
  C28. Every body the form sends passes the handler's required-field check: the browser
  only submits a form whose fields are all filled, and the form serialises them as
  non-empty strings.
\<close>

theorem form_request_has_fields:
  assumes "sent_by s ev = Some b"
  shows "missing_fields b required_fields = Inr []"
  using assms by (auto simp: sent_by_def submit_enabled_def split: if_splits intro: form_body_fields)

theorem form_request_has_fields_witness:
  "missing_fields (form_body (formData (form_run form_init demo_filled))) required_fields = Inr []"
  using form_request_has_fields [of "form_run form_init demo_filled" Submit]
  by (simp add: sent_by_def form_run_def demo_filled_def form_init_def submit_enabled_def all_filled_def)

text \<open>
  C29. The form shows the handler's answer to the request it sent: a 200 answer turns
  into the success message with the submitted address and clears the fields; any other
  answer shows the handler's error message verbatim and keeps the fields.
\<close>

theorem form_shows_post_answer:
  assumes "pending s = Some d"
  shows "(status (snd (post oc w (Inr (form_body d)))) = 200 \<and>
          message (form_step s (Reply (status (snd (post oc w (Inr (form_body d)))))
                      (Inr (response_json (snd (post oc w (Inr (form_body d)))))))) =
            ''Success! Certificate has been generated and sent to '' @ fd_email d \<and>
          formData (form_step s (Reply (status (snd (post oc w (Inr (form_body d)))))
                      (Inr (response_json (snd (post oc w (Inr (form_body d)))))))) = empty_form) \<or>
         (\<exists>m. body (snd (post oc w (Inr (form_body d)))) = Err_body m \<and>
          error (form_step s (Reply (status (snd (post oc w (Inr (form_body d)))))
                      (Inr (response_json (snd (post oc w (Inr (form_body d)))))))) = m \<and>
          formData (form_step s (Reply (status (snd (post oc w (Inr (form_body d)))))
                      (Inr (response_json (snd (post oc w (Inr (form_body d)))))))) = formData s)"
  using post_response_shape [of oc w "Inr (form_body d)"] assms
  by (auto simp: settle_def reply_outcome_def response_json_def shown_error_def js_truthy_opt_def js_str_opt_def)

theorem form_shows_post_answer_witness:
  "error (form_step (form_run form_init [Change Field_name ''Jane'', Change Field_email ''not-an-email'', Change Field_gstNumber ''27A'', Change Field_businessName ''ABC'', Change Field_businessAddress ''Main'', Submit])
     (Reply (status (snd (post \<lparr>now_ms = 5, random36 = [1], jpg_date = ''d'', pdf_date = ''d'', jpeg_error = None, png_error = None, pdf_stream_error = None, send_result = Inr ''m1'', verify_error = None\<rparr>
       \<lparr>cwd = ''/app'', dirs = {''/app/public/certificates''}, files = Map.empty, env = Map.empty, transporter = None, outbox = []\<rparr> (Inr (form_body (empty_form\<lparr>fd_name := ''Jane'', fd_email := ''not-an-email'', fd_gstNumber := ''27A'', fd_businessName := ''ABC'', fd_businessAddress := ''Main''\<rparr>))))))
        (Inr (response_json (snd (post \<lparr>now_ms = 5, random36 = [1], jpg_date = ''d'', pdf_date = ''d'', jpeg_error = None, png_error = None, pdf_stream_error = None, send_result = Inr ''m1'', verify_error = None\<rparr>
       \<lparr>cwd = ''/app'', dirs = {''/app/public/certificates''}, files = Map.empty, env = Map.empty, transporter = None, outbox = []\<rparr> (Inr (form_body (empty_form\<lparr>fd_name := ''Jane'', fd_email := ''not-an-email'', fd_gstNumber := ''27A'', fd_businessName := ''ABC'', fd_businessAddress := ''Main''\<rparr>))))))))) =
   ''Invalid email address''"
  using form_shows_post_answer [of "form_run form_init [Change Field_name ''Jane'', Change Field_email ''not-an-email'', Change Field_gstNumber ''27A'', Change Field_businessName ''ABC'', Change Field_businessAddress ''Main'', Submit]"
      "empty_form\<lparr>fd_name := ''Jane'', fd_email := ''not-an-email'', fd_gstNumber := ''27A'', fd_businessName := ''ABC'', fd_businessAddress := ''Main''\<rparr>"
      "\<lparr>now_ms = 5, random36 = [1], jpg_date = ''d'', pdf_date = ''d'', jpeg_error = None, png_error = None, pdf_stream_error = None, send_result = Inr ''m1'', verify_error = None\<rparr>" "\<lparr>cwd = ''/app'', dirs = {''/app/public/certificates''}, files = Map.empty, env = Map.empty, transporter = None, outbox = []\<rparr>"]
  by (simp add: form_run_def form_init_def submit_enabled_def all_filled_def empty_form_def
      post_def form_body_def required_fields_def js_prop_def js_truthy_opt_def js_str_opt_def
      email_regex_test_def is_js_space_def)

end
